theory Spec2Isabelle
  imports Complex_Main
begin

section \<open>The runtime mesh component: data model\<close>

text \<open>
  The development embeds \<^verbatim>\<open>Source/Public/RuntimeMeshComponent.h\<close>: the class
  \<^verbatim>\<open>URuntimeMeshComponent\<close> with its validation macros, \<^verbatim>\<open>CreateOrResetSection\<close>,
  the four typed \<^verbatim>\<open>CreateMeshSection\<close> templates, the eight typed
  \<^verbatim>\<open>UpdateMeshSection\<close> templates, \<^verbatim>\<open>Log\<close> and \<^verbatim>\<open>BeginBatchUpdates\<close>.

  Conventions of the embedding.
  \<^item> A member function becomes a function from the component before the call to the
    component after it. A \<^verbatim>\<open>TArray\<close> is a list, \<^verbatim>\<open>Num()\<close> is \<open>length\<close>, an
    \<^verbatim>\<open>int32\<close> is an \<open>int\<close>. The header compares \<^verbatim>\<open>int32\<close> values and adds
    them in one place, \<^verbatim>\<open>SectionIndex + 1\<close> in \<^verbatim>\<open>CreateOrResetSection\<close>; that sum
    is \<open>AddInt32\<close>, which has no value outside the \<^verbatim>\<open>int32\<close> range (signed
    overflow is undefined).
  \<^item> A call that returns gives the component after it (\<open>Inr\<close>). A call that ends
    without returning gives how it ended together with the component as it is at that
    point (\<open>Inl\<close>), so that what the call had already written, logged or handed to a
    collaborator when it ended can be read off.
  \<^item> A \<^verbatim>\<open>TSharedPtr\<close> to a section is an optional section (\<open>None\<close> is the
    null pointer). The local \<^verbatim>\<open>Section\<close> of a template aliases the slot of
    \<^verbatim>\<open>MeshSections\<close>; the embedding works on the section value and writes it back
    to the slot (\<open>StoreSection\<close>) before the finishing call.
  \<^item> The template parameter \<^verbatim>\<open>VertexType\<close> is passed as a value, the layout tag of
    the caller's vertex type, next to the type variable \<open>'v\<close> of the vertices.
  \<^item> A float coordinate is a \<open>real\<close>; only comparisons are made on them.
  \<^item> What a call hands to a collaborator is recorded in the component: the lines given to
    the logger (\<open>LogOutput\<close>), the synchronisations of the render proxy
    (\<open>SyncTrace\<close>) and the bake requests given to the scheduler (\<open>BakeRequests\<close>).
  \<^item> The caller's arrays are arguments only: what \<^verbatim>\<open>MoveArrays\<close> leaves in them after
    the call is not part of the component and is not modelled.
  \<^item> The render proxy, the materials, the body setup that holds the cooked collision and the
    aggregate local bounds of the component are outside the model: no statement below is
    about them.
  \<^item> The header only declares the members of the section
    (\<^verbatim>\<open>RuntimeMeshSection.h\<close>), of the vertex type descriptor and of the batch state,
    and the members of the component defined in \<^verbatim>\<open>RuntimeMeshComponent.cpp\<close>. Those the
    development needs are modelled from the specification of the component; the comment
    of each such definition begins with ``Modelled from the spec''.
\<close>

type_synonym FVector = "real \<times> real \<times> real"

text \<open>\<^verbatim>\<open>FBox\<close> of the engine: two corners and the \<^verbatim>\<open>IsValid\<close> flag the macro
  \<^verbatim>\<open>RMC_VALIDATE_BOUNDINGBOX\<close> reads.\<close>

record FBox =
  BoxMin :: FVector
  BoxMax :: FVector
  IsValid :: bool

text \<open>The layout tag of a vertex type (what \<^verbatim>\<open>GetVertexType()\<close> returns).\<close>

type_synonym vertex_type = string

text \<open>\<^verbatim>\<open>EUpdateFrequency\<close>: the header names \<^verbatim>\<open>Average\<close>; the other two enumerators stand
  for the remaining values of the enumeration.\<close>

datatype EUpdateFrequency = Average | Frequent | Infrequent

text \<open>\<^verbatim>\<open>ESectionUpdateFlags\<close> is a bit mask; it is modelled as the set of its bits, so
  \<^verbatim>\<open>ESectionUpdateFlags::None\<close> is the empty set and \<^verbatim>\<open>&\<close> is intersection.\<close>

datatype ESectionUpdateFlag = MoveArrays | OtherUpdateFlag nat

type_synonym ESectionUpdateFlags = "ESectionUpdateFlag set"

text \<open>One mesh section (\<^verbatim>\<open>FRuntimeMeshSection<VertexType>\<close> with the members of its
  interface that the header reads or writes).\<close>

record 'v FRuntimeMeshSection =
  SectionVertexType :: vertex_type
  bNeedsPositionOnlyBuffer :: bool
  bIsInternalSectionType :: bool
  PositionVertexBuffer :: "FVector list"
  VertexBuffer :: "'v list"
  IndexBuffer :: "int list"
  LocalBoundingBox :: FBox
  CollisionEnabled :: bool
  UpdateFrequency :: EUpdateFrequency
  bIsVisible :: bool
  bCastsShadow :: bool

definition IsDualBufferSection :: "'v FRuntimeMeshSection \<Rightarrow> bool" where
  "IsDualBufferSection s = bNeedsPositionOnlyBuffer s"

definition GetVertexType :: "'v FRuntimeMeshSection \<Rightarrow> vertex_type" where
  "GetVertexType s = SectionVertexType s"

datatype ELogVerbosity = Error | Warning

text \<open>One call of the render-proxy collaborator,
  \<^verbatim>\<open>syncSection(index, whichPartsChanged, snapshot)\<close>.\<close>

record 'v sync_call =
  SyncIndex :: int
  SyncPositions :: bool
  SyncVertices :: bool
  SyncIndices :: bool
  SyncBounds :: bool
  SyncSnapshot :: "'v FRuntimeMeshSection option"

text \<open>\<^verbatim>\<open>FRuntimeMeshBatchUpdateState\<close>: whether a batch is open, and the section indices
  touched since it began (kept without repetition, in the order of the first touch).\<close>

record FRuntimeMeshBatchUpdateState =
  bIsBatchPending :: bool
  TouchedSections :: "int list"

text \<open>The component: the private members \<^verbatim>\<open>MeshSections\<close>, \<^verbatim>\<open>BatchState\<close>,
  \<^verbatim>\<open>bCollisionDirty\<close>, \<^verbatim>\<open>MeshCollisionSections\<close> and \<^verbatim>\<open>ConvexCollisionSections\<close> of the
  header; whether the one-shot tick that runs the bake is registered (\<open>bTickPending\<close>, the
  enabled state of \<^verbatim>\<open>PrePhysicsTick\<close>); and what the collaborators have received.\<close>

record 'v component =
  MeshSections :: "'v FRuntimeMeshSection option list"
  BatchState :: FRuntimeMeshBatchUpdateState
  bCollisionDirty :: bool
  bTickPending :: bool
  BakeRequests :: nat
  MeshCollisionSections :: "(FVector list \<times> int list) list"
  ConvexCollisionSections :: "FVector list list"
  SyncTrace :: "'v sync_call list"
  LogOutput :: "(ELogVerbosity \<times> string) list"

text \<open>What the header takes from elsewhere and does not fix: whether the engine's
  \<^verbatim>\<open>check\<close> is compiled in (\<open>DoCheck\<close>), how a vertex of the caller's type gives its
  position, and the values the section constructor gives to the members the header does
  not assign.\<close>

record 'v env =
  DoCheck :: bool
  PositionOf :: "'v \<Rightarrow> FVector"
  CtorCollisionEnabled :: bool
  CtorUpdateFrequency :: EUpdateFrequency
  CtorIsVisible :: bool
  CtorCastsShadow :: bool
  CtorBoundingBox :: FBox

text \<open>How a call can end without returning: a failed \<^verbatim>\<open>check\<close> (the engine's assertion
  stops the program with the message), a vertex type that is not the section's, a section
  index that names no section in a call that reports it, and a run the sources leave
  undefined (an array read or write out of range, a null section dereferenced, a section
  method used where it is not legal).\<close>

datatype error =
  CheckFailed string
  | LayoutMismatch vertex_type vertex_type
  | InvalidSectionIndex int
  | Unspecified

text \<open>The result of a call on the component: the component after a call that returned, or
  how the call ended and the component as it was left at that point.\<close>

type_synonym 'v outcome = "(error \<times> 'v component) + 'v component"

section \<open>Validation macros and the logger\<close>

text \<open>The engine's \<^verbatim>\<open>check(expr && "message")\<close>: with checks compiled in, a false
  expression stops the program; compiled out, the expression is not evaluated.\<close>

definition check :: "'v env \<Rightarrow> bool \<Rightarrow> string \<Rightarrow> error option" where
  "check env expr msg = (if DoCheck env \<and> \<not> expr then Some (CheckFailed msg) else None)"

text \<open>Statements in sequence: the first one that fails ends the run.\<close>

fun first_failure :: "error option list \<Rightarrow> error option" where
  "first_failure [] = None"
| "first_failure (None # rest) = first_failure rest"
| "first_failure (Some e # rest) = Some e"

definition RMC_VALIDATE_CREATIONPARAMETERS ::
  "'v env \<Rightarrow> int \<Rightarrow> 'a list \<Rightarrow> int list \<Rightarrow> error option" where
  "RMC_VALIDATE_CREATIONPARAMETERS env SectionIndex Vertices Triangles =
     first_failure
       [check env (SectionIndex \<ge> 0) ''SectionIndex cannot be negative.'',
        check env (length Vertices > 0) ''Vertices length must not be 0.'',
        check env (length Triangles > 0) ''Triangles length must not be 0'']"

definition RMC_VALIDATE_CREATIONPARAMETERS_DUALBUFFER ::
  "'v env \<Rightarrow> int \<Rightarrow> 'a list \<Rightarrow> int list \<Rightarrow> FVector list \<Rightarrow> error option" where
  "RMC_VALIDATE_CREATIONPARAMETERS_DUALBUFFER env SectionIndex Vertices Triangles Positions =
     first_failure
       [RMC_VALIDATE_CREATIONPARAMETERS env SectionIndex Vertices Triangles,
        check env (length Positions = length Vertices)
          ''Positions must be the same length as Vertices'']"

definition RMC_VALIDATE_BOUNDINGBOX :: "'v env \<Rightarrow> FBox \<Rightarrow> error option" where
  "RMC_VALIDATE_BOUNDINGBOX env BoundingBox =
     check env (IsValid BoundingBox) ''BoundingBox must be valid.''"

text \<open>\<^verbatim>\<open>MeshSections[SectionIndex]\<close> read as a value; the reads of the macros stand behind
  the range test of the same \<^verbatim>\<open>check\<close>, so out of range they are never made and the
  slot counts as null here.\<close>

definition SectionSlot :: "'v component \<Rightarrow> int \<Rightarrow> 'v FRuntimeMeshSection option" where
  "SectionSlot st SectionIndex =
     (if 0 \<le> SectionIndex \<and> SectionIndex < int (length (MeshSections st))
      then MeshSections st ! nat SectionIndex else None)"

definition RMC_VALIDATE_UPDATEPARAMETERS :: "'v env \<Rightarrow> 'v component \<Rightarrow> int \<Rightarrow> error option" where
  "RMC_VALIDATE_UPDATEPARAMETERS env st SectionIndex =
     first_failure
       [check env (SectionIndex \<ge> 0) ''SectionIndex cannot be negative.'',
        check env (SectionIndex < int (length (MeshSections st)) \<and>
                   SectionSlot st SectionIndex \<noteq> None) ''Invalid SectionIndex.'']"

definition RMC_VALIDATE_UPDATEPARAMETERS_INTERNALSECTION ::
  "'v env \<Rightarrow> 'v component \<Rightarrow> int \<Rightarrow> error option" where
  "RMC_VALIDATE_UPDATEPARAMETERS_INTERNALSECTION env st SectionIndex =
     first_failure
       [RMC_VALIDATE_UPDATEPARAMETERS env st SectionIndex,
        check env (case SectionSlot st SectionIndex of
                     Some s \<Rightarrow> bIsInternalSectionType s | None \<Rightarrow> False)
          ''Section is not of legacy type.'']"

definition RMC_VALIDATE_UPDATEPARAMETERS_DUALBUFFER ::
  "'v env \<Rightarrow> 'v component \<Rightarrow> int \<Rightarrow> error option" where
  "RMC_VALIDATE_UPDATEPARAMETERS_DUALBUFFER env st SectionIndex =
     first_failure
       [RMC_VALIDATE_UPDATEPARAMETERS env st SectionIndex,
        check env (case SectionSlot st SectionIndex of
                     Some s \<Rightarrow> IsDualBufferSection s | None \<Rightarrow> False)
          ''Section is not dual buffer.'']"

text \<open>\<^verbatim>\<open>Log(Text, bIsError)\<close>: one line to the logger, an error or a warning.\<close>

definition Log :: "string \<Rightarrow> bool \<Rightarrow> 'v component \<Rightarrow> 'v component" where
  "Log Text bIsError st =
     (if bIsError then st\<lparr>LogOutput := LogOutput st @ [(Error, Text)]\<rparr>
      else st\<lparr>LogOutput := LogOutput st @ [(Warning, Text)]\<rparr>)"

section \<open>The section's buffers\<close>

text \<open>Modelled from the spec: the scan that computes a section's box is part of the section
  (\<^verbatim>\<open>RuntimeMeshSection.h\<close>, not among the sources). One step of the scan widens the box
  to hold one more position.\<close>

definition ExpandBox :: "FBox \<Rightarrow> FVector \<Rightarrow> FBox" where
  "ExpandBox b p =
     (case (BoxMin b, BoxMax b, p) of
        ((x0, y0, z0), (x1, y1, z1), (x, y, z)) \<Rightarrow>
          \<lparr>BoxMin = (min x0 x, min y0 y, min z0 z),
           BoxMax = (max x1 x, max y1 y, max z1 z),
           IsValid = True\<rparr>)"

text \<open>Modelled from the spec: the box of a sequence of positions, by one linear scan. The
  first position is both corners and every later one widens the box; no position at all
  gives a box that is not valid.\<close>

fun BoxOfPositions :: "FVector list \<Rightarrow> FBox" where
  "BoxOfPositions [] = \<lparr>BoxMin = (0, 0, 0), BoxMax = (0, 0, 0), IsValid = False\<rparr>"
| "BoxOfPositions (p # ps) = foldl ExpandBox \<lparr>BoxMin = p, BoxMax = p, IsValid = True\<rparr> ps"

text \<open>Modelled from the spec: the section constructor
  \<^verbatim>\<open>FRuntimeMeshSection<VertexType>(bWantsSeparatePositionBuffer)\<close> is declared in
  \<^verbatim>\<open>RuntimeMeshSection.h\<close>, which is not among the sources. The new section records the
  layout tag of its vertex type and whether it is dual-buffer (both fixed at creation), has
  empty buffers, and gets the constructor's values for every other member.\<close>

definition NewFRuntimeMeshSection ::
  "'v env \<Rightarrow> vertex_type \<Rightarrow> bool \<Rightarrow> 'v FRuntimeMeshSection" where
  "NewFRuntimeMeshSection env VertexType bWantsSeparatePositionBuffer =
     \<lparr>SectionVertexType = VertexType,
      bNeedsPositionOnlyBuffer = bWantsSeparatePositionBuffer,
      bIsInternalSectionType = False,
      PositionVertexBuffer = [],
      VertexBuffer = [],
      IndexBuffer = [],
      LocalBoundingBox = CtorBoundingBox env,
      CollisionEnabled = CtorCollisionEnabled env,
      UpdateFrequency = CtorUpdateFrequency env,
      bIsVisible = CtorIsVisible env,
      bCastsShadow = CtorCastsShadow env\<rparr>"

text \<open>Modelled from the spec: \<^verbatim>\<open>UpdateVertexBuffer\<close> of the section
  (\<^verbatim>\<open>RuntimeMeshSection.h\<close>, not among the sources). It replaces the vertex buffer. A
  supplied box becomes the section's box; without one the box is computed by a linear scan
  over the positions, and it returns whether the box changed. The spec has the box
  recomputed only when the positions change: in a dual-buffer section the positions are
  in the position buffer, which this call leaves alone, and the vertex buffer holds
  ``everything except position'' (the header's words for \<^verbatim>\<open>VertexData\<close>), so there the
  call with no box has nothing to scan and keeps the box. This is also how the header
  uses it: the dual-buffer templates give the caller's box to
  \<^verbatim>\<open>UpdateVertexPositionBuffer\<close> and then call \<^verbatim>\<open>UpdateVertexBuffer\<close> with no box.\<close>

definition UpdateVertexBuffer ::
  "'v env \<Rightarrow> 'v list \<Rightarrow> FBox option \<Rightarrow> bool \<Rightarrow> 'v FRuntimeMeshSection
     \<Rightarrow> bool \<times> 'v FRuntimeMeshSection" where
  "UpdateVertexBuffer env Vertices BoundingBox bShouldUseMove s =
     (let s1 = s\<lparr>VertexBuffer := Vertices\<rparr> in
      case BoundingBox of
        Some b \<Rightarrow> (b \<noteq> LocalBoundingBox s, s1\<lparr>LocalBoundingBox := b\<rparr>)
      | None \<Rightarrow>
          if IsDualBufferSection s then (False, s1)
          else
            (let b = BoxOfPositions (map (PositionOf env) Vertices)
             in (b \<noteq> LocalBoundingBox s, s1\<lparr>LocalBoundingBox := b\<rparr>)))"

text \<open>Modelled from the spec: \<^verbatim>\<open>UpdateVertexPositionBuffer\<close> of the section
  (\<^verbatim>\<open>RuntimeMeshSection.h\<close>, not among the sources). It is legal only on a dual-buffer
  section; it replaces the position buffer, takes the supplied box or scans the new
  positions for one, and returns whether the box changed. It does not compare the length
  of the positions with the vertex buffer (the component does).\<close>

definition UpdateVertexPositionBuffer ::
  "'v env \<Rightarrow> FVector list \<Rightarrow> FBox option \<Rightarrow> bool \<Rightarrow> 'v FRuntimeMeshSection
     \<Rightarrow> error + bool \<times> 'v FRuntimeMeshSection" where
  "UpdateVertexPositionBuffer env Positions BoundingBox bShouldUseMove s =
     (if \<not> IsDualBufferSection s then Inl Unspecified
      else
        (let b = (case BoundingBox of Some b \<Rightarrow> b | None \<Rightarrow> BoxOfPositions Positions)
         in Inr (b \<noteq> LocalBoundingBox s,
                 s\<lparr>PositionVertexBuffer := Positions, LocalBoundingBox := b\<rparr>)))"

text \<open>Modelled from the spec: \<^verbatim>\<open>UpdateIndexBuffer\<close> of the section
  (\<^verbatim>\<open>RuntimeMeshSection.h\<close>, not among the sources). It replaces the index buffer and
  has no effect on the box.\<close>

definition UpdateIndexBuffer ::
  "int list \<Rightarrow> bool \<Rightarrow> 'v FRuntimeMeshSection \<Rightarrow> 'v FRuntimeMeshSection" where
  "UpdateIndexBuffer Triangles bShouldUseMove s = s\<lparr>IndexBuffer := Triangles\<rparr>"

text \<open>Modelled from the spec: \<^verbatim>\<open>EnsureEquals<VertexType>()\<close> of the section's vertex
  type descriptor (\<^verbatim>\<open>RuntimeMeshGenericVertex.h\<close>, not among the sources). It fails with
  a layout mismatch when the caller's vertex type is not the one recorded at creation.\<close>

definition EnsureEquals :: "vertex_type \<Rightarrow> vertex_type \<Rightarrow> error option" where
  "EnsureEquals Recorded VertexType =
     (if Recorded = VertexType then None else Some (LayoutMismatch Recorded VertexType))"

section \<open>Synchronisation, batches and the collision flag\<close>

text \<open>Modelled from the spec: \<^verbatim>\<open>MarkCollisionDirty\<close> is declared in the header and
  defined in \<^verbatim>\<open>RuntimeMeshComponent.cpp\<close>, which is not among the sources. It sets the
  dirty flag and, if no request is pending, asks the scheduler for one run of the bake.\<close>

definition MarkCollisionDirty :: "'v component \<Rightarrow> 'v component" where
  "MarkCollisionDirty st =
     st\<lparr>bCollisionDirty := True,
        BakeRequests := (if bTickPending st then BakeRequests st else BakeRequests st + 1),
        bTickPending := True\<rparr>"

text \<open>Modelled from the spec: one synchronisation of the render proxy for a section, with
  the parts that changed and the section as it is now.\<close>

definition SyncSection ::
  "int \<Rightarrow> bool \<Rightarrow> bool \<Rightarrow> bool \<Rightarrow> bool \<Rightarrow> 'v component \<Rightarrow> 'v component" where
  "SyncSection SectionIndex bPositions bVertices bIndices bBounds st =
     st\<lparr>SyncTrace := SyncTrace st @
          [\<lparr>SyncIndex = SectionIndex, SyncPositions = bPositions, SyncVertices = bVertices,
            SyncIndices = bIndices, SyncBounds = bBounds,
            SyncSnapshot = SectionSlot st SectionIndex\<rparr>]\<rparr>"

text \<open>Modelled from the spec: the batch state (\<^verbatim>\<open>RuntimeMeshCore.h\<close>, not among the
  sources) records a section index in its touched set, once.\<close>

definition MarkSectionTouched ::
  "int \<Rightarrow> FRuntimeMeshBatchUpdateState \<Rightarrow> FRuntimeMeshBatchUpdateState" where
  "MarkSectionTouched SectionIndex b =
     (if SectionIndex \<in> set (TouchedSections b) then b
      else b\<lparr>TouchedSections := TouchedSections b @ [SectionIndex]\<rparr>)"

text \<open>Modelled from the spec: how the finishing calls (defined in
  \<^verbatim>\<open>RuntimeMeshComponent.cpp\<close>, not among the sources) end. While a batch is open the
  section index is recorded in the touched set and the call returns without synchronising;
  otherwise the section is synchronised at once.\<close>

definition SyncOrDefer ::
  "int \<Rightarrow> bool \<Rightarrow> bool \<Rightarrow> bool \<Rightarrow> bool \<Rightarrow> 'v component \<Rightarrow> 'v component" where
  "SyncOrDefer SectionIndex bPositions bVertices bIndices bBounds st =
     (if bIsBatchPending (BatchState st)
      then st\<lparr>BatchState := MarkSectionTouched SectionIndex (BatchState st)\<rparr>
      else SyncSection SectionIndex bPositions bVertices bIndices bBounds st)"

text \<open>Modelled from the spec: what the finishing calls (defined in
  \<^verbatim>\<open>RuntimeMeshComponent.cpp\<close>, not among the sources) do for the collision. A change of
  the geometry of a section with collision enabled marks the collision dirty.\<close>

definition MarkCollisionDirtyIfEnabled :: "int \<Rightarrow> 'v component \<Rightarrow> 'v component" where
  "MarkCollisionDirtyIfEnabled SectionIndex st =
     (case SectionSlot st SectionIndex of
        Some s \<Rightarrow> if CollisionEnabled s then MarkCollisionDirty st else st
      | None \<Rightarrow> st)"

text \<open>Modelled from the spec: \<^verbatim>\<open>CreateSectionInternal\<close> is declared in the header and
  defined in \<^verbatim>\<open>RuntimeMeshComponent.cpp\<close>, which is not among the sources. It finishes a
  creation: the section is entered for the open batch or synchronised directly, with every
  part.\<close>

definition CreateSectionInternal :: "int \<Rightarrow> 'v component \<Rightarrow> 'v component" where
  "CreateSectionInternal SectionIndex st =
     SyncOrDefer SectionIndex True True True True (MarkCollisionDirtyIfEnabled SectionIndex st)"

text \<open>Modelled from the spec: \<^verbatim>\<open>UpdateSectionInternal\<close> is declared in the header and
  defined in \<^verbatim>\<open>RuntimeMeshComponent.cpp\<close>, which is not among the sources. It finishes an
  update: the section is entered for the open batch or synchronised directly, with the
  parts that changed.\<close>

definition UpdateSectionInternal ::
  "int \<Rightarrow> bool \<Rightarrow> bool \<Rightarrow> bool \<Rightarrow> bool \<Rightarrow> 'v component \<Rightarrow> 'v component" where
  "UpdateSectionInternal SectionIndex bHadVertexPositionsUpdate bHadVertexUpdates
       bHadIndexUpdates bNeedsBoundsUpdate st =
     SyncOrDefer SectionIndex bHadVertexPositionsUpdate bHadVertexUpdates bHadIndexUpdates
       bNeedsBoundsUpdate (MarkCollisionDirtyIfEnabled SectionIndex st)"

text \<open>Modelled from the spec: \<^verbatim>\<open>UpdateSectionPropertiesInternal\<close> is declared in the
  header and defined in \<^verbatim>\<open>RuntimeMeshComponent.cpp\<close>, which is not among the sources. It
  finishes a property change: the section is entered for the open batch or synchronised
  directly, with no part of the geometry changed. Whether the render proxy is built anew
  (the flag) is the render side's matter and is not modelled.\<close>

definition UpdateSectionPropertiesInternal :: "int \<Rightarrow> bool \<Rightarrow> 'v component \<Rightarrow> 'v component" where
  "UpdateSectionPropertiesInternal SectionIndex bUpdateRequiresProxyRecreateIfStatic st =
     SyncOrDefer SectionIndex False False False False st"

text \<open>Modelled from the spec: \<^verbatim>\<open>StartBatch\<close> of the batch state
  (\<^verbatim>\<open>RuntimeMeshCore.h\<close>, not among the sources): the batch is open and the touched set
  is empty.\<close>

definition StartBatch :: "FRuntimeMeshBatchUpdateState \<Rightarrow> FRuntimeMeshBatchUpdateState" where
  "StartBatch b = b\<lparr>bIsBatchPending := True, TouchedSections := []\<rparr>"

text \<open>\<^verbatim>\<open>BeginBatchUpdates\<close>, from the header.\<close>

definition BeginBatchUpdates :: "'v component \<Rightarrow> 'v component" where
  "BeginBatchUpdates st = st\<lparr>BatchState := StartBatch (BatchState st)\<rparr>"

text \<open>Modelled from the spec: \<^verbatim>\<open>EndBatchUpdates\<close> is declared in the header and defined
  in \<^verbatim>\<open>RuntimeMeshComponent.cpp\<close>, which is not among the sources. It goes once through
  the touched set with a full synchronisation of each section, and closes the batch; with
  no batch open it does nothing. (It then recomputes the aggregate local bounds, which are
  outside the model.)\<close>

definition EndBatchUpdates :: "'v component \<Rightarrow> 'v component" where
  "EndBatchUpdates st =
     (if bIsBatchPending (BatchState st)
      then (foldl (\<lambda>acc SectionIndex. SyncSection SectionIndex True True True True acc) st
              (TouchedSections (BatchState st)))
           \<lparr>BatchState := \<lparr>bIsBatchPending = False, TouchedSections = []\<rparr>\<rparr>
      else st)"

section \<open>Creating sections\<close>

text \<open>\<^verbatim>\<open>TArray::SetNum(NewNum, false)\<close>: new slots are null pointers.\<close>

definition SetNum :: "'a option list \<Rightarrow> int \<Rightarrow> 'a option list" where
  "SetNum xs NewNum =
     (if int (length xs) \<le> NewNum then xs @ replicate (nat NewNum - length xs) None
      else take (nat NewNum) xs)"

text \<open>A write through the section pointer held in the slot \<^verbatim>\<open>MeshSections[SectionIndex]\<close>.\<close>

definition StoreSection :: "int \<Rightarrow> 'v FRuntimeMeshSection \<Rightarrow> 'v component \<Rightarrow> 'v component" where
  "StoreSection SectionIndex s st =
     st\<lparr>MeshSections := (MeshSections st)[nat SectionIndex := Some s]\<rparr>"

text \<open>The bounds of \<^verbatim>\<open>int32\<close> and its addition: the sum when it is an \<^verbatim>\<open>int32\<close>,
  and no value when it overflows.\<close>

definition MAX_int32 :: int where
  "MAX_int32 = 2147483647"

definition MIN_int32 :: int where
  "MIN_int32 = - 2147483648"

definition AddInt32 :: "int \<Rightarrow> int \<Rightarrow> int option" where
  "AddInt32 a b = (if MIN_int32 \<le> a + b \<and> a + b \<le> MAX_int32 then Some (a + b) else None)"

text \<open>\<^verbatim>\<open>CreateOrResetSection<SectionType>\<close>. When the index is not below
  \<^verbatim>\<open>MeshSections.Num()\<close> the registry is grown to \<^verbatim>\<open>SectionIndex + 1\<close> slots; at the
  index \<^verbatim>\<open>MAX_int32\<close> that sum overflows and the run is undefined from there. The
  assignment to the slot is out of range for a negative index (reached only with the
  checks compiled out). In both cases nothing has been written to the component.\<close>

definition CreateOrResetSection ::
  "'v env \<Rightarrow> vertex_type \<Rightarrow> int \<Rightarrow> bool \<Rightarrow> bool \<Rightarrow> 'v component
     \<Rightarrow> error + 'v FRuntimeMeshSection \<times> 'v component" where
  "CreateOrResetSection env VertexType SectionIndex bWantsSeparatePositionBuffer
       bIsInternalSectionType' st =
     (case (if SectionIndex \<ge> int (length (MeshSections st))
            then (case AddInt32 SectionIndex 1 of
                    Some NewNum \<Rightarrow> Some (st\<lparr>MeshSections := SetNum (MeshSections st) NewNum\<rparr>)
                  | None \<Rightarrow> None)
            else Some st) of
        None \<Rightarrow> Inl Unspecified
      | Some st1 \<Rightarrow>
          (let NewSection = (NewFRuntimeMeshSection env VertexType bWantsSeparatePositionBuffer)
                              \<lparr>bIsInternalSectionType := bIsInternalSectionType'\<rparr>
           in if 0 \<le> SectionIndex \<and> SectionIndex < int (length (MeshSections st1))
              then Inr (NewSection, StoreSection SectionIndex NewSection st1)
              else Inl Unspecified))"

text \<open>\<^verbatim>\<open>CreateMeshSection<VertexType>(SectionIndex, Vertices, Triangles, bCreateCollision,
  UpdateFrequency, UpdateFlags)\<close>.\<close>

definition CreateMeshSection ::
  "'v env \<Rightarrow> vertex_type \<Rightarrow> int \<Rightarrow> 'v list \<Rightarrow> int list \<Rightarrow> bool \<Rightarrow> EUpdateFrequency
     \<Rightarrow> ESectionUpdateFlags \<Rightarrow> 'v component \<Rightarrow> 'v outcome" where
  "CreateMeshSection env VertexType SectionIndex Vertices Triangles bCreateCollision
       UpdateFrequency' UpdateFlags st =
     (case RMC_VALIDATE_CREATIONPARAMETERS env SectionIndex Vertices Triangles of
        Some e \<Rightarrow> Inl (e, st)
      | None \<Rightarrow>
     (case CreateOrResetSection env VertexType SectionIndex False False st of
        Inl e \<Rightarrow> Inl (e, st)
      | Inr (Section0, st1) \<Rightarrow>
          (let bShouldUseMove = (UpdateFlags \<inter> {MoveArrays} \<noteq> {});
               Section1 = snd (UpdateVertexBuffer env Vertices None bShouldUseMove Section0);
               Section2 = UpdateIndexBuffer Triangles bShouldUseMove Section1;
               Section3 = Section2\<lparr>CollisionEnabled := bCreateCollision\<rparr>;
               Section4 = Section3\<lparr>UpdateFrequency := UpdateFrequency'\<rparr>
           in Inr (CreateSectionInternal SectionIndex
                     (StoreSection SectionIndex Section4 st1)))))"

text \<open>The same with a \<^verbatim>\<open>BoundingBox\<close> argument.\<close>

definition CreateMeshSection_Box ::
  "'v env \<Rightarrow> vertex_type \<Rightarrow> int \<Rightarrow> 'v list \<Rightarrow> int list \<Rightarrow> FBox \<Rightarrow> bool \<Rightarrow> EUpdateFrequency
     \<Rightarrow> ESectionUpdateFlags \<Rightarrow> 'v component \<Rightarrow> 'v outcome" where
  "CreateMeshSection_Box env VertexType SectionIndex Vertices Triangles BoundingBox
       bCreateCollision UpdateFrequency' UpdateFlags st =
     (case first_failure
             [RMC_VALIDATE_CREATIONPARAMETERS env SectionIndex Vertices Triangles,
              RMC_VALIDATE_BOUNDINGBOX env BoundingBox] of
        Some e \<Rightarrow> Inl (e, st)
      | None \<Rightarrow>
     (case CreateOrResetSection env VertexType SectionIndex False False st of
        Inl e \<Rightarrow> Inl (e, st)
      | Inr (Section0, st1) \<Rightarrow>
          (let bShouldUseMove = (UpdateFlags \<inter> {MoveArrays} \<noteq> {});
               Section1 = snd (UpdateVertexBuffer env Vertices (Some BoundingBox)
                                 bShouldUseMove Section0);
               Section2 = UpdateIndexBuffer Triangles bShouldUseMove Section1;
               Section3 = Section2\<lparr>CollisionEnabled := bCreateCollision\<rparr>;
               Section4 = Section3\<lparr>UpdateFrequency := UpdateFrequency'\<rparr>
           in Inr (CreateSectionInternal SectionIndex
                     (StoreSection SectionIndex Section4 st1)))))"

text \<open>\<^verbatim>\<open>CreateMeshSectionDualBuffer<VertexType>(SectionIndex, VertexPositions, VertexData,
  Triangles, bCreateCollision, UpdateFrequency, UpdateFlags)\<close>.\<close>

definition CreateMeshSectionDualBuffer ::
  "'v env \<Rightarrow> vertex_type \<Rightarrow> int \<Rightarrow> FVector list \<Rightarrow> 'v list \<Rightarrow> int list \<Rightarrow> bool
     \<Rightarrow> EUpdateFrequency \<Rightarrow> ESectionUpdateFlags \<Rightarrow> 'v component \<Rightarrow> 'v outcome" where
  "CreateMeshSectionDualBuffer env VertexType SectionIndex VertexPositions VertexData
       Triangles bCreateCollision UpdateFrequency' UpdateFlags st =
     (case RMC_VALIDATE_CREATIONPARAMETERS_DUALBUFFER env SectionIndex VertexData Triangles
             VertexPositions of
        Some e \<Rightarrow> Inl (e, st)
      | None \<Rightarrow>
     (case CreateOrResetSection env VertexType SectionIndex True False st of
        Inl e \<Rightarrow> Inl (e, st)
      | Inr (Section0, st1) \<Rightarrow>
          (let bShouldUseMove = (UpdateFlags \<inter> {MoveArrays} \<noteq> {}) in
           case UpdateVertexPositionBuffer env VertexPositions None bShouldUseMove Section0 of
             Inl e \<Rightarrow> Inl (e, st1)
           | Inr (b, Section1) \<Rightarrow>
               (let Section2 = snd (UpdateVertexBuffer env VertexData None bShouldUseMove
                                      Section1);
                    Section3 = UpdateIndexBuffer Triangles bShouldUseMove Section2;
                    Section4 = Section3\<lparr>CollisionEnabled := bCreateCollision\<rparr>;
                    Section5 = Section4\<lparr>UpdateFrequency := UpdateFrequency'\<rparr>
                in Inr (CreateSectionInternal SectionIndex
                          (StoreSection SectionIndex Section5 st1))))))"

text \<open>The same with a \<^verbatim>\<open>BoundingBox\<close> argument, which goes to the position buffer.\<close>

definition CreateMeshSectionDualBuffer_Box ::
  "'v env \<Rightarrow> vertex_type \<Rightarrow> int \<Rightarrow> FVector list \<Rightarrow> 'v list \<Rightarrow> int list \<Rightarrow> FBox \<Rightarrow> bool
     \<Rightarrow> EUpdateFrequency \<Rightarrow> ESectionUpdateFlags \<Rightarrow> 'v component \<Rightarrow> 'v outcome" where
  "CreateMeshSectionDualBuffer_Box env VertexType SectionIndex VertexPositions VertexData
       Triangles BoundingBox bCreateCollision UpdateFrequency' UpdateFlags st =
     (case first_failure
             [RMC_VALIDATE_CREATIONPARAMETERS_DUALBUFFER env SectionIndex VertexData Triangles
                VertexPositions,
              RMC_VALIDATE_BOUNDINGBOX env BoundingBox] of
        Some e \<Rightarrow> Inl (e, st)
      | None \<Rightarrow>
     (case CreateOrResetSection env VertexType SectionIndex True False st of
        Inl e \<Rightarrow> Inl (e, st)
      | Inr (Section0, st1) \<Rightarrow>
          (let bShouldUseMove = (UpdateFlags \<inter> {MoveArrays} \<noteq> {}) in
           case UpdateVertexPositionBuffer env VertexPositions (Some BoundingBox)
                  bShouldUseMove Section0 of
             Inl e \<Rightarrow> Inl (e, st1)
           | Inr (b, Section1) \<Rightarrow>
               (let Section2 = snd (UpdateVertexBuffer env VertexData None bShouldUseMove
                                      Section1);
                    Section3 = UpdateIndexBuffer Triangles bShouldUseMove Section2;
                    Section4 = Section3\<lparr>CollisionEnabled := bCreateCollision\<rparr>;
                    Section5 = Section4\<lparr>UpdateFrequency := UpdateFrequency'\<rparr>
                in Inr (CreateSectionInternal SectionIndex
                          (StoreSection SectionIndex Section5 st1))))))"

text \<open>The four creation templates as one call. The last three arguments of each have
  defaults in the header: \<^verbatim>\<open>bCreateCollision = false\<close>,
  \<^verbatim>\<open>UpdateFrequency = EUpdateFrequency::Average\<close> and
  \<^verbatim>\<open>UpdateFlags = ESectionUpdateFlags::None\<close>; an argument left out is \<open>None\<close> here.\<close>

datatype 'v create_shape =
  Single "'v list" "int list"
  | SingleBox "'v list" "int list" FBox
  | Dual "FVector list" "'v list" "int list"
  | DualBox "FVector list" "'v list" "int list" FBox

record 'v create_call =
  CreateVertexType :: vertex_type
  CreateIndex :: int
  CreateShape :: "'v create_shape"
  CreateCollision :: "bool option"
  CreateFrequency :: "EUpdateFrequency option"
  CreateFlags :: "ESectionUpdateFlags option"

definition ArgCollision :: "'v create_call \<Rightarrow> bool" where
  "ArgCollision c = (case CreateCollision c of Some b \<Rightarrow> b | None \<Rightarrow> False)"

definition ArgFrequency :: "'v create_call \<Rightarrow> EUpdateFrequency" where
  "ArgFrequency c = (case CreateFrequency c of Some f \<Rightarrow> f | None \<Rightarrow> Average)"

definition ArgFlags :: "ESectionUpdateFlags option \<Rightarrow> ESectionUpdateFlags" where
  "ArgFlags fl = (case fl of Some f \<Rightarrow> f | None \<Rightarrow> {})"

definition Create :: "'v env \<Rightarrow> 'v create_call \<Rightarrow> 'v component \<Rightarrow> 'v outcome" where
  "Create env c st =
     (case CreateShape c of
        Single Vertices Triangles \<Rightarrow>
          CreateMeshSection env (CreateVertexType c) (CreateIndex c) Vertices Triangles
            (ArgCollision c) (ArgFrequency c) (ArgFlags (CreateFlags c)) st
      | SingleBox Vertices Triangles BoundingBox \<Rightarrow>
          CreateMeshSection_Box env (CreateVertexType c) (CreateIndex c) Vertices Triangles
            BoundingBox (ArgCollision c) (ArgFrequency c) (ArgFlags (CreateFlags c)) st
      | Dual VertexPositions VertexData Triangles \<Rightarrow>
          CreateMeshSectionDualBuffer env (CreateVertexType c) (CreateIndex c) VertexPositions
            VertexData Triangles (ArgCollision c) (ArgFrequency c) (ArgFlags (CreateFlags c)) st
      | DualBox VertexPositions VertexData Triangles BoundingBox \<Rightarrow>
          CreateMeshSectionDualBuffer_Box env (CreateVertexType c) (CreateIndex c)
            VertexPositions VertexData Triangles BoundingBox (ArgCollision c) (ArgFrequency c)
            (ArgFlags (CreateFlags c)) st)"

text \<open>Modelled from the spec: \<^verbatim>\<open>DoesSectionExist\<close> is declared in the header and defined
  in \<^verbatim>\<open>RuntimeMeshComponent.cpp\<close>, which is not among the sources. A section exists when
  its index is in range and its slot is not empty.\<close>

definition DoesSectionExist :: "'v component \<Rightarrow> int \<Rightarrow> bool" where
  "DoesSectionExist st SectionIndex = (SectionSlot st SectionIndex \<noteq> None)"

text \<open>Modelled from the spec: \<^verbatim>\<open>GetSectionBoundingBox\<close> is declared in the header and
  defined in \<^verbatim>\<open>RuntimeMeshComponent.cpp\<close>, which is not among the sources. It gives the
  box of the section, and nothing (the header's \<^verbatim>\<open>false\<close>) for a section that does not
  exist.\<close>

definition GetSectionBoundingBox :: "'v component \<Rightarrow> int \<Rightarrow> FBox option" where
  "GetSectionBoundingBox st SectionIndex =
     (case SectionSlot st SectionIndex of
        Some s \<Rightarrow> Some (LocalBoundingBox s)
      | None \<Rightarrow> None)"

section \<open>Updating sections\<close>

text \<open>\<^verbatim>\<open>MeshSections[SectionIndex]->\<close>: the section behind the slot. Out of range or
  through a null pointer the access is undefined (reached only with the checks compiled
  out).\<close>

definition SectionAt :: "'v component \<Rightarrow> int \<Rightarrow> error + 'v FRuntimeMeshSection" where
  "SectionAt st SectionIndex =
     (case SectionSlot st SectionIndex of
        Some s \<Rightarrow> Inr s
      | None \<Rightarrow> Inl Unspecified)"

text \<open>The locals of an update template between the guard and the finishing call: the
  section behind the pointer, the four flags, and the component (for its log).\<close>

record 'v update_frame =
  Section :: "'v FRuntimeMeshSection"
  bNeedsBoundsUpdate :: bool
  bUpdatedVertexPositions :: bool
  bUpdatedVertices :: bool
  bUpdatedIndices :: bool
  Component :: "'v component"

definition StartUpdate :: "'v FRuntimeMeshSection \<Rightarrow> 'v component \<Rightarrow> 'v update_frame" where
  "StartUpdate s st =
     \<lparr>Section = s, bNeedsBoundsUpdate = False, bUpdatedVertexPositions = False,
      bUpdatedVertices = False, bUpdatedIndices = False, Component = st\<rparr>"

text \<open>The eight update templates are built from the same four blocks, repeated word for
  word in the header; each block is one definition here.

  ``Update vertices if supplied'' of the templates without a position array: the result of
  \<^verbatim>\<open>UpdateVertexBuffer\<close> is assigned to \<^verbatim>\<open>bNeedsBoundsUpdate\<close>.\<close>

definition UpdateVerticesIfSupplied ::
  "'v env \<Rightarrow> 'v list \<Rightarrow> FBox option \<Rightarrow> bool \<Rightarrow> 'v update_frame \<Rightarrow> 'v update_frame" where
  "UpdateVerticesIfSupplied env Vertices BoundingBox bShouldUseMove f =
     (if length Vertices > 0
      then (case UpdateVertexBuffer env Vertices BoundingBox bShouldUseMove (Section f) of
              (b, s) \<Rightarrow> f\<lparr>Section := s, bNeedsBoundsUpdate := b, bUpdatedVertices := True\<rparr>)
      else f\<lparr>Component :=
               Log ''UpdateMeshSection() - Vertices empty. They will not be updated.'' False
                 (Component f)\<rparr>)"

text \<open>``Update vertex positions if supplied'' of the templates with a position array.\<close>

definition UpdatePositionsIfSupplied ::
  "'v env \<Rightarrow> FVector list \<Rightarrow> FBox option \<Rightarrow> bool \<Rightarrow> 'v update_frame
     \<Rightarrow> error + 'v update_frame" where
  "UpdatePositionsIfSupplied env VertexPositions BoundingBox bShouldUseMove f =
     (if length VertexPositions > 0
      then (case UpdateVertexPositionBuffer env VertexPositions BoundingBox bShouldUseMove
                   (Section f) of
              Inl e \<Rightarrow> Inl e
            | Inr (b, s) \<Rightarrow>
                Inr (f\<lparr>Section := s, bNeedsBoundsUpdate := b,
                       bUpdatedVertexPositions := True\<rparr>))
      else Inr (f\<lparr>Component :=
                    Log ''UpdatemeshSection() - Vertex positions empty. They will not be updated.''
                      False (Component f)\<rparr>))"

text \<open>``Update vertices if supplied'' of the templates with a position array: no box is
  passed and the result of \<^verbatim>\<open>UpdateVertexBuffer\<close> is dropped.\<close>

definition UpdateVertexDataIfSupplied ::
  "'v env \<Rightarrow> 'v list \<Rightarrow> bool \<Rightarrow> 'v update_frame \<Rightarrow> 'v update_frame" where
  "UpdateVertexDataIfSupplied env VertexData bShouldUseMove f =
     (if length VertexData > 0
      then f\<lparr>Section := snd (UpdateVertexBuffer env VertexData None bShouldUseMove (Section f)),
             bUpdatedVertices := True\<rparr>
      else f\<lparr>Component :=
               Log ''UpdateMeshSection() - Vertices empty. They will not be updated.'' False
                 (Component f)\<rparr>)"

text \<open>``Update triangles if supplied''.\<close>

definition UpdateTrianglesIfSupplied ::
  "int list \<Rightarrow> bool \<Rightarrow> 'v update_frame \<Rightarrow> 'v update_frame" where
  "UpdateTrianglesIfSupplied Triangles bShouldUseMove f =
     (if length Triangles > 0
      then f\<lparr>Section := UpdateIndexBuffer Triangles bShouldUseMove (Section f),
             bUpdatedIndices := True\<rparr>
      else f\<lparr>Component :=
               Log ''UpdateMeshSection() - Triangles empty. They will not be updated.'' False
                 (Component f)\<rparr>)"

text \<open>\<^verbatim>\<open>UpdateMeshSection<VertexType>(SectionIndex, Vertices, UpdateFlags)\<close>.\<close>

definition UpdateMeshSection_V ::
  "'v env \<Rightarrow> vertex_type \<Rightarrow> int \<Rightarrow> 'v list
     \<Rightarrow> ESectionUpdateFlags \<Rightarrow> 'v component \<Rightarrow> 'v outcome" where
  "UpdateMeshSection_V env VertexType SectionIndex Vertices UpdateFlags st =
     (case RMC_VALIDATE_UPDATEPARAMETERS env st SectionIndex of
        Some e \<Rightarrow> Inl (e, st)
      | None \<Rightarrow>
     (case SectionAt st SectionIndex of
        Inl e \<Rightarrow> Inl (e, st)
      | Inr Section0 \<Rightarrow>
     (case EnsureEquals (GetVertexType Section0) VertexType of
        Some e \<Rightarrow> Inl (e, st)
      | None \<Rightarrow>
       if IsDualBufferSection Section0 \<and>
          length Vertices \<noteq> length (VertexBuffer Section0)
       then Inr (Log
         ''UpdateMeshSection() - Vertices cannot change length unless the positions are updated as well.''
         True st)
       else
         (let bShouldUseMove = (UpdateFlags \<inter> {MoveArrays} \<noteq> {});
              f0 = StartUpdate Section0 st;
              f1 = UpdateVerticesIfSupplied env Vertices None bShouldUseMove f0
          in Inr (if bUpdatedVertices f1
                then UpdateSectionInternal SectionIndex False (bUpdatedVertices f1) False
                       (bNeedsBoundsUpdate f1)
                       (StoreSection SectionIndex (Section f1) (Component f1))
                else Component f1)))))"

text \<open>\<^verbatim>\<open>UpdateMeshSection<VertexType>(SectionIndex, Vertices, BoundingBox, UpdateFlags)\<close>.\<close>

definition UpdateMeshSection_V_Box ::
  "'v env \<Rightarrow> vertex_type \<Rightarrow> int \<Rightarrow> 'v list \<Rightarrow> FBox
     \<Rightarrow> ESectionUpdateFlags \<Rightarrow> 'v component \<Rightarrow> 'v outcome" where
  "UpdateMeshSection_V_Box env VertexType SectionIndex Vertices BoundingBox UpdateFlags st =
     (case first_failure
             [RMC_VALIDATE_UPDATEPARAMETERS env st SectionIndex,
              RMC_VALIDATE_BOUNDINGBOX env BoundingBox] of
        Some e \<Rightarrow> Inl (e, st)
      | None \<Rightarrow>
     (case SectionAt st SectionIndex of
        Inl e \<Rightarrow> Inl (e, st)
      | Inr Section0 \<Rightarrow>
     (case EnsureEquals (GetVertexType Section0) VertexType of
        Some e \<Rightarrow> Inl (e, st)
      | None \<Rightarrow>
       if IsDualBufferSection Section0 \<and>
          length Vertices \<noteq> length (VertexBuffer Section0)
       then Inr (Log
         ''UpdateMeshSection() - Vertices cannot change length unless the positions are updated as well.''
         True st)
       else
         (let bShouldUseMove = (UpdateFlags \<inter> {MoveArrays} \<noteq> {});
              f0 = StartUpdate Section0 st;
              f1 = UpdateVerticesIfSupplied env Vertices (Some BoundingBox) bShouldUseMove f0
          in Inr (if bUpdatedVertices f1
                then UpdateSectionInternal SectionIndex False (bUpdatedVertices f1) False
                       (bNeedsBoundsUpdate f1)
                       (StoreSection SectionIndex (Section f1) (Component f1))
                else Component f1)))))"

text \<open>\<^verbatim>\<open>UpdateMeshSection<VertexType>(SectionIndex, Vertices, Triangles, UpdateFlags)\<close>.\<close>

definition UpdateMeshSection_V_Tri ::
  "'v env \<Rightarrow> vertex_type \<Rightarrow> int \<Rightarrow> 'v list \<Rightarrow> int list
     \<Rightarrow> ESectionUpdateFlags \<Rightarrow> 'v component \<Rightarrow> 'v outcome" where
  "UpdateMeshSection_V_Tri env VertexType SectionIndex Vertices Triangles UpdateFlags st =
     (case RMC_VALIDATE_UPDATEPARAMETERS env st SectionIndex of
        Some e \<Rightarrow> Inl (e, st)
      | None \<Rightarrow>
     (case SectionAt st SectionIndex of
        Inl e \<Rightarrow> Inl (e, st)
      | Inr Section0 \<Rightarrow>
     (case EnsureEquals (GetVertexType Section0) VertexType of
        Some e \<Rightarrow> Inl (e, st)
      | None \<Rightarrow>
       if IsDualBufferSection Section0 \<and>
          length Vertices \<noteq> length (VertexBuffer Section0)
       then Inr (Log
         ''UpdateMeshSection() - Vertices cannot change length unless the positions are updated as well.''
         True st)
       else
         (let bShouldUseMove = (UpdateFlags \<inter> {MoveArrays} \<noteq> {});
              f0 = StartUpdate Section0 st;
              f1 = UpdateVerticesIfSupplied env Vertices None bShouldUseMove f0;
              f2 = UpdateTrianglesIfSupplied Triangles bShouldUseMove f1
          in Inr (if bUpdatedVertices f2 \<or> bUpdatedIndices f2
                then UpdateSectionInternal SectionIndex False (bUpdatedVertices f2) (bUpdatedIndices f2)
                       (bNeedsBoundsUpdate f2)
                       (StoreSection SectionIndex (Section f2) (Component f2))
                else Component f2)))))"

text \<open>\<^verbatim>\<open>UpdateMeshSection<VertexType>(SectionIndex, Vertices, Triangles, BoundingBox,
  UpdateFlags)\<close>.\<close>

definition UpdateMeshSection_V_Tri_Box ::
  "'v env \<Rightarrow> vertex_type \<Rightarrow> int \<Rightarrow> 'v list \<Rightarrow> int list \<Rightarrow> FBox
     \<Rightarrow> ESectionUpdateFlags \<Rightarrow> 'v component \<Rightarrow> 'v outcome" where
  "UpdateMeshSection_V_Tri_Box env VertexType SectionIndex Vertices Triangles BoundingBox UpdateFlags st =
     (case first_failure
             [RMC_VALIDATE_UPDATEPARAMETERS env st SectionIndex,
              RMC_VALIDATE_BOUNDINGBOX env BoundingBox] of
        Some e \<Rightarrow> Inl (e, st)
      | None \<Rightarrow>
     (case SectionAt st SectionIndex of
        Inl e \<Rightarrow> Inl (e, st)
      | Inr Section0 \<Rightarrow>
     (case EnsureEquals (GetVertexType Section0) VertexType of
        Some e \<Rightarrow> Inl (e, st)
      | None \<Rightarrow>
       if IsDualBufferSection Section0 \<and>
          length Vertices \<noteq> length (VertexBuffer Section0)
       then Inr (Log
         ''UpdateMeshSection() - Vertices cannot change length unless the positions are updated as well.''
         True st)
       else
         (let bShouldUseMove = (UpdateFlags \<inter> {MoveArrays} \<noteq> {});
              f0 = StartUpdate Section0 st;
              f1 = UpdateVerticesIfSupplied env Vertices (Some BoundingBox) bShouldUseMove f0;
              f2 = UpdateTrianglesIfSupplied Triangles bShouldUseMove f1
          in Inr (if bUpdatedVertices f2 \<or> bUpdatedIndices f2
                then UpdateSectionInternal SectionIndex False (bUpdatedVertices f2) (bUpdatedIndices f2)
                       (bNeedsBoundsUpdate f2)
                       (StoreSection SectionIndex (Section f2) (Component f2))
                else Component f2)))))"

text \<open>\<^verbatim>\<open>UpdateMeshSection<VertexType>(SectionIndex, VertexPositions, VertexData,
  UpdateFlags)\<close>, for dual-buffer sections.\<close>

definition UpdateMeshSection_Dual ::
  "'v env \<Rightarrow> vertex_type \<Rightarrow> int \<Rightarrow> FVector list \<Rightarrow> 'v list
     \<Rightarrow> ESectionUpdateFlags \<Rightarrow> 'v component \<Rightarrow> 'v outcome" where
  "UpdateMeshSection_Dual env VertexType SectionIndex VertexPositions VertexData UpdateFlags st =
     (case RMC_VALIDATE_UPDATEPARAMETERS_DUALBUFFER env st SectionIndex of
        Some e \<Rightarrow> Inl (e, st)
      | None \<Rightarrow>
     (case SectionAt st SectionIndex of
        Inl e \<Rightarrow> Inl (e, st)
      | Inr Section0 \<Rightarrow>
     (case EnsureEquals (GetVertexType Section0) VertexType of
        Some e \<Rightarrow> Inl (e, st)
      | None \<Rightarrow>
       if IsDualBufferSection Section0 \<and>
          length VertexData \<noteq> length (VertexBuffer Section0) \<and>
          length VertexPositions \<noteq> length VertexData
       then Inr (Log
         ''UpdateMeshSection() - Vertices cannot change length unless the positions are updated as well.''
         True st)
       else
         (let bShouldUseMove = (UpdateFlags \<inter> {MoveArrays} \<noteq> {});
              f0 = StartUpdate Section0 st
          in case UpdatePositionsIfSupplied env VertexPositions None bShouldUseMove f0 of
               Inl e \<Rightarrow> Inl (e, Component f0)
             | Inr f1 \<Rightarrow>
          (let f2 = UpdateVertexDataIfSupplied env VertexData bShouldUseMove f1
           in Inr (if bUpdatedVertexPositions f2 \<or> bUpdatedVertices f2
                 then UpdateSectionInternal SectionIndex (bUpdatedVertexPositions f2) (bUpdatedVertices f2) False
                        (bNeedsBoundsUpdate f2)
                        (StoreSection SectionIndex (Section f2) (Component f2))
                 else Component f2))))))"

text \<open>\<^verbatim>\<open>UpdateMeshSection<VertexType>(SectionIndex, VertexPositions, VertexData, BoundingBox,
  UpdateFlags)\<close>.\<close>

definition UpdateMeshSection_Dual_Box ::
  "'v env \<Rightarrow> vertex_type \<Rightarrow> int \<Rightarrow> FVector list \<Rightarrow> 'v list \<Rightarrow> FBox
     \<Rightarrow> ESectionUpdateFlags \<Rightarrow> 'v component \<Rightarrow> 'v outcome" where
  "UpdateMeshSection_Dual_Box env VertexType SectionIndex VertexPositions VertexData BoundingBox UpdateFlags st =
     (case first_failure
             [RMC_VALIDATE_UPDATEPARAMETERS_DUALBUFFER env st SectionIndex,
              RMC_VALIDATE_BOUNDINGBOX env BoundingBox] of
        Some e \<Rightarrow> Inl (e, st)
      | None \<Rightarrow>
     (case SectionAt st SectionIndex of
        Inl e \<Rightarrow> Inl (e, st)
      | Inr Section0 \<Rightarrow>
     (case EnsureEquals (GetVertexType Section0) VertexType of
        Some e \<Rightarrow> Inl (e, st)
      | None \<Rightarrow>
       if IsDualBufferSection Section0 \<and>
          length VertexData \<noteq> length (VertexBuffer Section0) \<and>
          length VertexPositions \<noteq> length VertexData
       then Inr (Log
         ''UpdateMeshSection() - Vertices cannot change length unless the positions are updated as well.''
         True st)
       else
         (let bShouldUseMove = (UpdateFlags \<inter> {MoveArrays} \<noteq> {});
              f0 = StartUpdate Section0 st
          in case UpdatePositionsIfSupplied env VertexPositions (Some BoundingBox) bShouldUseMove f0 of
               Inl e \<Rightarrow> Inl (e, Component f0)
             | Inr f1 \<Rightarrow>
          (let f2 = UpdateVertexDataIfSupplied env VertexData bShouldUseMove f1
           in Inr (if bUpdatedVertexPositions f2 \<or> bUpdatedVertices f2
                 then UpdateSectionInternal SectionIndex (bUpdatedVertexPositions f2) (bUpdatedVertices f2) False
                        (bNeedsBoundsUpdate f2)
                        (StoreSection SectionIndex (Section f2) (Component f2))
                 else Component f2))))))"

text \<open>\<^verbatim>\<open>UpdateMeshSection<VertexType>(SectionIndex, VertexPositions, VertexData, Triangles,
  UpdateFlags)\<close>.\<close>

definition UpdateMeshSection_Dual_Tri ::
  "'v env \<Rightarrow> vertex_type \<Rightarrow> int \<Rightarrow> FVector list \<Rightarrow> 'v list \<Rightarrow> int list
     \<Rightarrow> ESectionUpdateFlags \<Rightarrow> 'v component \<Rightarrow> 'v outcome" where
  "UpdateMeshSection_Dual_Tri env VertexType SectionIndex VertexPositions VertexData Triangles UpdateFlags st =
     (case RMC_VALIDATE_UPDATEPARAMETERS_DUALBUFFER env st SectionIndex of
        Some e \<Rightarrow> Inl (e, st)
      | None \<Rightarrow>
     (case SectionAt st SectionIndex of
        Inl e \<Rightarrow> Inl (e, st)
      | Inr Section0 \<Rightarrow>
     (case EnsureEquals (GetVertexType Section0) VertexType of
        Some e \<Rightarrow> Inl (e, st)
      | None \<Rightarrow>
       if IsDualBufferSection Section0 \<and>
          length VertexData \<noteq> length (VertexBuffer Section0) \<and>
          length VertexPositions \<noteq> length VertexData
       then Inr (Log
         ''UpdateMeshSection() - Vertices cannot change length unless the positions are updated as well.''
         True st)
       else
         (let bShouldUseMove = (UpdateFlags \<inter> {MoveArrays} \<noteq> {});
              f0 = StartUpdate Section0 st
          in case UpdatePositionsIfSupplied env VertexPositions None bShouldUseMove f0 of
               Inl e \<Rightarrow> Inl (e, Component f0)
             | Inr f1 \<Rightarrow>
          (let f2 = UpdateVertexDataIfSupplied env VertexData bShouldUseMove f1;
               f3 = UpdateTrianglesIfSupplied Triangles bShouldUseMove f2
           in Inr (if bUpdatedVertexPositions f3 \<or> bUpdatedVertices f3 \<or> bUpdatedIndices f3
                 then UpdateSectionInternal SectionIndex (bUpdatedVertexPositions f3) (bUpdatedVertices f3) (bUpdatedIndices f3)
                        (bNeedsBoundsUpdate f3)
                        (StoreSection SectionIndex (Section f3) (Component f3))
                 else Component f3))))))"

text \<open>\<^verbatim>\<open>UpdateMeshSection<VertexType>(SectionIndex, VertexPositions, VertexData, Triangles,
  BoundingBox, UpdateFlags)\<close>.\<close>

definition UpdateMeshSection_Dual_Tri_Box ::
  "'v env \<Rightarrow> vertex_type \<Rightarrow> int \<Rightarrow> FVector list \<Rightarrow> 'v list \<Rightarrow> int list \<Rightarrow> FBox
     \<Rightarrow> ESectionUpdateFlags \<Rightarrow> 'v component \<Rightarrow> 'v outcome" where
  "UpdateMeshSection_Dual_Tri_Box env VertexType SectionIndex VertexPositions VertexData Triangles BoundingBox UpdateFlags st =
     (case first_failure
             [RMC_VALIDATE_UPDATEPARAMETERS_DUALBUFFER env st SectionIndex,
              RMC_VALIDATE_BOUNDINGBOX env BoundingBox] of
        Some e \<Rightarrow> Inl (e, st)
      | None \<Rightarrow>
     (case SectionAt st SectionIndex of
        Inl e \<Rightarrow> Inl (e, st)
      | Inr Section0 \<Rightarrow>
     (case EnsureEquals (GetVertexType Section0) VertexType of
        Some e \<Rightarrow> Inl (e, st)
      | None \<Rightarrow>
       if IsDualBufferSection Section0 \<and>
          length VertexData \<noteq> length (VertexBuffer Section0) \<and>
          length VertexPositions \<noteq> length VertexData
       then Inr (Log
         ''UpdateMeshSection() - Vertices cannot change length unless the positions are updated as well.''
         True st)
       else
         (let bShouldUseMove = (UpdateFlags \<inter> {MoveArrays} \<noteq> {});
              f0 = StartUpdate Section0 st
          in case UpdatePositionsIfSupplied env VertexPositions (Some BoundingBox) bShouldUseMove f0 of
               Inl e \<Rightarrow> Inl (e, Component f0)
             | Inr f1 \<Rightarrow>
          (let f2 = UpdateVertexDataIfSupplied env VertexData bShouldUseMove f1;
               f3 = UpdateTrianglesIfSupplied Triangles bShouldUseMove f2
           in Inr (if bUpdatedVertexPositions f3 \<or> bUpdatedVertices f3 \<or> bUpdatedIndices f3
                 then UpdateSectionInternal SectionIndex (bUpdatedVertexPositions f3) (bUpdatedVertices f3) (bUpdatedIndices f3)
                        (bNeedsBoundsUpdate f3)
                        (StoreSection SectionIndex (Section f3) (Component f3))
                 else Component f3))))))"

text \<open>The eight update templates as one call; \<^verbatim>\<open>UpdateFlags\<close> left out is the header's
  default \<^verbatim>\<open>ESectionUpdateFlags::None\<close>.\<close>

datatype 'v update_shape =
  UpdV "'v list"
  | UpdVBox "'v list" FBox
  | UpdVTri "'v list" "int list"
  | UpdVTriBox "'v list" "int list" FBox
  | UpdDual "FVector list" "'v list"
  | UpdDualBox "FVector list" "'v list" FBox
  | UpdDualTri "FVector list" "'v list" "int list"
  | UpdDualTriBox "FVector list" "'v list" "int list" FBox

record 'v update_call =
  UpdateVertexType :: vertex_type
  UpdateIndex :: int
  UpdateShape :: "'v update_shape"
  UpdateFlags :: "ESectionUpdateFlags option"

definition Update :: "'v env \<Rightarrow> 'v update_call \<Rightarrow> 'v component \<Rightarrow> 'v outcome" where
  "Update env c st =
     (case UpdateShape c of
        UpdV Vertices \<Rightarrow>
          UpdateMeshSection_V env (UpdateVertexType c) (UpdateIndex c) Vertices
            (ArgFlags (UpdateFlags c)) st
      | UpdVBox Vertices BoundingBox \<Rightarrow>
          UpdateMeshSection_V_Box env (UpdateVertexType c) (UpdateIndex c) Vertices BoundingBox
            (ArgFlags (UpdateFlags c)) st
      | UpdVTri Vertices Triangles \<Rightarrow>
          UpdateMeshSection_V_Tri env (UpdateVertexType c) (UpdateIndex c) Vertices Triangles
            (ArgFlags (UpdateFlags c)) st
      | UpdVTriBox Vertices Triangles BoundingBox \<Rightarrow>
          UpdateMeshSection_V_Tri_Box env (UpdateVertexType c) (UpdateIndex c) Vertices
            Triangles BoundingBox (ArgFlags (UpdateFlags c)) st
      | UpdDual VertexPositions VertexData \<Rightarrow>
          UpdateMeshSection_Dual env (UpdateVertexType c) (UpdateIndex c) VertexPositions
            VertexData (ArgFlags (UpdateFlags c)) st
      | UpdDualBox VertexPositions VertexData BoundingBox \<Rightarrow>
          UpdateMeshSection_Dual_Box env (UpdateVertexType c) (UpdateIndex c) VertexPositions
            VertexData BoundingBox (ArgFlags (UpdateFlags c)) st
      | UpdDualTri VertexPositions VertexData Triangles \<Rightarrow>
          UpdateMeshSection_Dual_Tri env (UpdateVertexType c) (UpdateIndex c) VertexPositions
            VertexData Triangles (ArgFlags (UpdateFlags c)) st
      | UpdDualTriBox VertexPositions VertexData Triangles BoundingBox \<Rightarrow>
          UpdateMeshSection_Dual_Tri_Box env (UpdateVertexType c) (UpdateIndex c)
            VertexPositions VertexData Triangles BoundingBox (ArgFlags (UpdateFlags c)) st)"

section \<open>Reading a call\<close>

text \<open>The arrays a call supplies, by part. A part the template has no parameter for is not
  supplied: \<open>None\<close>.\<close>

fun SuppliedPositions :: "'v update_shape \<Rightarrow> FVector list option" where
  "SuppliedPositions (UpdDual P V) = Some P"
| "SuppliedPositions (UpdDualBox P V B) = Some P"
| "SuppliedPositions (UpdDualTri P V T) = Some P"
| "SuppliedPositions (UpdDualTriBox P V T B) = Some P"
| "SuppliedPositions _ = None"

fun SuppliedVertices :: "'v update_shape \<Rightarrow> 'v list" where
  "SuppliedVertices (UpdV V) = V"
| "SuppliedVertices (UpdVBox V B) = V"
| "SuppliedVertices (UpdVTri V T) = V"
| "SuppliedVertices (UpdVTriBox V T B) = V"
| "SuppliedVertices (UpdDual P V) = V"
| "SuppliedVertices (UpdDualBox P V B) = V"
| "SuppliedVertices (UpdDualTri P V T) = V"
| "SuppliedVertices (UpdDualTriBox P V T B) = V"

fun SuppliedTriangles :: "'v update_shape \<Rightarrow> int list option" where
  "SuppliedTriangles (UpdVTri V T) = Some T"
| "SuppliedTriangles (UpdVTriBox V T B) = Some T"
| "SuppliedTriangles (UpdDualTri P V T) = Some T"
| "SuppliedTriangles (UpdDualTriBox P V T B) = Some T"
| "SuppliedTriangles _ = None"

fun SuppliedBox :: "'v update_shape \<Rightarrow> FBox option" where
  "SuppliedBox (UpdVBox V B) = Some B"
| "SuppliedBox (UpdVTriBox V T B) = Some B"
| "SuppliedBox (UpdDualBox P V B) = Some B"
| "SuppliedBox (UpdDualTriBox P V T B) = Some B"
| "SuppliedBox _ = None"

section \<open>The common form of the update templates\<close>

text \<open>The eight templates differ only in which arrays and box they take. The definitions of
  this section give their common form over the parts a call supplies; \<open>Update_eq_generic\<close>
  below proves that every template is an instance of it.\<close>

definition MoveRequested :: "ESectionUpdateFlags option \<Rightarrow> bool" where
  "MoveRequested fl = (ArgFlags fl \<inter> {MoveArrays} \<noteq> {})"

definition UpdatePrologue ::
  "'v env \<Rightarrow> 'v update_call \<Rightarrow> 'v component \<Rightarrow> error + 'v FRuntimeMeshSection" where
  "UpdatePrologue env c st =
     (case first_failure
             [if SuppliedPositions (UpdateShape c) = None
              then RMC_VALIDATE_UPDATEPARAMETERS env st (UpdateIndex c)
              else RMC_VALIDATE_UPDATEPARAMETERS_DUALBUFFER env st (UpdateIndex c),
              case SuppliedBox (UpdateShape c) of
                Some B \<Rightarrow> RMC_VALIDATE_BOUNDINGBOX env B
              | None \<Rightarrow> None] of
        Some e \<Rightarrow> Inl e
      | None \<Rightarrow>
     (case SectionAt st (UpdateIndex c) of
        Inl e \<Rightarrow> Inl e
      | Inr s \<Rightarrow>
     (case EnsureEquals (GetVertexType s) (UpdateVertexType c) of
        Some e \<Rightarrow> Inl e
      | None \<Rightarrow> Inr s)))"

definition DualBufferGuard :: "'v update_shape \<Rightarrow> 'v FRuntimeMeshSection \<Rightarrow> bool" where
  "DualBufferGuard sh s =
     (IsDualBufferSection s \<and>
      length (SuppliedVertices sh) \<noteq> length (VertexBuffer s) \<and>
      (case SuppliedPositions sh of
         Some P \<Rightarrow> length P \<noteq> length (SuppliedVertices sh)
       | None \<Rightarrow> True))"

definition TrianglesBlock :: "'v update_shape \<Rightarrow> bool \<Rightarrow> 'v update_frame \<Rightarrow> 'v update_frame" where
  "TrianglesBlock sh mv f =
     (case SuppliedTriangles sh of
        Some T \<Rightarrow> UpdateTrianglesIfSupplied T mv f
      | None \<Rightarrow> f)"

definition RunBlocks ::
  "'v env \<Rightarrow> 'v update_shape \<Rightarrow> bool \<Rightarrow> 'v update_frame \<Rightarrow> error + 'v update_frame" where
  "RunBlocks env sh mv f0 =
     (case SuppliedPositions sh of
        None \<Rightarrow>
          Inr (TrianglesBlock sh mv
                 (UpdateVerticesIfSupplied env (SuppliedVertices sh) (SuppliedBox sh) mv f0))
      | Some P \<Rightarrow>
          (case UpdatePositionsIfSupplied env P (SuppliedBox sh) mv f0 of
             Inl e \<Rightarrow> Inl e
           | Inr f1 \<Rightarrow>
               Inr (TrianglesBlock sh mv
                      (UpdateVertexDataIfSupplied env (SuppliedVertices sh) mv f1))))"

definition FinishUpdate :: "int \<Rightarrow> 'v update_frame \<Rightarrow> 'v component" where
  "FinishUpdate i f =
     (if bUpdatedVertexPositions f \<or> bUpdatedVertices f \<or> bUpdatedIndices f
      then UpdateSectionInternal i (bUpdatedVertexPositions f) (bUpdatedVertices f)
             (bUpdatedIndices f) (bNeedsBoundsUpdate f)
             (StoreSection i (Section f) (Component f))
      else Component f)"

definition GuardMessage :: string where
  "GuardMessage =
     ''UpdateMeshSection() - Vertices cannot change length unless the positions are updated as well.''"

definition UpdateGeneric :: "'v env \<Rightarrow> 'v update_call \<Rightarrow> 'v component \<Rightarrow> 'v outcome" where
  "UpdateGeneric env c st =
     (case UpdatePrologue env c st of
        Inl e \<Rightarrow> Inl (e, st)
      | Inr s \<Rightarrow>
          if DualBufferGuard (UpdateShape c) s then Inr (Log GuardMessage True st)
          else
            (case RunBlocks env (UpdateShape c) (MoveRequested (UpdateFlags c))
                    (StartUpdate s st) of
               Inl e \<Rightarrow> Inl (e, st)
             | Inr f \<Rightarrow> Inr (FinishUpdate (UpdateIndex c) f)))"


section \<open>Properties, clearing and collision geometry\<close>

text \<open>The members of this section are declared in the header and defined in
  \<^verbatim>\<open>RuntimeMeshComponent.cpp\<close>, which is not among the sources. In each of them a call that
  names a section that does not exist is rejected with \<open>InvalidSectionIndex\<close> and changes
  nothing.\<close>

text \<open>Modelled from the spec: \<^verbatim>\<open>SetMeshSectionVisible\<close> (defined in
  \<^verbatim>\<open>RuntimeMeshComponent.cpp\<close>). A call that changes the flag stores it and finishes as a
  property change; a call with the value the flag has changes nothing.\<close>

definition SetMeshSectionVisible :: "int \<Rightarrow> bool \<Rightarrow> 'v component \<Rightarrow> 'v outcome" where
  "SetMeshSectionVisible SectionIndex bNewVisibility st =
     (case SectionSlot st SectionIndex of
        None \<Rightarrow> Inl (InvalidSectionIndex SectionIndex, st)
      | Some s \<Rightarrow>
          if bIsVisible s = bNewVisibility then Inr st
          else Inr (UpdateSectionPropertiesInternal SectionIndex False
                      (StoreSection SectionIndex (s\<lparr>bIsVisible := bNewVisibility\<rparr>) st)))"

text \<open>Modelled from the spec: \<^verbatim>\<open>SetMeshSectionCastsShadow\<close> (defined in
  \<^verbatim>\<open>RuntimeMeshComponent.cpp\<close>), in the same way.\<close>

definition SetMeshSectionCastsShadow :: "int \<Rightarrow> bool \<Rightarrow> 'v component \<Rightarrow> 'v outcome" where
  "SetMeshSectionCastsShadow SectionIndex bNewCastsShadow st =
     (case SectionSlot st SectionIndex of
        None \<Rightarrow> Inl (InvalidSectionIndex SectionIndex, st)
      | Some s \<Rightarrow>
          if bCastsShadow s = bNewCastsShadow then Inr st
          else Inr (UpdateSectionPropertiesInternal SectionIndex False
                      (StoreSection SectionIndex (s\<lparr>bCastsShadow := bNewCastsShadow\<rparr>) st)))"

text \<open>Modelled from the spec: \<^verbatim>\<open>SetMeshSectionCollisionEnabled\<close> (defined in
  \<^verbatim>\<open>RuntimeMeshComponent.cpp\<close>). A toggle of the flag stores it, marks the collision dirty
  and finishes as a property change; a call with the value the flag has changes nothing.\<close>

definition SetMeshSectionCollisionEnabled ::
  "int \<Rightarrow> bool \<Rightarrow> 'v component \<Rightarrow> 'v outcome" where
  "SetMeshSectionCollisionEnabled SectionIndex bNewCollisionEnabled st =
     (case SectionSlot st SectionIndex of
        None \<Rightarrow> Inl (InvalidSectionIndex SectionIndex, st)
      | Some s \<Rightarrow>
          if CollisionEnabled s = bNewCollisionEnabled then Inr st
          else Inr (UpdateSectionPropertiesInternal SectionIndex False
                      (MarkCollisionDirty
                         (StoreSection SectionIndex
                            (s\<lparr>CollisionEnabled := bNewCollisionEnabled\<rparr>) st))))"

text \<open>Modelled from the spec: \<^verbatim>\<open>ClearMeshSection\<close> (defined in
  \<^verbatim>\<open>RuntimeMeshComponent.cpp\<close>) empties the slot and, if the section had collision
  enabled, marks the collision dirty.\<close>

definition ClearMeshSection :: "int \<Rightarrow> 'v component \<Rightarrow> 'v outcome" where
  "ClearMeshSection SectionIndex st =
     (case SectionSlot st SectionIndex of
        None \<Rightarrow> Inl (InvalidSectionIndex SectionIndex, st)
      | Some s \<Rightarrow>
          (let st1 = st\<lparr>MeshSections := (MeshSections st)[nat SectionIndex := None]\<rparr>
           in Inr (if CollisionEnabled s then MarkCollisionDirty st1 else st1)))"

text \<open>The collision-only sections and the convex hulls are value aggregates kept in two
  sequences of their own. A collision-only section is a vertex list with a triangle list,
  and a slot that was never set, or was cleared, holds two empty lists.\<close>

text \<open>Modelled from the spec: \<^verbatim>\<open>SetMeshCollisionSection\<close> (defined in
  \<^verbatim>\<open>RuntimeMeshComponent.cpp\<close>) sets the geometry of a collision-only section, growing
  the sequence to its index, and marks the collision dirty.\<close>

definition SetMeshCollisionSection ::
  "int \<Rightarrow> FVector list \<Rightarrow> int list \<Rightarrow> 'v component \<Rightarrow> 'v outcome" where
  "SetMeshCollisionSection CollisionSectionIndex Vertices Triangles st =
     (if CollisionSectionIndex < 0 then Inl (InvalidSectionIndex CollisionSectionIndex, st)
      else
        (let old = MeshCollisionSections st;
             grown = old @ replicate (nat (CollisionSectionIndex + 1) - length old) ([], [])
         in Inr (MarkCollisionDirty
                   (st\<lparr>MeshCollisionSections :=
                         grown[nat CollisionSectionIndex := (Vertices, Triangles)]\<rparr>))))"

text \<open>Modelled from the spec: \<^verbatim>\<open>ClearMeshCollisionSection\<close> (defined in
  \<^verbatim>\<open>RuntimeMeshComponent.cpp\<close>) clears the geometry of a collision-only section and marks
  the collision dirty.\<close>

definition ClearMeshCollisionSection :: "int \<Rightarrow> 'v component \<Rightarrow> 'v outcome" where
  "ClearMeshCollisionSection CollisionSectionIndex st =
     (if CollisionSectionIndex < 0 \<or>
         CollisionSectionIndex \<ge> int (length (MeshCollisionSections st))
      then Inl (InvalidSectionIndex CollisionSectionIndex, st)
      else Inr (MarkCollisionDirty
                  (st\<lparr>MeshCollisionSections :=
                        (MeshCollisionSections st)[nat CollisionSectionIndex := ([], [])]\<rparr>)))"

text \<open>Modelled from the spec: \<^verbatim>\<open>ClearAllMeshCollisionSections\<close> (defined in
  \<^verbatim>\<open>RuntimeMeshComponent.cpp\<close>) removes every collision-only section and marks the
  collision dirty.\<close>

definition ClearAllMeshCollisionSections :: "'v component \<Rightarrow> 'v outcome" where
  "ClearAllMeshCollisionSections st =
     Inr (MarkCollisionDirty (st\<lparr>MeshCollisionSections := []\<rparr>))"

text \<open>Modelled from the spec: \<^verbatim>\<open>AddCollisionConvexMesh\<close> (defined in
  \<^verbatim>\<open>RuntimeMeshComponent.cpp\<close>) adds a convex hull and marks the collision dirty.\<close>

definition AddCollisionConvexMesh :: "FVector list \<Rightarrow> 'v component \<Rightarrow> 'v outcome" where
  "AddCollisionConvexMesh ConvexVerts st =
     Inr (MarkCollisionDirty
            (st\<lparr>ConvexCollisionSections := ConvexCollisionSections st @ [ConvexVerts]\<rparr>))"

text \<open>Modelled from the spec: \<^verbatim>\<open>ClearCollisionConvexMeshes\<close> (defined in
  \<^verbatim>\<open>RuntimeMeshComponent.cpp\<close>) removes every convex hull and marks the collision
  dirty.\<close>

definition ClearCollisionConvexMeshes :: "'v component \<Rightarrow> 'v outcome" where
  "ClearCollisionConvexMeshes st =
     Inr (MarkCollisionDirty (st\<lparr>ConvexCollisionSections := []\<rparr>))"

text \<open>Modelled from the spec: \<^verbatim>\<open>SetCollisionConvexMeshes\<close> (defined in
  \<^verbatim>\<open>RuntimeMeshComponent.cpp\<close>) replaces all convex hulls and marks the collision
  dirty.\<close>

definition SetCollisionConvexMeshes ::
  "FVector list list \<Rightarrow> 'v component \<Rightarrow> 'v outcome" where
  "SetCollisionConvexMeshes ConvexMeshes st =
     Inr (MarkCollisionDirty (st\<lparr>ConvexCollisionSections := ConvexMeshes\<rparr>))"

section \<open>Sequences of calls\<close>

text \<open>The calls on the component that change it, and a run of them in order. A call that
  ends without returning ends the run at that point, as the caller sees it.\<close>

datatype 'v api_call =
  CallCreate "'v create_call"
  | CallUpdate "'v update_call"
  | CallSetVisible int bool
  | CallSetCastsShadow int bool
  | CallSetCollisionEnabled int bool
  | CallClearSection int
  | CallSetCollisionSection int "FVector list" "int list"
  | CallClearCollisionSection int
  | CallClearAllCollisionSections
  | CallAddConvex "FVector list"
  | CallClearConvex
  | CallSetConvex "FVector list list"

fun Apply :: "'v env \<Rightarrow> 'v api_call \<Rightarrow> 'v component \<Rightarrow> 'v outcome" where
  "Apply env (CallCreate c) st = Create env c st"
| "Apply env (CallUpdate c) st = Update env c st"
| "Apply env (CallSetVisible i b) st = SetMeshSectionVisible i b st"
| "Apply env (CallSetCastsShadow i b) st = SetMeshSectionCastsShadow i b st"
| "Apply env (CallSetCollisionEnabled i b) st = SetMeshSectionCollisionEnabled i b st"
| "Apply env (CallClearSection i) st = ClearMeshSection i st"
| "Apply env (CallSetCollisionSection i V T) st = SetMeshCollisionSection i V T st"
| "Apply env (CallClearCollisionSection i) st = ClearMeshCollisionSection i st"
| "Apply env CallClearAllCollisionSections st = ClearAllMeshCollisionSections st"
| "Apply env (CallAddConvex V) st = AddCollisionConvexMesh V st"
| "Apply env CallClearConvex st = ClearCollisionConvexMeshes st"
| "Apply env (CallSetConvex M) st = SetCollisionConvexMeshes M st"

fun Run :: "'v env \<Rightarrow> 'v api_call list \<Rightarrow> 'v component \<Rightarrow> 'v outcome" where
  "Run env [] st = Inr st"
| "Run env (c # cs) st =
     (case Apply env c st of
        Inl e \<Rightarrow> Inl e
      | Inr st' \<Rightarrow> Run env cs st')"

text \<open>The mutations of a batch: creations, updates and property changes.\<close>

fun IsSectionMutation :: "'v api_call \<Rightarrow> bool" where
  "IsSectionMutation (CallCreate c) = True"
| "IsSectionMutation (CallUpdate c) = True"
| "IsSectionMutation (CallSetVisible i b) = True"
| "IsSectionMutation (CallSetCastsShadow i b) = True"
| "IsSectionMutation (CallSetCollisionEnabled i b) = True"
| "IsSectionMutation _ = False"

text \<open>The section index a call names.\<close>

fun NamedSection :: "'v api_call \<Rightarrow> int option" where
  "NamedSection (CallCreate c) = Some (CreateIndex c)"
| "NamedSection (CallUpdate c) = Some (UpdateIndex c)"
| "NamedSection (CallSetVisible i b) = Some i"
| "NamedSection (CallSetCastsShadow i b) = Some i"
| "NamedSection (CallSetCollisionEnabled i b) = Some i"
| "NamedSection (CallClearSection i) = Some i"
| "NamedSection _ = None"

text \<open>An update call supplies a part that is not empty.\<close>

definition SuppliesPart :: "'v update_shape \<Rightarrow> bool" where
  "SuppliesPart sh =
     ((case SuppliedPositions sh of Some P \<Rightarrow> P \<noteq> [] | None \<Rightarrow> False) \<or>
      SuppliedVertices sh \<noteq> [] \<or>
      (case SuppliedTriangles sh of Some T \<Rightarrow> T \<noteq> [] | None \<Rightarrow> False))"

text \<open>Whether a call of a batch is a mutation of the section it names, read off the call
  and the component it is made on: a creation always is; an update is one when the section
  exists, the dual-buffer length guard does not reject the call and the call supplies a
  part that is not empty (otherwise it is the no-op of the update path); a property change
  is one when the section exists and the flag gets another value.\<close>

fun MutatesSection :: "'v api_call \<Rightarrow> 'v component \<Rightarrow> bool" where
  "MutatesSection (CallCreate c) st = True"
| "MutatesSection (CallUpdate c) st =
     (case SectionSlot st (UpdateIndex c) of
        Some s \<Rightarrow> \<not> DualBufferGuard (UpdateShape c) s \<and> SuppliesPart (UpdateShape c)
      | None \<Rightarrow> False)"
| "MutatesSection (CallSetVisible i b) st =
     (case SectionSlot st i of Some s \<Rightarrow> bIsVisible s \<noteq> b | None \<Rightarrow> False)"
| "MutatesSection (CallSetCastsShadow i b) st =
     (case SectionSlot st i of Some s \<Rightarrow> bCastsShadow s \<noteq> b | None \<Rightarrow> False)"
| "MutatesSection (CallSetCollisionEnabled i b) st =
     (case SectionSlot st i of Some s \<Rightarrow> CollisionEnabled s \<noteq> b | None \<Rightarrow> False)"
| "MutatesSection _ st = False"

text \<open>The section index a call touches: the index it names, when it is a mutation of that
  section.\<close>

definition TouchedIndex :: "'v api_call \<Rightarrow> 'v component \<Rightarrow> int option" where
  "TouchedIndex c st = (if MutatesSection c st then NamedSection c else None)"

text \<open>The section indices the calls of a run touch, each call on the component the calls
  before it have left.\<close>

fun TouchedBy :: "'v env \<Rightarrow> 'v api_call list \<Rightarrow> 'v component \<Rightarrow> int set" where
  "TouchedBy env [] st = {}"
| "TouchedBy env (c # cs) st =
     set_option (TouchedIndex c st) \<union>
     (case Apply env c st of
        Inl e \<Rightarrow> {}
      | Inr st' \<Rightarrow> TouchedBy env cs st')"

text \<open>The full synchronisation of a section as it is in a component.\<close>

definition FullSyncOf :: "'v component \<Rightarrow> int \<Rightarrow> 'v sync_call" where
  "FullSyncOf st i =
     \<lparr>SyncIndex = i, SyncPositions = True, SyncVertices = True, SyncIndices = True,
      SyncBounds = True, SyncSnapshot = SectionSlot st i\<rparr>"

text \<open>The mutations that affect the collision, on the component they are made on: a
  creation with collision enabled, the clearing of a section that has collision enabled, a
  toggle of a section's collision flag, and every change of the collision-only sections
  and of the convex hulls.\<close>

fun AffectsCollision :: "'v api_call \<Rightarrow> 'v component \<Rightarrow> bool" where
  "AffectsCollision (CallCreate c) st = ArgCollision c"
| "AffectsCollision (CallClearSection i) st =
     (case SectionSlot st i of Some s \<Rightarrow> CollisionEnabled s | None \<Rightarrow> False)"
| "AffectsCollision (CallSetCollisionEnabled i b) st =
     (case SectionSlot st i of Some s \<Rightarrow> CollisionEnabled s \<noteq> b | None \<Rightarrow> False)"
| "AffectsCollision (CallSetCollisionSection i V T) st = True"
| "AffectsCollision (CallClearCollisionSection i) st = True"
| "AffectsCollision CallClearAllCollisionSections st = True"
| "AffectsCollision (CallAddConvex V) st = True"
| "AffectsCollision CallClearConvex st = True"
| "AffectsCollision (CallSetConvex M) st = True"
| "AffectsCollision _ st = False"

fun AllAffectCollision :: "'v env \<Rightarrow> 'v api_call list \<Rightarrow> 'v component \<Rightarrow> bool" where
  "AllAffectCollision env [] st = True"
| "AllAffectCollision env (c # cs) st =
     (AffectsCollision c st \<and>
      (case Apply env c st of
         Inl e \<Rightarrow> True
       | Inr st' \<Rightarrow> AllAffectCollision env cs st'))"

text \<open>The scheduler holds a request exactly when the component has one pending.\<close>

definition RequestsMatchPending :: "'v component \<Rightarrow> bool" where
  "RequestsMatchPending st = (BakeRequests st = (if bTickPending st then 1 else 0))"

section \<open>Notions used in the statements\<close>

text \<open>The parts of a creation call, read off its shape.\<close>

fun CreateVertices :: "'v create_shape \<Rightarrow> 'v list" where
  "CreateVertices (Single V T) = V"
| "CreateVertices (SingleBox V T B) = V"
| "CreateVertices (Dual P V T) = V"
| "CreateVertices (DualBox P V T B) = V"

fun CreateTriangles :: "'v create_shape \<Rightarrow> int list" where
  "CreateTriangles (Single V T) = T"
| "CreateTriangles (SingleBox V T B) = T"
| "CreateTriangles (Dual P V T) = T"
| "CreateTriangles (DualBox P V T B) = T"

fun CreatePositions :: "'v create_shape \<Rightarrow> FVector list option" where
  "CreatePositions (Dual P V T) = Some P"
| "CreatePositions (DualBox P V T B) = Some P"
| "CreatePositions _ = None"

fun CreateBox :: "'v create_shape \<Rightarrow> FBox option" where
  "CreateBox (SingleBox V T B) = Some B"
| "CreateBox (DualBox P V T B) = Some B"
| "CreateBox _ = None"

text \<open>The arguments the validation macros of the creation templates refuse: a negative index,
  no vertices, no triangles, a box that is not valid, and positions of another length
  than the vertex data.\<close>

definition InvalidCreateArguments :: "'v create_call \<Rightarrow> bool" where
  "InvalidCreateArguments c =
     (CreateIndex c < 0 \<or>
      CreateVertices (CreateShape c) = [] \<or>
      CreateTriangles (CreateShape c) = [] \<or>
      (case CreateBox (CreateShape c) of Some B \<Rightarrow> \<not> IsValid B | None \<Rightarrow> False) \<or>
      (case CreatePositions (CreateShape c) of
         Some P \<Rightarrow> length P \<noteq> length (CreateVertices (CreateShape c))
       | None \<Rightarrow> False))"

text \<open>The positions a creation call supplies: the position array of a dual-buffer call, the
  positions of the vertices otherwise.\<close>

definition PositionsOfCreate :: "'v env \<Rightarrow> 'v create_shape \<Rightarrow> FVector list" where
  "PositionsOfCreate env sh =
     (case CreatePositions sh of
        Some P \<Rightarrow> P
      | None \<Rightarrow> map (PositionOf env) (CreateVertices sh))"

text \<open>The axis-aligned bounding box of a sequence of positions, said without the scan: a
  valid box whose corners are, axis by axis, the least and the greatest coordinate.\<close>

definition IsBoundingBoxOf :: "FBox \<Rightarrow> FVector list \<Rightarrow> bool" where
  "IsBoundingBoxOf b ps =
     (IsValid b \<and>
      fst (BoxMin b) = Min (fst ` set ps) \<and>
      fst (snd (BoxMin b)) = Min ((\<lambda>p. fst (snd p)) ` set ps) \<and>
      snd (snd (BoxMin b)) = Min ((\<lambda>p. snd (snd p)) ` set ps) \<and>
      fst (BoxMax b) = Max (fst ` set ps) \<and>
      fst (snd (BoxMax b)) = Max ((\<lambda>p. fst (snd p)) ` set ps) \<and>
      snd (snd (BoxMax b)) = Max ((\<lambda>p. snd (snd p)) ` set ps))"

text \<open>The section a creation call leaves in its slot, and the registry grown for its index
  (\<open>Create_Inr_iff\<close> below proves both from the four templates).\<close>

definition CreatedSection :: "'v env \<Rightarrow> 'v create_call \<Rightarrow> 'v FRuntimeMeshSection" where
  "CreatedSection env c =
     \<lparr>SectionVertexType = CreateVertexType c,
      bNeedsPositionOnlyBuffer = (CreatePositions (CreateShape c) \<noteq> None),
      bIsInternalSectionType = False,
      PositionVertexBuffer = (case CreatePositions (CreateShape c) of Some P \<Rightarrow> P | None \<Rightarrow> []),
      VertexBuffer = CreateVertices (CreateShape c),
      IndexBuffer = CreateTriangles (CreateShape c),
      LocalBoundingBox =
        (case CreateBox (CreateShape c) of
           Some B \<Rightarrow> B
         | None \<Rightarrow> BoxOfPositions (PositionsOfCreate env (CreateShape c))),
      CollisionEnabled = ArgCollision c,
      UpdateFrequency = ArgFrequency c,
      bIsVisible = CtorIsVisible env,
      bCastsShadow = CtorCastsShadow env\<rparr>"

definition RegistryFor :: "'a option list \<Rightarrow> int \<Rightarrow> 'a option list" where
  "RegistryFor xs i = (if i \<ge> int (length xs) then SetNum xs (i + 1) else xs)"

text \<open>The indices at which a registry can hold a section: those of its slots, and beyond
  them the indices below \<^verbatim>\<open>MAX_int32\<close>, to which it can be grown.\<close>

definition InReach :: "'a option list \<Rightarrow> int \<Rightarrow> bool" where
  "InReach xs i = (0 \<le> i \<and> (i < int (length xs) \<or> i < MAX_int32))"

text \<open>Every supplied part that is not empty is in the section's buffer of that part.\<close>

definition AllApplied :: "'v update_shape \<Rightarrow> 'v FRuntimeMeshSection \<Rightarrow> bool" where
  "AllApplied sh s =
     ((case SuppliedPositions sh of
         Some P \<Rightarrow> P = [] \<or> PositionVertexBuffer s = P
       | None \<Rightarrow> True) \<and>
      (SuppliedVertices sh = [] \<or> VertexBuffer s = SuppliedVertices sh) \<and>
      (case SuppliedTriangles sh of
         Some T \<Rightarrow> T = [] \<or> IndexBuffer s = T
       | None \<Rightarrow> True))"

text \<open>The buffers of the section \<open>s'\<close> after an accepted call on the section \<open>s\<close>: each
  is the supplied array when one was supplied and is not empty, and the old buffer
  otherwise.\<close>

definition BuffersAfter ::
  "'v update_shape \<Rightarrow> 'v FRuntimeMeshSection \<Rightarrow> 'v FRuntimeMeshSection \<Rightarrow> bool" where
  "BuffersAfter sh s s' =
     (VertexBuffer s' = (if SuppliedVertices sh = [] then VertexBuffer s else SuppliedVertices sh) \<and>
      PositionVertexBuffer s' =
        (case SuppliedPositions sh of
           Some P \<Rightarrow> if P = [] then PositionVertexBuffer s else P
         | None \<Rightarrow> PositionVertexBuffer s) \<and>
      IndexBuffer s' =
        (case SuppliedTriangles sh of
           Some T \<Rightarrow> if T = [] then IndexBuffer s else T
         | None \<Rightarrow> IndexBuffer s))"

text \<open>The warnings of the parts of a call that were supplied empty, in the order of the
  blocks.\<close>

definition SkipWarnings :: "'v update_shape \<Rightarrow> (ELogVerbosity \<times> string) list" where
  "SkipWarnings sh =
     (if SuppliedPositions sh = Some []
      then [(Warning, ''UpdatemeshSection() - Vertex positions empty. They will not be updated.'')]
      else []) @
     (if SuppliedVertices sh = []
      then [(Warning, ''UpdateMeshSection() - Vertices empty. They will not be updated.'')]
      else []) @
     (if SuppliedTriangles sh = Some []
      then [(Warning, ''UpdateMeshSection() - Triangles empty. They will not be updated.'')]
      else [])"

text \<open>What a call added to the log, and whether an error line is among it: the only error
  line of the update templates is the one of the dual-buffer guard, so this says that the
  call was rejected.\<close>

definition NewLogLines :: "'v component \<Rightarrow> 'v component \<Rightarrow> (ELogVerbosity \<times> string) list" where
  "NewLogLines st st' = drop (length (LogOutput st)) (LogOutput st')"

definition RejectionLogged :: "'v component \<Rightarrow> 'v component \<Rightarrow> bool" where
  "RejectionLogged st st' = (Error \<in> fst ` set (NewLogLines st st'))"

text \<open>Readings of the result of a call, for statements about concrete runs.\<close>

definition SectionAfter :: "'v outcome \<Rightarrow> int \<Rightarrow> 'v FRuntimeMeshSection option" where
  "SectionAfter r i = (case r of Inr st' \<Rightarrow> SectionSlot st' i | Inl e \<Rightarrow> None)"

definition LogAfter :: "'v outcome \<Rightarrow> (ELogVerbosity \<times> string) list" where
  "LogAfter r = (case r of Inr st' \<Rightarrow> LogOutput st' | Inl e \<Rightarrow> [])"

definition BufferLengthsAfter :: "'v outcome \<Rightarrow> int \<Rightarrow> (nat \<times> nat) option" where
  "BufferLengthsAfter r i =
     (case SectionAfter r i of
        Some s \<Rightarrow> Some (length (PositionVertexBuffer s), length (VertexBuffer s))
      | None \<Rightarrow> None)"

definition IndexBufferAfter :: "'v outcome \<Rightarrow> int \<Rightarrow> int list option" where
  "IndexBufferAfter r i =
     (case SectionAfter r i of Some s \<Rightarrow> Some (IndexBuffer s) | None \<Rightarrow> None)"

section \<open>A concrete component\<close>

text \<open>Two vertex types, one with its position and one without (the vertex data of a
  dual-buffer section), a build with the checks compiled in, and the component after two
  creations on the empty one: section 0 is a quad in one buffer, section 1 a triangle in
  two buffers.\<close>

datatype example_vertex = FullVertex FVector nat | DataVertex nat

fun ExamplePositionOf :: "example_vertex \<Rightarrow> FVector" where
  "ExamplePositionOf (FullVertex p a) = p"
| "ExamplePositionOf (DataVertex a) = (0, 0, 0)"

definition ExampleEnv :: "example_vertex env" where
  "ExampleEnv =
     \<lparr>DoCheck = True, PositionOf = ExamplePositionOf, CtorCollisionEnabled = False,
      CtorUpdateFrequency = Average, CtorIsVisible = True, CtorCastsShadow = True,
      CtorBoundingBox = \<lparr>BoxMin = (0, 0, 0), BoxMax = (0, 0, 0), IsValid = False\<rparr>\<rparr>"

definition EmptyComponent :: "'v component" where
  "EmptyComponent =
     \<lparr>MeshSections = [],
      BatchState = \<lparr>bIsBatchPending = False, TouchedSections = []\<rparr>,
      bCollisionDirty = False, bTickPending = False, BakeRequests = 0,
      MeshCollisionSections = [], ConvexCollisionSections = [],
      SyncTrace = [], LogOutput = []\<rparr>"

definition ExampleQuadCall :: "example_vertex create_call" where
  "ExampleQuadCall =
     \<lparr>CreateVertexType = ''FFullVertex'', CreateIndex = 0,
      CreateShape =
        Single [FullVertex (0, 0, 0) 1, FullVertex (1, 0, 0) 2, FullVertex (1, 1, 0) 3,
                FullVertex (0, 1, 0) 4]
          [0, 1, 2, 0, 2, 3],
      CreateCollision = None, CreateFrequency = None, CreateFlags = None\<rparr>"

definition ExampleDualCall :: "example_vertex create_call" where
  "ExampleDualCall =
     \<lparr>CreateVertexType = ''FDataVertex'', CreateIndex = 1,
      CreateShape =
        Dual [(0, 0, 0), (1, 0, 0), (0, 1, 0)] [DataVertex 1, DataVertex 2, DataVertex 3]
          [0, 1, 2],
      CreateCollision = None, CreateFrequency = None, CreateFlags = None\<rparr>"

definition ExampleQuadSection :: "example_vertex FRuntimeMeshSection" where
  "ExampleQuadSection =
     \<lparr>SectionVertexType = ''FFullVertex'', bNeedsPositionOnlyBuffer = False,
      bIsInternalSectionType = False, PositionVertexBuffer = [],
      VertexBuffer = [FullVertex (0, 0, 0) 1, FullVertex (1, 0, 0) 2, FullVertex (1, 1, 0) 3,
                      FullVertex (0, 1, 0) 4],
      IndexBuffer = [0, 1, 2, 0, 2, 3],
      LocalBoundingBox = \<lparr>BoxMin = (0, 0, 0), BoxMax = (1, 1, 0), IsValid = True\<rparr>,
      CollisionEnabled = False, UpdateFrequency = Average, bIsVisible = True,
      bCastsShadow = True\<rparr>"

definition ExampleDualSection :: "example_vertex FRuntimeMeshSection" where
  "ExampleDualSection =
     \<lparr>SectionVertexType = ''FDataVertex'', bNeedsPositionOnlyBuffer = True,
      bIsInternalSectionType = False,
      PositionVertexBuffer = [(0, 0, 0), (1, 0, 0), (0, 1, 0)],
      VertexBuffer = [DataVertex 1, DataVertex 2, DataVertex 3],
      IndexBuffer = [0, 1, 2],
      LocalBoundingBox = \<lparr>BoxMin = (0, 0, 0), BoxMax = (1, 1, 0), IsValid = True\<rparr>,
      CollisionEnabled = False, UpdateFrequency = Average, bIsVisible = True,
      bCastsShadow = True\<rparr>"

definition ExampleComponent :: "example_vertex component" where
  "ExampleComponent =
     EmptyComponent
       \<lparr>MeshSections := [Some ExampleQuadSection, Some ExampleDualSection],
        SyncTrace :=
          [\<lparr>SyncIndex = 0, SyncPositions = True, SyncVertices = True, SyncIndices = True,
            SyncBounds = True, SyncSnapshot = Some ExampleQuadSection\<rparr>,
           \<lparr>SyncIndex = 1, SyncPositions = True, SyncVertices = True, SyncIndices = True,
            SyncBounds = True, SyncSnapshot = Some ExampleDualSection\<rparr>]\<rparr>"

definition ExampleUpdate :: "vertex_type \<Rightarrow> int \<Rightarrow> example_vertex update_shape \<Rightarrow> example_vertex update_call" where
  "ExampleUpdate vt i sh =
     \<lparr>UpdateVertexType = vt, UpdateIndex = i, UpdateShape = sh, UpdateFlags = None\<rparr>"

section \<open>Notions used in the proofs about runs\<close>

text \<open>A component with another batch state and another synchronisation trace, and a finishing
  call that may be absent: every section mutation is a change that does not look at the
  batch state or at the trace, followed by at most one finishing call (\<open>Apply_factor\<close>
  below).\<close>

definition Rebatch ::
  "FRuntimeMeshBatchUpdateState \<Rightarrow> 'v sync_call list \<Rightarrow> 'v component \<Rightarrow> 'v component" where
  "Rebatch bs tr st = st\<lparr>BatchState := bs, SyncTrace := tr\<rparr>"

definition Finish ::
  "(int \<times> bool \<times> bool \<times> bool \<times> bool) option \<Rightarrow> 'v component \<Rightarrow> 'v component" where
  "Finish fin st =
     (case fin of
        None \<Rightarrow> st
      | Some (i, a, b, c, d) \<Rightarrow> SyncOrDefer i a b c d st)"

text \<open>The collision is marked: the dirty flag is set and exactly one bake request is
  pending.\<close>

definition CollisionMarked :: "'v component \<Rightarrow> bool" where
  "CollisionMarked st = (bCollisionDirty st \<and> bTickPending st \<and> BakeRequests st = 1)"

text \<open>Two runs on the concrete component: a batch that changes section 0 twice, creates
  section 2, makes on section 1 an update that the length guard rejects and then changes
  section 1 once; and three mutations that affect the collision, two of them toggles of
  the same flag.\<close>

definition ExampleBatch :: "example_vertex api_call list" where
  "ExampleBatch =
     [CallUpdate (ExampleUpdate ''FFullVertex'' 0 (UpdVTri [] [0, 2, 1, 0, 3, 2])),
      CallCreate (ExampleDualCall\<lparr>CreateIndex := 2\<rparr>),
      CallUpdate (ExampleUpdate ''FFullVertex'' 0 (UpdVTri [] [0, 1, 2])),
      CallUpdate (ExampleUpdate ''FDataVertex'' 1 (UpdV [])),
      CallSetVisible 1 False]"

definition ExampleCollisionCalls :: "example_vertex api_call list" where
  "ExampleCollisionCalls =
     [CallSetCollisionEnabled 0 True, CallSetCollisionEnabled 0 False,
      CallAddConvex [(0, 0, 0), (1, 0, 0), (0, 1, 0), (0, 0, 1)]]"

section \<open>Basic facts\<close>

lemma first_failure_single [simp]: "first_failure [a] = a"
  by (cases a) simp_all

lemma first_failure_pair_None [simp]: "first_failure [a, None] = a"
  by (cases a) simp_all

lemma flags_UpdateVerticesIfSupplied [simp]:
  "bUpdatedVertexPositions (UpdateVerticesIfSupplied env V B mv f) = bUpdatedVertexPositions f"
  "bUpdatedIndices (UpdateVerticesIfSupplied env V B mv f) = bUpdatedIndices f"
  by (simp_all add: UpdateVerticesIfSupplied_def split: prod.splits)

lemma flags_UpdateVertexDataIfSupplied [simp]:
  "bUpdatedVertexPositions (UpdateVertexDataIfSupplied env V mv f) = bUpdatedVertexPositions f"
  "bUpdatedIndices (UpdateVertexDataIfSupplied env V mv f) = bUpdatedIndices f"
  "bNeedsBoundsUpdate (UpdateVertexDataIfSupplied env V mv f) = bNeedsBoundsUpdate f"
  by (simp_all add: UpdateVertexDataIfSupplied_def)

lemma flags_UpdateTrianglesIfSupplied [simp]:
  "bUpdatedVertexPositions (UpdateTrianglesIfSupplied T mv f) = bUpdatedVertexPositions f"
  "bUpdatedVertices (UpdateTrianglesIfSupplied T mv f) = bUpdatedVertices f"
  "bNeedsBoundsUpdate (UpdateTrianglesIfSupplied T mv f) = bNeedsBoundsUpdate f"
  by (simp_all add: UpdateTrianglesIfSupplied_def)

lemma flags_StartUpdate [simp]:
  "bUpdatedVertexPositions (StartUpdate s st) = False"
  "bUpdatedVertices (StartUpdate s st) = False"
  "bUpdatedIndices (StartUpdate s st) = False"
  "bNeedsBoundsUpdate (StartUpdate s st) = False"
  "Section (StartUpdate s st) = s"
  "Component (StartUpdate s st) = st"
  by (simp_all add: StartUpdate_def)

lemma flags_UpdatePositionsIfSupplied:
  "UpdatePositionsIfSupplied env P B mv f = Inr f1 \<Longrightarrow>
     bUpdatedIndices f1 = bUpdatedIndices f \<and> bUpdatedVertices f1 = bUpdatedVertices f"
  by (auto simp: UpdatePositionsIfSupplied_def split: if_splits sum.splits)

section \<open>Every update template is an instance of the common form\<close>

lemmas update_defs = UpdateMeshSection_V_def UpdateMeshSection_V_Box_def
  UpdateMeshSection_V_Tri_def UpdateMeshSection_V_Tri_Box_def UpdateMeshSection_Dual_def
  UpdateMeshSection_Dual_Box_def UpdateMeshSection_Dual_Tri_def UpdateMeshSection_Dual_Tri_Box_def

lemmas generic_defs = UpdateGeneric_def UpdatePrologue_def DualBufferGuard_def RunBlocks_def
  TrianglesBlock_def FinishUpdate_def GuardMessage_def MoveRequested_def

lemma Update_eq_generic: "Update env c st = UpdateGeneric env c st"
proof (cases "UpdateShape c")
  case (UpdV V)
  then show ?thesis
    by (auto simp: Update_def update_defs generic_defs Let_def split: option.splits sum.splits)
next
  case (UpdVBox V B)
  then show ?thesis
    by (auto simp: Update_def update_defs generic_defs Let_def split: option.splits sum.splits)
next
  case (UpdVTri V T)
  then show ?thesis
    by (auto simp: Update_def update_defs generic_defs Let_def split: option.splits sum.splits)
next
  case (UpdVTriBox V T B)
  then show ?thesis
    by (auto simp: Update_def update_defs generic_defs Let_def split: option.splits sum.splits)
next
  case (UpdDual P V)
  then show ?thesis
    by (auto simp: Update_def update_defs generic_defs Let_def dest: flags_UpdatePositionsIfSupplied
        split: option.splits sum.splits)
next
  case (UpdDualBox P V B)
  then show ?thesis
    by (auto simp: Update_def update_defs generic_defs Let_def dest: flags_UpdatePositionsIfSupplied
        split: option.splits sum.splits)
next
  case (UpdDualTri P V T)
  then show ?thesis
    by (auto simp: Update_def update_defs generic_defs Let_def dest: flags_UpdatePositionsIfSupplied
        split: option.splits sum.splits)
next
  case (UpdDualTriBox P V T B)
  then show ?thesis
    by (auto simp: Update_def update_defs generic_defs Let_def dest: flags_UpdatePositionsIfSupplied
        split: option.splits sum.splits)
qed


section \<open>The blocks of an update\<close>

text \<open>What each block leaves in the frame, and what the blocks leave together.\<close>

lemma UpdateVertexBuffer_members [simp]:
  "VertexBuffer (snd (UpdateVertexBuffer env V B mv s)) = V"
  "PositionVertexBuffer (snd (UpdateVertexBuffer env V B mv s)) = PositionVertexBuffer s"
  "IndexBuffer (snd (UpdateVertexBuffer env V B mv s)) = IndexBuffer s"
  "SectionVertexType (snd (UpdateVertexBuffer env V B mv s)) = SectionVertexType s"
  "bNeedsPositionOnlyBuffer (snd (UpdateVertexBuffer env V B mv s)) = bNeedsPositionOnlyBuffer s"
  "bIsInternalSectionType (snd (UpdateVertexBuffer env V B mv s)) = bIsInternalSectionType s"
  "CollisionEnabled (snd (UpdateVertexBuffer env V B mv s)) = CollisionEnabled s"
  "UpdateFrequency (snd (UpdateVertexBuffer env V B mv s)) = UpdateFrequency s"
  "bIsVisible (snd (UpdateVertexBuffer env V B mv s)) = bIsVisible s"
  "bCastsShadow (snd (UpdateVertexBuffer env V B mv s)) = bCastsShadow s"
  by (simp_all add: UpdateVertexBuffer_def Let_def split: option.splits)

lemma UpdateIndexBuffer_members [simp]:
  "IndexBuffer (UpdateIndexBuffer T mv s) = T"
  "VertexBuffer (UpdateIndexBuffer T mv s) = VertexBuffer s"
  "PositionVertexBuffer (UpdateIndexBuffer T mv s) = PositionVertexBuffer s"
  "LocalBoundingBox (UpdateIndexBuffer T mv s) = LocalBoundingBox s"
  "SectionVertexType (UpdateIndexBuffer T mv s) = SectionVertexType s"
  "bNeedsPositionOnlyBuffer (UpdateIndexBuffer T mv s) = bNeedsPositionOnlyBuffer s"
  "bIsInternalSectionType (UpdateIndexBuffer T mv s) = bIsInternalSectionType s"
  "CollisionEnabled (UpdateIndexBuffer T mv s) = CollisionEnabled s"
  "UpdateFrequency (UpdateIndexBuffer T mv s) = UpdateFrequency s"
  "bIsVisible (UpdateIndexBuffer T mv s) = bIsVisible s"
  "bCastsShadow (UpdateIndexBuffer T mv s) = bCastsShadow s"
  by (simp_all add: UpdateIndexBuffer_def)

lemma UpdateVerticesIfSupplied_frame [simp]:
  "Section (UpdateVerticesIfSupplied env V B mv f) =
     (if V = [] then Section f else snd (UpdateVertexBuffer env V B mv (Section f)))"
  "Component (UpdateVerticesIfSupplied env V B mv f) =
     (if V = []
      then Log ''UpdateMeshSection() - Vertices empty. They will not be updated.'' False
             (Component f)
      else Component f)"
  "bUpdatedVertices (UpdateVerticesIfSupplied env V B mv f) = (V \<noteq> [] \<or> bUpdatedVertices f)"
  by (simp_all add: UpdateVerticesIfSupplied_def split: prod.splits)

lemma UpdateVertexDataIfSupplied_frame [simp]:
  "Section (UpdateVertexDataIfSupplied env V mv f) =
     (if V = [] then Section f else snd (UpdateVertexBuffer env V None mv (Section f)))"
  "Component (UpdateVertexDataIfSupplied env V mv f) =
     (if V = []
      then Log ''UpdateMeshSection() - Vertices empty. They will not be updated.'' False
             (Component f)
      else Component f)"
  "bUpdatedVertices (UpdateVertexDataIfSupplied env V mv f) = (V \<noteq> [] \<or> bUpdatedVertices f)"
  by (simp_all add: UpdateVertexDataIfSupplied_def)

lemma UpdateTrianglesIfSupplied_frame [simp]:
  "Section (UpdateTrianglesIfSupplied T mv f) =
     (if T = [] then Section f else UpdateIndexBuffer T mv (Section f))"
  "Component (UpdateTrianglesIfSupplied T mv f) =
     (if T = []
      then Log ''UpdateMeshSection() - Triangles empty. They will not be updated.'' False
             (Component f)
      else Component f)"
  "bUpdatedIndices (UpdateTrianglesIfSupplied T mv f) = (T \<noteq> [] \<or> bUpdatedIndices f)"
  by (simp_all add: UpdateTrianglesIfSupplied_def)

lemma UpdatePositionsIfSupplied_Inr:
  assumes "UpdatePositionsIfSupplied env P B mv f = Inr f1"
  shows "PositionVertexBuffer (Section f1) = (if P = [] then PositionVertexBuffer (Section f) else P)"
    and "VertexBuffer (Section f1) = VertexBuffer (Section f)"
    and "IndexBuffer (Section f1) = IndexBuffer (Section f)"
    and "SectionVertexType (Section f1) = SectionVertexType (Section f)"
    and "bNeedsPositionOnlyBuffer (Section f1) = bNeedsPositionOnlyBuffer (Section f)"
    and "bIsInternalSectionType (Section f1) = bIsInternalSectionType (Section f)"
    and "CollisionEnabled (Section f1) = CollisionEnabled (Section f)"
    and "UpdateFrequency (Section f1) = UpdateFrequency (Section f)"
    and "bIsVisible (Section f1) = bIsVisible (Section f)"
    and "bCastsShadow (Section f1) = bCastsShadow (Section f)"
    and "Component f1 =
           (if P = []
            then Log ''UpdatemeshSection() - Vertex positions empty. They will not be updated.''
                   False (Component f)
            else Component f)"
    and "bUpdatedVertexPositions f1 = (P \<noteq> [] \<or> bUpdatedVertexPositions f)"
    and "P = [] \<Longrightarrow> Section f1 = Section f"
  using assms
  by (auto simp: UpdatePositionsIfSupplied_def UpdateVertexPositionBuffer_def Let_def
      split: if_splits)

lemma TrianglesBlock_frame [simp]:
  "Section (TrianglesBlock sh mv f) =
     (case SuppliedTriangles sh of
        Some T \<Rightarrow> if T = [] then Section f else UpdateIndexBuffer T mv (Section f)
      | None \<Rightarrow> Section f)"
  "Component (TrianglesBlock sh mv f) =
     (if SuppliedTriangles sh = Some []
      then Log ''UpdateMeshSection() - Triangles empty. They will not be updated.'' False
             (Component f)
      else Component f)"
  "bUpdatedIndices (TrianglesBlock sh mv f) =
     ((\<exists>T. SuppliedTriangles sh = Some T \<and> T \<noteq> []) \<or> bUpdatedIndices f)"
  "bUpdatedVertices (TrianglesBlock sh mv f) = bUpdatedVertices f"
  "bUpdatedVertexPositions (TrianglesBlock sh mv f) = bUpdatedVertexPositions f"
  by (auto simp: TrianglesBlock_def split: option.splits)

lemma RunBlocks_cases:
  assumes "RunBlocks env sh mv f0 = Inr f"
  obtains (single) "SuppliedPositions sh = None"
      "f = TrianglesBlock sh mv
             (UpdateVerticesIfSupplied env (SuppliedVertices sh) (SuppliedBox sh) mv f0)"
  | (dual) P f1 where "SuppliedPositions sh = Some P"
      "UpdatePositionsIfSupplied env P (SuppliedBox sh) mv f0 = Inr f1"
      "f = TrianglesBlock sh mv (UpdateVertexDataIfSupplied env (SuppliedVertices sh) mv f1)"
  using assms by (auto simp: RunBlocks_def split: option.splits sum.splits)

lemma RunBlocks_VertexBuffer:
  assumes "RunBlocks env sh mv f0 = Inr f"
  shows "VertexBuffer (Section f) =
       (if SuppliedVertices sh = [] then VertexBuffer (Section f0) else SuppliedVertices sh)"
  using assms
  by (cases rule: RunBlocks_cases)
     (auto simp: UpdatePositionsIfSupplied_Inr split: option.splits)

lemma RunBlocks_PositionVertexBuffer:
  assumes "RunBlocks env sh mv f0 = Inr f"
  shows "PositionVertexBuffer (Section f) =
       (case SuppliedPositions sh of
          Some P \<Rightarrow> if P = [] then PositionVertexBuffer (Section f0) else P
        | None \<Rightarrow> PositionVertexBuffer (Section f0))"
  using assms
  by (cases rule: RunBlocks_cases)
     (auto simp: UpdatePositionsIfSupplied_Inr split: option.splits)

lemma RunBlocks_IndexBuffer:
  assumes "RunBlocks env sh mv f0 = Inr f"
  shows "IndexBuffer (Section f) =
       (case SuppliedTriangles sh of
          Some T \<Rightarrow> if T = [] then IndexBuffer (Section f0) else T
        | None \<Rightarrow> IndexBuffer (Section f0))"
  using assms
  by (cases rule: RunBlocks_cases)
     (auto simp: UpdatePositionsIfSupplied_Inr split: option.splits)

lemma RunBlocks_flags:
  assumes "RunBlocks env sh mv (StartUpdate s st) = Inr f"
  shows "bUpdatedVertexPositions f \<longleftrightarrow> (\<exists>P. SuppliedPositions sh = Some P \<and> P \<noteq> [])"
    and "bUpdatedVertices f \<longleftrightarrow> SuppliedVertices sh \<noteq> []"
    and "bUpdatedIndices f \<longleftrightarrow> (\<exists>T. SuppliedTriangles sh = Some T \<and> T \<noteq> [])"
  using assms
  by (cases rule: RunBlocks_cases;
      auto simp: UpdatePositionsIfSupplied_Inr flags_UpdatePositionsIfSupplied)+

lemma Log_warning: "Log t False st = st\<lparr>LogOutput := LogOutput st @ [(Warning, t)]\<rparr>"
  by (simp add: Log_def)

lemma RunBlocks_Component:
  assumes "RunBlocks env sh mv f0 = Inr f"
  shows "Component f = (Component f0)\<lparr>LogOutput := LogOutput (Component f0) @ SkipWarnings sh\<rparr>"
  using assms
  by (cases rule: RunBlocks_cases)
     (auto simp: UpdatePositionsIfSupplied_Inr SkipWarnings_def Log_warning)

lemma RunBlocks_other_members:
  assumes "RunBlocks env sh mv f0 = Inr f"
  shows "SectionVertexType (Section f) = SectionVertexType (Section f0)"
    and "bNeedsPositionOnlyBuffer (Section f) = bNeedsPositionOnlyBuffer (Section f0)"
    and "bIsInternalSectionType (Section f) = bIsInternalSectionType (Section f0)"
    and "CollisionEnabled (Section f) = CollisionEnabled (Section f0)"
    and "UpdateFrequency (Section f) = UpdateFrequency (Section f0)"
    and "bIsVisible (Section f) = bIsVisible (Section f0)"
    and "bCastsShadow (Section f) = bCastsShadow (Section f0)"
  using assms
  by (cases rule: RunBlocks_cases;
      auto simp: UpdatePositionsIfSupplied_Inr split: option.splits)+

section \<open>What the finishing calls and the logger leave alone\<close>

lemma SectionSlot_Log [simp]: "SectionSlot (Log t b st) i = SectionSlot st i"
  by (cases b) (simp_all add: SectionSlot_def Log_def)

lemma MeshSections_Log [simp]: "MeshSections (Log t b st) = MeshSections st"
  by (cases b) (simp_all add: Log_def)

lemma MeshSections_MarkCollisionDirtyIfEnabled [simp]:
  "MeshSections (MarkCollisionDirtyIfEnabled i st) = MeshSections st"
  by (simp add: MarkCollisionDirtyIfEnabled_def MarkCollisionDirty_def split: option.splits)

lemma LogOutput_MarkCollisionDirtyIfEnabled [simp]:
  "LogOutput (MarkCollisionDirtyIfEnabled i st) = LogOutput st"
  by (simp add: MarkCollisionDirtyIfEnabled_def MarkCollisionDirty_def split: option.splits)

lemma MeshSections_SyncOrDefer [simp]:
  "MeshSections (SyncOrDefer i a b c d st) = MeshSections st"
  by (simp add: SyncOrDefer_def SyncSection_def)

lemma LogOutput_SyncOrDefer [simp]:
  "LogOutput (SyncOrDefer i a b c d st) = LogOutput st"
  by (simp add: SyncOrDefer_def SyncSection_def)

lemma MeshSections_UpdateSectionInternal [simp]:
  "MeshSections (UpdateSectionInternal i a b c d st) = MeshSections st"
  by (simp add: UpdateSectionInternal_def)

lemma LogOutput_UpdateSectionInternal [simp]:
  "LogOutput (UpdateSectionInternal i a b c d st) = LogOutput st"
  by (simp add: UpdateSectionInternal_def)

lemma MeshSections_CreateSectionInternal [simp]:
  "MeshSections (CreateSectionInternal i st) = MeshSections st"
  by (simp add: CreateSectionInternal_def)

lemma LogOutput_CreateSectionInternal [simp]:
  "LogOutput (CreateSectionInternal i st) = LogOutput st"
  by (simp add: CreateSectionInternal_def)

lemma MeshSections_StoreSection [simp]:
  "MeshSections (StoreSection i s st) = (MeshSections st)[nat i := Some s]"
  by (simp add: StoreSection_def)

lemma LogOutput_StoreSection [simp]: "LogOutput (StoreSection i s st) = LogOutput st"
  by (simp add: StoreSection_def)

lemma SectionSlot_cong: "MeshSections a = MeshSections b \<Longrightarrow> SectionSlot a i = SectionSlot b i"
  by (simp add: SectionSlot_def)

lemma SectionSlot_stored:
  "SectionSlot st i = Some s \<Longrightarrow> MeshSections st' = (MeshSections st)[nat i := Some s'] \<Longrightarrow>
   SectionSlot st' i = Some s'"
  by (auto simp: SectionSlot_def split: if_splits)

lemma FinishUpdate_MeshSections:
  "MeshSections (FinishUpdate i f) =
     (if bUpdatedVertexPositions f \<or> bUpdatedVertices f \<or> bUpdatedIndices f
      then (MeshSections (Component f))[nat i := Some (Section f)]
      else MeshSections (Component f))"
  by (simp add: FinishUpdate_def)

lemma FinishUpdate_LogOutput [simp]: "LogOutput (FinishUpdate i f) = LogOutput (Component f)"
  by (simp add: FinishUpdate_def)

section \<open>The shape of an update that returns\<close>

lemma UpdatePrologue_Inr:
  "UpdatePrologue env c st = Inr s \<Longrightarrow>
     SectionSlot st (UpdateIndex c) = Some s \<and> GetVertexType s = UpdateVertexType c"
  by (auto simp: UpdatePrologue_def SectionAt_def EnsureEquals_def
      split: option.splits sum.splits if_splits)

lemma Update_Inr_D:
  assumes "Update env c st = Inr st'"
  obtains s where "SectionSlot st (UpdateIndex c) = Some s"
    and "GetVertexType s = UpdateVertexType c"
    and "DualBufferGuard (UpdateShape c) s \<Longrightarrow> st' = Log GuardMessage True st"
    and "\<not> DualBufferGuard (UpdateShape c) s \<Longrightarrow>
           \<exists>f. RunBlocks env (UpdateShape c) (MoveRequested (UpdateFlags c)) (StartUpdate s st) = Inr f
              \<and> st' = FinishUpdate (UpdateIndex c) f"
proof -
  from assms have g: "UpdateGeneric env c st = Inr st'"
    by (simp add: Update_eq_generic)
  then obtain s where s: "UpdatePrologue env c st = Inr s"
    by (auto simp: UpdateGeneric_def split: sum.splits)
  with g have "DualBufferGuard (UpdateShape c) s \<Longrightarrow> st' = Log GuardMessage True st"
    and "\<not> DualBufferGuard (UpdateShape c) s \<Longrightarrow>
           \<exists>f. RunBlocks env (UpdateShape c) (MoveRequested (UpdateFlags c)) (StartUpdate s st) = Inr f
              \<and> st' = FinishUpdate (UpdateIndex c) f"
    by (auto simp: UpdateGeneric_def split: sum.splits if_splits)
  with UpdatePrologue_Inr [OF s] that show thesis by blast
qed

section \<open>The scan computes the bounding box\<close>

lemma foldl_ExpandBox:
  "IsValid b \<Longrightarrow>
   foldl ExpandBox b ps =
     \<lparr>BoxMin = (Min (insert (fst (BoxMin b)) (fst ` set ps)),
                Min (insert (fst (snd (BoxMin b))) ((\<lambda>p. fst (snd p)) ` set ps)),
                Min (insert (snd (snd (BoxMin b))) ((\<lambda>p. snd (snd p)) ` set ps))),
      BoxMax = (Max (insert (fst (BoxMax b)) (fst ` set ps)),
                Max (insert (fst (snd (BoxMax b))) ((\<lambda>p. fst (snd p)) ` set ps)),
                Max (insert (snd (snd (BoxMax b))) ((\<lambda>p. snd (snd p)) ` set ps))),
      IsValid = True\<rparr>"
proof (induction ps arbitrary: b)
  case Nil
  then show ?case by (cases b) auto
next
  case (Cons p ps)
  obtain x y z where p: "p = (x, y, z)" by (cases p) auto
  obtain x0 y0 z0 where lo: "BoxMin b = (x0, y0, z0)" by (cases "BoxMin b") auto
  obtain x1 y1 z1 where hi: "BoxMax b = (x1, y1, z1)" by (cases "BoxMax b") auto
  have v: "IsValid (ExpandBox b p)" by (simp add: ExpandBox_def p lo hi)
  have m: "\<And>a c (A::real set). finite A \<Longrightarrow> Min (insert (min a c) A) = Min (insert a (insert c A))"
    "\<And>a c (A::real set). finite A \<Longrightarrow> Max (insert (max a c) A) = Max (insert a (insert c A))"
    by (case_tac [!] "A = {}") (simp_all add: min.assoc max.assoc)
  show ?case
    by (simp add: Cons.IH [OF v]) (simp add: ExpandBox_def p lo hi m)
qed

lemma BoxOfPositions_is_box: "ps \<noteq> [] \<Longrightarrow> IsBoundingBoxOf (BoxOfPositions ps) ps"
proof (cases ps)
  case Nil
  assume "ps \<noteq> []"
  with Nil show ?thesis by simp
next
  case (Cons p qs)
  then show ?thesis
    by (simp add: foldl_ExpandBox IsBoundingBoxOf_def)
qed

section \<open>The shape of a creation\<close>

lemmas create_defs = Create_def CreateMeshSection_def CreateMeshSection_Box_def
  CreateMeshSectionDualBuffer_def CreateMeshSectionDualBuffer_Box_def

lemmas validate_defs = RMC_VALIDATE_CREATIONPARAMETERS_def
  RMC_VALIDATE_CREATIONPARAMETERS_DUALBUFFER_def RMC_VALIDATE_BOUNDINGBOX_def check_def

lemma Create_invalid:
  assumes "DoCheck env" and "InvalidCreateArguments c"
  shows "\<exists>msg. Create env c st = Inl (CheckFailed msg, st)"
proof (cases "CreateShape c")
  case (Single V T)
  with assms show ?thesis
    by (auto simp: Create_def CreateMeshSection_def validate_defs InvalidCreateArguments_def)
next
  case (SingleBox V T B)
  with assms show ?thesis
    by (auto simp: Create_def CreateMeshSection_Box_def validate_defs InvalidCreateArguments_def)
next
  case (Dual P V T)
  with assms show ?thesis
    by (auto simp: Create_def CreateMeshSectionDualBuffer_def validate_defs
        InvalidCreateArguments_def)
next
  case (DualBox P V T B)
  with assms show ?thesis
    by (auto simp: Create_def CreateMeshSectionDualBuffer_Box_def validate_defs
        InvalidCreateArguments_def)
qed

lemmas int32_defs = AddInt32_def MAX_int32_def MIN_int32_def

lemma CreateOrResetSection_Inr:
  "0 \<le> i \<Longrightarrow> i < int (length (MeshSections st)) \<or> i < MAX_int32 \<Longrightarrow>
   CreateOrResetSection env vt i dual internal st =
     Inr ((NewFRuntimeMeshSection env vt dual)\<lparr>bIsInternalSectionType := internal\<rparr>,
          st\<lparr>MeshSections := (RegistryFor (MeshSections st) i)
                 [nat i := Some ((NewFRuntimeMeshSection env vt dual)
                                   \<lparr>bIsInternalSectionType := internal\<rparr>)]\<rparr>)"
  by (auto simp: CreateOrResetSection_def Let_def RegistryFor_def SetNum_def StoreSection_def
      int32_defs)

lemma CreateOrResetSection_Inl:
  "i < 0 \<or> (int (length (MeshSections st)) \<le> i \<and> MAX_int32 \<le> i) \<Longrightarrow>
   CreateOrResetSection env vt i dual internal st = Inl Unspecified"
  by (auto simp: CreateOrResetSection_def Let_def RegistryFor_def SetNum_def StoreSection_def
      int32_defs)

lemma Create_Inr_iff:
  "Create env c st = Inr st' \<longleftrightarrow>
     InReach (MeshSections st) (CreateIndex c) \<and>
     \<not> (DoCheck env \<and> InvalidCreateArguments c) \<and>
     st' = CreateSectionInternal (CreateIndex c)
             (st\<lparr>MeshSections := (RegistryFor (MeshSections st) (CreateIndex c))
                    [nat (CreateIndex c) := Some (CreatedSection env c)]\<rparr>)"
proof (cases "InReach (MeshSections st) (CreateIndex c)")
  case False
  then have "CreateIndex c < 0 \<or>
      (int (length (MeshSections st)) \<le> CreateIndex c \<and> MAX_int32 \<le> CreateIndex c)"
    by (auto simp: InReach_def)
  from CreateOrResetSection_Inl [OF this] False show ?thesis
    by (cases "CreateShape c")
       (auto simp: create_defs validate_defs split: option.splits)
next
  case True
  then have i: "0 \<le> CreateIndex c"
    and r: "CreateIndex c < int (length (MeshSections st)) \<or> CreateIndex c < MAX_int32"
    by (auto simp: InReach_def)
  note cr = CreateOrResetSection_Inr [OF i r]
  show ?thesis
  proof (cases "CreateShape c")
    case (Single V T)
    with i True show ?thesis
      by (auto simp: Create_def CreateMeshSection_def cr validate_defs
          InvalidCreateArguments_def CreatedSection_def NewFRuntimeMeshSection_def
          UpdateVertexBuffer_def UpdateIndexBuffer_def IsDualBufferSection_def Let_def
          StoreSection_def PositionsOfCreate_def
          split: option.splits)
  next
    case (SingleBox V T B)
    with i True show ?thesis
      by (auto simp: Create_def CreateMeshSection_Box_def cr validate_defs
          InvalidCreateArguments_def CreatedSection_def NewFRuntimeMeshSection_def
          UpdateVertexBuffer_def UpdateIndexBuffer_def IsDualBufferSection_def Let_def
          StoreSection_def PositionsOfCreate_def
          split: option.splits)
  next
    case (Dual P V T)
    with i True show ?thesis
      by (auto simp: Create_def CreateMeshSectionDualBuffer_def cr
          validate_defs
          InvalidCreateArguments_def CreatedSection_def NewFRuntimeMeshSection_def
          UpdateVertexBuffer_def UpdateIndexBuffer_def IsDualBufferSection_def Let_def
          UpdateVertexPositionBuffer_def StoreSection_def PositionsOfCreate_def
          split: option.splits)
  next
    case (DualBox P V T B)
    with i True show ?thesis
      by (auto simp: Create_def CreateMeshSectionDualBuffer_Box_def cr
          validate_defs
          InvalidCreateArguments_def CreatedSection_def NewFRuntimeMeshSection_def
          UpdateVertexBuffer_def UpdateIndexBuffer_def IsDualBufferSection_def Let_def
          UpdateVertexPositionBuffer_def StoreSection_def PositionsOfCreate_def
          split: option.splits)
  qed
qed

lemma InReach_slot:
  "InReach xs i \<Longrightarrow>
   SectionSlot (st\<lparr>MeshSections := (RegistryFor xs i)[nat i := Some s]\<rparr>) i = Some s"
  by (auto simp: InReach_def SectionSlot_def RegistryFor_def SetNum_def)

section \<open>The concrete component is reached by two creations\<close>

lemmas example_defs = ExampleEnv_def EmptyComponent_def ExampleQuadCall_def ExampleDualCall_def
  ExampleQuadSection_def ExampleDualSection_def ExampleComponent_def

lemmas internal_defs = CreateSectionInternal_def UpdateSectionInternal_def SyncOrDefer_def
  SyncSection_def MarkCollisionDirtyIfEnabled_def MarkCollisionDirty_def SectionSlot_def

lemma ExampleComponent_created:
  "Create ExampleEnv ExampleQuadCall EmptyComponent =
     Inr (EmptyComponent
            \<lparr>MeshSections := [Some ExampleQuadSection],
             SyncTrace :=
               [\<lparr>SyncIndex = 0, SyncPositions = True, SyncVertices = True, SyncIndices = True,
                 SyncBounds = True, SyncSnapshot = Some ExampleQuadSection\<rparr>]\<rparr>)"
  "Create ExampleEnv ExampleDualCall
     (EmptyComponent
        \<lparr>MeshSections := [Some ExampleQuadSection],
         SyncTrace :=
           [\<lparr>SyncIndex = 0, SyncPositions = True, SyncVertices = True, SyncIndices = True,
             SyncBounds = True, SyncSnapshot = Some ExampleQuadSection\<rparr>]\<rparr>) =
   Inr ExampleComponent"
  by (simp_all add: Create_Inr_iff example_defs InvalidCreateArguments_def CreatedSection_def
      RegistryFor_def SetNum_def internal_defs ArgCollision_def ArgFrequency_def
      PositionsOfCreate_def ExpandBox_def InReach_def MAX_int32_def)

lemmas update_eval = Update_def UpdateMeshSection_V_def UpdateMeshSection_V_Box_def
  UpdateMeshSection_V_Tri_def UpdateMeshSection_V_Tri_Box_def UpdateMeshSection_Dual_def
  UpdateMeshSection_Dual_Box_def UpdateMeshSection_Dual_Tri_def UpdateMeshSection_Dual_Tri_Box_def
  RMC_VALIDATE_UPDATEPARAMETERS_def RMC_VALIDATE_UPDATEPARAMETERS_DUALBUFFER_def
  RMC_VALIDATE_BOUNDINGBOX_def check_def SectionAt_def EnsureEquals_def GetVertexType_def
  IsDualBufferSection_def StartUpdate_def UpdateVerticesIfSupplied_def
  UpdatePositionsIfSupplied_def UpdateVertexDataIfSupplied_def UpdateTrianglesIfSupplied_def
  UpdateVertexBuffer_def UpdateVertexPositionBuffer_def UpdateIndexBuffer_def
  UpdateSectionInternal_def SyncOrDefer_def SyncSection_def MarkCollisionDirtyIfEnabled_def
  MarkCollisionDirty_def SectionSlot_def StoreSection_def Log_def ArgFlags_def Let_def
  ExampleUpdate_def ExampleEnv_def EmptyComponent_def ExampleQuadSection_def
  ExampleDualSection_def ExampleComponent_def SectionAfter_def LogAfter_def
  BufferLengthsAfter_def IndexBufferAfter_def ExpandBox_def

section \<open>Accepted and rejected updates\<close>

lemma SkipWarnings_no_error: "Error \<notin> fst ` set (SkipWarnings sh)"
  by (auto simp: SkipWarnings_def)

lemma NewLogLines_append:
  "LogOutput st' = LogOutput st @ xs \<Longrightarrow> NewLogLines st st' = xs"
  by (simp add: NewLogLines_def)

lemma Update_accepted:
  assumes "Update env c st = Inr st'" and "\<not> RejectionLogged st st'"
  obtains s f where "SectionSlot st (UpdateIndex c) = Some s"
    and "RunBlocks env (UpdateShape c) (MoveRequested (UpdateFlags c)) (StartUpdate s st) = Inr f"
    and "st' = FinishUpdate (UpdateIndex c) f"
proof -
  from assms(1) obtain s where s: "SectionSlot st (UpdateIndex c) = Some s"
    and rej: "DualBufferGuard (UpdateShape c) s \<Longrightarrow> st' = Log GuardMessage True st"
    and acc: "\<not> DualBufferGuard (UpdateShape c) s \<Longrightarrow>
           \<exists>f. RunBlocks env (UpdateShape c) (MoveRequested (UpdateFlags c)) (StartUpdate s st) = Inr f
              \<and> st' = FinishUpdate (UpdateIndex c) f"
    by (rule Update_Inr_D) blast
  have "\<not> DualBufferGuard (UpdateShape c) s"
  proof
    assume "DualBufferGuard (UpdateShape c) s"
    with rej have "st' = Log GuardMessage True st" by simp
    then have "RejectionLogged st st'"
      by (simp add: RejectionLogged_def NewLogLines_def Log_def)
    with assms(2) show False by simp
  qed
  with acc s that show thesis by blast
qed

lemma FinishUpdate_slot:
  assumes "SectionSlot st i = Some s"
    and "RunBlocks env sh mv (StartUpdate s st) = Inr f"
  shows "SectionSlot (FinishUpdate i f) i =
           Some (if bUpdatedVertexPositions f \<or> bUpdatedVertices f \<or> bUpdatedIndices f
                 then Section f else s)"
proof -
  have comp: "MeshSections (Component f) = MeshSections st"
    using RunBlocks_Component [OF assms(2)] by simp
  show ?thesis
  proof (cases "bUpdatedVertexPositions f \<or> bUpdatedVertices f \<or> bUpdatedIndices f")
    case True
    then have "MeshSections (FinishUpdate i f) = (MeshSections st)[nat i := Some (Section f)]"
      by (simp add: FinishUpdate_MeshSections comp)
    from SectionSlot_stored [OF assms(1) this] True show ?thesis by simp
  next
    case False
    then have "MeshSections (FinishUpdate i f) = MeshSections st"
      by (simp add: FinishUpdate_MeshSections comp)
    then have "SectionSlot (FinishUpdate i f) i = SectionSlot st i"
      by (rule SectionSlot_cong)
    with assms(1) False show ?thesis by simp
  qed
qed

lemma RunBlocks_start_buffers:
  assumes "RunBlocks env sh mv (StartUpdate s st) = Inr f"
  shows "VertexBuffer (Section f) =
           (if SuppliedVertices sh = [] then VertexBuffer s else SuppliedVertices sh)"
    and "PositionVertexBuffer (Section f) =
           (case SuppliedPositions sh of
              Some P \<Rightarrow> if P = [] then PositionVertexBuffer s else P
            | None \<Rightarrow> PositionVertexBuffer s)"
    and "IndexBuffer (Section f) =
           (case SuppliedTriangles sh of
              Some T \<Rightarrow> if T = [] then IndexBuffer s else T
            | None \<Rightarrow> IndexBuffer s)"
  using RunBlocks_VertexBuffer [OF assms] RunBlocks_PositionVertexBuffer [OF assms]
    RunBlocks_IndexBuffer [OF assms]
  by (simp_all cong: if_cong option.case_cong)

lemma BuffersAfter_nothing:
  assumes "SuppliedVertices sh = []"
    and "\<And>P. SuppliedPositions sh = Some P \<Longrightarrow> P = []"
    and "\<And>T. SuppliedTriangles sh = Some T \<Longrightarrow> T = []"
  shows "BuffersAfter sh s s"
  using assms by (simp add: BuffersAfter_def split: option.splits)

lemma FinishUpdate_buffers:
  assumes "SectionSlot st i = Some s"
    and "RunBlocks env sh mv (StartUpdate s st) = Inr f"
  shows "\<exists>s'. SectionSlot (FinishUpdate i f) i = Some s' \<and> BuffersAfter sh s s'"
proof (cases "bUpdatedVertexPositions f \<or> bUpdatedVertices f \<or> bUpdatedIndices f")
  case True
  with FinishUpdate_slot [OF assms] have "SectionSlot (FinishUpdate i f) i = Some (Section f)"
    by simp
  moreover have "BuffersAfter sh s (Section f)"
    unfolding BuffersAfter_def using RunBlocks_start_buffers [OF assms(2)] by blast
  ultimately show ?thesis by blast
next
  case False
  with FinishUpdate_slot [OF assms] have slot: "SectionSlot (FinishUpdate i f) i = Some s"
    by simp
  from False RunBlocks_flags [OF assms(2)] have "BuffersAfter sh s s"
    by (intro BuffersAfter_nothing) auto
  with slot show ?thesis by blast
qed

lemma Update_rejected:
  assumes "Update env c st = Inr st'" and "RejectionLogged st st'"
  shows "st' = Log GuardMessage True st"
proof -
  from assms(1) obtain s where s: "SectionSlot st (UpdateIndex c) = Some s"
    and rej: "DualBufferGuard (UpdateShape c) s \<Longrightarrow> st' = Log GuardMessage True st"
    and acc: "\<not> DualBufferGuard (UpdateShape c) s \<Longrightarrow>
           \<exists>f. RunBlocks env (UpdateShape c) (MoveRequested (UpdateFlags c)) (StartUpdate s st) = Inr f
              \<and> st' = FinishUpdate (UpdateIndex c) f"
    by (rule Update_Inr_D) blast
  show ?thesis
  proof (cases "DualBufferGuard (UpdateShape c) s")
    case True
    with rej show ?thesis by simp
  next
    case False
    with acc obtain f where
      f: "RunBlocks env (UpdateShape c) (MoveRequested (UpdateFlags c)) (StartUpdate s st) = Inr f"
      and st': "st' = FinishUpdate (UpdateIndex c) f"
      by blast
    from RunBlocks_Component [OF f] st'
    have "LogOutput st' = LogOutput st @ SkipWarnings (UpdateShape c)" by simp
    then have "NewLogLines st st' = SkipWarnings (UpdateShape c)" by (rule NewLogLines_append)
    with assms(2) SkipWarnings_no_error [of "UpdateShape c"] show ?thesis
      by (simp add: RejectionLogged_def)
  qed
qed

lemma UpdatePrologue_mismatch:
  assumes "SectionSlot st (UpdateIndex c) = Some s"
    and "GetVertexType s \<noteq> UpdateVertexType c"
  shows "\<exists>e. UpdatePrologue env c st = Inl e"
    and "(case SuppliedBox (UpdateShape c) of Some B \<Rightarrow> IsValid B | None \<Rightarrow> True) \<Longrightarrow>
         (SuppliedPositions (UpdateShape c) \<noteq> None \<longrightarrow> IsDualBufferSection s) \<Longrightarrow>
         UpdatePrologue env c st = Inl (LayoutMismatch (GetVertexType s) (UpdateVertexType c))"
proof -
  from assms(1) have r: "0 \<le> UpdateIndex c" "UpdateIndex c < int (length (MeshSections st))"
    by (auto simp: SectionSlot_def split: if_splits)
  from assms show "\<exists>e. UpdatePrologue env c st = Inl e"
    by (auto simp: UpdatePrologue_def SectionAt_def EnsureEquals_def split: option.splits)
  assume "case SuppliedBox (UpdateShape c) of Some B \<Rightarrow> IsValid B | None \<Rightarrow> True"
    and "SuppliedPositions (UpdateShape c) \<noteq> None \<longrightarrow> IsDualBufferSection s"
  with assms r
  show "UpdatePrologue env c st = Inl (LayoutMismatch (GetVertexType s) (UpdateVertexType c))"
    by (auto simp: UpdatePrologue_def SectionAt_def EnsureEquals_def
        RMC_VALIDATE_UPDATEPARAMETERS_def RMC_VALIDATE_UPDATEPARAMETERS_DUALBUFFER_def
        RMC_VALIDATE_BOUNDINGBOX_def check_def split: option.splits)
qed

section \<open>Section mutations do not look at the batch\<close>

lemma Rebatch_same [simp]: "Rebatch (BatchState st) (SyncTrace st) st = st"
  by (simp add: Rebatch_def)

lemma Rebatch_fields [simp]:
  "MeshSections (Rebatch bs tr st) = MeshSections st"
  "BatchState (Rebatch bs tr st) = bs"
  "SyncTrace (Rebatch bs tr st) = tr"
  "LogOutput (Rebatch bs tr st) = LogOutput st"
  by (simp_all add: Rebatch_def)

lemma SectionSlot_Rebatch [simp]: "SectionSlot (Rebatch bs tr st) i = SectionSlot st i"
  by (simp add: SectionSlot_def)

lemma Rebatch_Log: "Log t b (Rebatch bs tr st) = Rebatch bs tr (Log t b st)"
  by (cases b) (simp_all add: Log_def Rebatch_def)

lemma Rebatch_StoreSection:
  "StoreSection i s (Rebatch bs tr st) = Rebatch bs tr (StoreSection i s st)"
  by (simp add: StoreSection_def Rebatch_def)

lemma Rebatch_MarkCollisionDirty:
  "MarkCollisionDirty (Rebatch bs tr st) = Rebatch bs tr (MarkCollisionDirty st)"
  by (simp add: MarkCollisionDirty_def Rebatch_def)

lemma Rebatch_MarkCollisionDirtyIfEnabled:
  "MarkCollisionDirtyIfEnabled i (Rebatch bs tr st) =
     Rebatch bs tr (MarkCollisionDirtyIfEnabled i st)"
  by (simp add: MarkCollisionDirtyIfEnabled_def Rebatch_MarkCollisionDirty split: option.splits)

lemma Rebatch_MeshSections_update:
  "(Rebatch bs tr st)\<lparr>MeshSections := xs\<rparr> = Rebatch bs tr (st\<lparr>MeshSections := xs\<rparr>)"
  by (simp add: Rebatch_def)

lemma Create_factor:
  assumes "Create env c st = Inr st'"
  shows "\<exists>pre fin.
           (\<forall>bs tr. Create env c (Rebatch bs tr st) = Inr (Finish fin (Rebatch bs tr pre))) \<and>
           map_option fst fin = TouchedIndex (CallCreate c) st"
proof -
  let ?i = "CreateIndex c"
  let ?X = "st\<lparr>MeshSections := (RegistryFor (MeshSections st) ?i)
                    [nat ?i := Some (CreatedSection env c)]\<rparr>"
  from assms have ok: "InReach (MeshSections st) ?i" "\<not> (DoCheck env \<and> InvalidCreateArguments c)"
    by (simp_all add: Create_Inr_iff)
  have "Create env c (Rebatch bs tr st) =
          Inr (Finish (Some (?i, True, True, True, True))
                 (Rebatch bs tr (MarkCollisionDirtyIfEnabled ?i ?X)))" for bs tr
    using ok
    by (simp add: Create_Inr_iff Finish_def CreateSectionInternal_def
        Rebatch_MeshSections_update Rebatch_MarkCollisionDirtyIfEnabled)
  moreover have "map_option fst (Some (?i, True, True, True, True)) =
                   TouchedIndex (CallCreate c) st"
    by (simp add: TouchedIndex_def)
  ultimately show ?thesis by blast
qed

lemma SectionAt_Rebatch [simp]: "SectionAt (Rebatch bs tr st) i = SectionAt st i"
  by (simp add: SectionAt_def)

lemma validate_Rebatch [simp]:
  "RMC_VALIDATE_UPDATEPARAMETERS env (Rebatch bs tr st) i =
     RMC_VALIDATE_UPDATEPARAMETERS env st i"
  "RMC_VALIDATE_UPDATEPARAMETERS_DUALBUFFER env (Rebatch bs tr st) i =
     RMC_VALIDATE_UPDATEPARAMETERS_DUALBUFFER env st i"
  by (simp_all add: RMC_VALIDATE_UPDATEPARAMETERS_def
      RMC_VALIDATE_UPDATEPARAMETERS_DUALBUFFER_def)

lemma UpdatePrologue_Rebatch [simp]:
  "UpdatePrologue env c (Rebatch bs tr st) = UpdatePrologue env c st"
  by (simp add: UpdatePrologue_def cong: option.case_cong)

lemma blocks_Rebatch:
  "UpdateVerticesIfSupplied env V B mv (f\<lparr>Component := Rebatch bs tr (Component f)\<rparr>) =
     (let g = UpdateVerticesIfSupplied env V B mv f
      in g\<lparr>Component := Rebatch bs tr (Component g)\<rparr>)"
  "UpdateVertexDataIfSupplied env V mv (f\<lparr>Component := Rebatch bs tr (Component f)\<rparr>) =
     (let g = UpdateVertexDataIfSupplied env V mv f
      in g\<lparr>Component := Rebatch bs tr (Component g)\<rparr>)"
  "UpdateTrianglesIfSupplied T mv (f\<lparr>Component := Rebatch bs tr (Component f)\<rparr>) =
     (let g = UpdateTrianglesIfSupplied T mv f
      in g\<lparr>Component := Rebatch bs tr (Component g)\<rparr>)"
  by (simp_all add: UpdateVerticesIfSupplied_def UpdateVertexDataIfSupplied_def
      UpdateTrianglesIfSupplied_def Rebatch_Log Let_def split: prod.splits)

lemma positions_Rebatch:
  "UpdatePositionsIfSupplied env P B mv (f\<lparr>Component := Rebatch bs tr (Component f)\<rparr>) =
     (case UpdatePositionsIfSupplied env P B mv f of
        Inl e \<Rightarrow> Inl e
      | Inr g \<Rightarrow> Inr (g\<lparr>Component := Rebatch bs tr (Component g)\<rparr>))"
  by (simp add: UpdatePositionsIfSupplied_def Rebatch_Log split: sum.splits prod.splits)

lemma TrianglesBlock_Rebatch:
  "TrianglesBlock sh mv (f\<lparr>Component := Rebatch bs tr (Component f)\<rparr>) =
     (let g = TrianglesBlock sh mv f in g\<lparr>Component := Rebatch bs tr (Component g)\<rparr>)"
  by (simp add: TrianglesBlock_def blocks_Rebatch Let_def split: option.splits)

lemma RunBlocks_Rebatch:
  "RunBlocks env sh mv (f\<lparr>Component := Rebatch bs tr (Component f)\<rparr>) =
     (case RunBlocks env sh mv f of
        Inl e \<Rightarrow> Inl e
      | Inr g \<Rightarrow> Inr (g\<lparr>Component := Rebatch bs tr (Component g)\<rparr>))"
proof (cases "SuppliedPositions sh")
  case None
  then show ?thesis
    by (simp only: RunBlocks_def blocks_Rebatch TrianglesBlock_Rebatch Let_def option.case
        sum.case)
next
  case (Some P)
  show ?thesis
  proof (cases "UpdatePositionsIfSupplied env P (SuppliedBox sh) mv f")
    case (Inl e)
    with Some show ?thesis
      by (simp only: RunBlocks_def positions_Rebatch option.case sum.case)
  next
    case (Inr g)
    with Some show ?thesis
      by (simp only: RunBlocks_def positions_Rebatch blocks_Rebatch TrianglesBlock_Rebatch
          Let_def option.case sum.case)
  qed
qed

lemma Finish_None [simp]: "Finish None st = st"
  by (simp add: Finish_def)

lemma FinishUpdate_factor:
  "\<exists>pre fin.
     (\<forall>bs tr. FinishUpdate i (f\<lparr>Component := Rebatch bs tr (Component f)\<rparr>) =
                Finish fin (Rebatch bs tr pre)) \<and>
     map_option fst fin =
       (if bUpdatedVertexPositions f \<or> bUpdatedVertices f \<or> bUpdatedIndices f
        then Some i else None)"
proof (cases "bUpdatedVertexPositions f \<or> bUpdatedVertices f \<or> bUpdatedIndices f")
  case False
  then have "FinishUpdate i (f\<lparr>Component := Rebatch bs tr (Component f)\<rparr>) =
               Finish None (Rebatch bs tr (Component f))" for bs tr
    by (simp add: FinishUpdate_def)
  moreover from False have "map_option fst (None :: (int \<times> bool \<times> bool \<times> bool \<times> bool) option) =
      (if bUpdatedVertexPositions f \<or> bUpdatedVertices f \<or> bUpdatedIndices f
       then Some i else None)"
    by simp
  ultimately show ?thesis by blast
next
  case True
  then have "FinishUpdate i (f\<lparr>Component := Rebatch bs tr (Component f)\<rparr>) =
               Finish (Some (i, bUpdatedVertexPositions f, bUpdatedVertices f, bUpdatedIndices f,
                             bNeedsBoundsUpdate f))
                 (Rebatch bs tr
                    (MarkCollisionDirtyIfEnabled i (StoreSection i (Section f) (Component f))))"
    for bs tr
    by (simp add: FinishUpdate_def Finish_def UpdateSectionInternal_def Rebatch_StoreSection
        Rebatch_MarkCollisionDirtyIfEnabled)
  moreover from True have
    "map_option fst (Some (i, bUpdatedVertexPositions f, bUpdatedVertices f, bUpdatedIndices f,
                           bNeedsBoundsUpdate f)) =
      (if bUpdatedVertexPositions f \<or> bUpdatedVertices f \<or> bUpdatedIndices f
       then Some i else None)"
    by simp
  ultimately show ?thesis by blast
qed

lemma RunBlocks_SuppliesPart:
  assumes "RunBlocks env sh mv (StartUpdate s st) = Inr f"
  shows "(bUpdatedVertexPositions f \<or> bUpdatedVertices f \<or> bUpdatedIndices f) = SuppliesPart sh"
  using RunBlocks_flags [OF assms]
  by (auto simp: SuppliesPart_def split: option.splits)

lemma Update_factor:
  assumes "Update env c st = Inr st'"
  shows "\<exists>pre fin.
           (\<forall>bs tr. Update env c (Rebatch bs tr st) = Inr (Finish fin (Rebatch bs tr pre))) \<and>
           map_option fst fin = TouchedIndex (CallUpdate c) st"
proof -
  from assms have g: "UpdateGeneric env c st = Inr st'" by (simp add: Update_eq_generic)
  then obtain s where s: "UpdatePrologue env c st = Inr s"
    by (auto simp: UpdateGeneric_def split: sum.splits)
  from UpdatePrologue_Inr [OF s] have slot: "SectionSlot st (UpdateIndex c) = Some s"
    by simp
  show ?thesis
  proof (cases "DualBufferGuard (UpdateShape c) s")
    case True
    with s have "Update env c (Rebatch bs tr st) =
                   Inr (Finish None (Rebatch bs tr (Log GuardMessage True st)))" for bs tr
      by (simp add: Update_eq_generic UpdateGeneric_def Rebatch_Log)
    moreover from True slot
    have "map_option fst (None :: (int \<times> bool \<times> bool \<times> bool \<times> bool) option) =
            TouchedIndex (CallUpdate c) st"
      by (simp add: TouchedIndex_def)
    ultimately show ?thesis by blast
  next
    case False
    with g s obtain f where
      f: "RunBlocks env (UpdateShape c) (MoveRequested (UpdateFlags c)) (StartUpdate s st) = Inr f"
      by (auto simp: UpdateGeneric_def split: sum.splits)
    from FinishUpdate_factor [of "UpdateIndex c" f] obtain pre fin where
      fin: "\<And>bs tr. FinishUpdate (UpdateIndex c) (f\<lparr>Component := Rebatch bs tr (Component f)\<rparr>) =
              Finish fin (Rebatch bs tr pre)"
      and idx: "map_option fst fin =
        (if bUpdatedVertexPositions f \<or> bUpdatedVertices f \<or> bUpdatedIndices f
         then Some (UpdateIndex c) else None)"
      by blast
    have "Update env c (Rebatch bs tr st) = Inr (Finish fin (Rebatch bs tr pre))" for bs tr
    proof -
      have "StartUpdate s (Rebatch bs tr st) =
              (StartUpdate s st)\<lparr>Component := Rebatch bs tr (Component (StartUpdate s st))\<rparr>"
        by (simp add: StartUpdate_def)
      then have "RunBlocks env (UpdateShape c) (MoveRequested (UpdateFlags c))
                   (StartUpdate s (Rebatch bs tr st)) =
                 Inr (f\<lparr>Component := Rebatch bs tr (Component f)\<rparr>)"
        by (simp only: RunBlocks_Rebatch f sum.case)
      with s False fin [of bs tr] show ?thesis
        by (simp add: Update_eq_generic UpdateGeneric_def)
    qed
    moreover from idx RunBlocks_SuppliesPart [OF f] False slot
    have "map_option fst fin = TouchedIndex (CallUpdate c) st"
      by (simp add: TouchedIndex_def)
    ultimately show ?thesis by blast
  qed
qed

lemma setter_factor:
  "SetMeshSectionVisible i b st = Inr st' \<Longrightarrow>
     \<exists>pre fin. (\<forall>bs tr. SetMeshSectionVisible i b (Rebatch bs tr st) =
        Inr (Finish fin (Rebatch bs tr pre))) \<and>
        map_option fst fin = TouchedIndex (CallSetVisible i b) st"
  "SetMeshSectionCastsShadow i b st = Inr st' \<Longrightarrow>
     \<exists>pre fin. (\<forall>bs tr. SetMeshSectionCastsShadow i b (Rebatch bs tr st) =
        Inr (Finish fin (Rebatch bs tr pre))) \<and>
        map_option fst fin = TouchedIndex (CallSetCastsShadow i b) st"
  "SetMeshSectionCollisionEnabled i b st = Inr st' \<Longrightarrow>
     \<exists>pre fin. (\<forall>bs tr. SetMeshSectionCollisionEnabled i b (Rebatch bs tr st) =
        Inr (Finish fin (Rebatch bs tr pre))) \<and>
        map_option fst fin = TouchedIndex (CallSetCollisionEnabled i b) st"
proof -
  assume a: "SetMeshSectionVisible i b st = Inr st'"
  then obtain s where s: "SectionSlot st i = Some s"
    by (auto simp: SetMeshSectionVisible_def split: option.splits)
  show "\<exists>pre fin. (\<forall>bs tr. SetMeshSectionVisible i b (Rebatch bs tr st) =
        Inr (Finish fin (Rebatch bs tr pre))) \<and>
        map_option fst fin = TouchedIndex (CallSetVisible i b) st"
  proof (cases "bIsVisible s = b")
    case True
    with s have "SetMeshSectionVisible i b (Rebatch bs tr st) = Inr (Finish None (Rebatch bs tr st))"
      for bs tr
      by (simp add: SetMeshSectionVisible_def)
    moreover from True s
    have "map_option fst (None :: (int \<times> bool \<times> bool \<times> bool \<times> bool) option) =
            TouchedIndex (CallSetVisible i b) st"
      by (simp add: TouchedIndex_def)
    ultimately show ?thesis by blast
  next
    case False
    with s have "SetMeshSectionVisible i b (Rebatch bs tr st) =
        Inr (Finish (Some (i, False, False, False, False))
               (Rebatch bs tr (StoreSection i (s\<lparr>bIsVisible := b\<rparr>) st)))"
      for bs tr
      by (simp add: SetMeshSectionVisible_def Finish_def UpdateSectionPropertiesInternal_def
          Rebatch_StoreSection)
    moreover from False s
    have "map_option fst (Some (i, False, False, False, False)) =
            TouchedIndex (CallSetVisible i b) st"
      by (simp add: TouchedIndex_def)
    ultimately show ?thesis by blast
  qed
next
  assume a: "SetMeshSectionCastsShadow i b st = Inr st'"
  then obtain s where s: "SectionSlot st i = Some s"
    by (auto simp: SetMeshSectionCastsShadow_def split: option.splits)
  show "\<exists>pre fin. (\<forall>bs tr. SetMeshSectionCastsShadow i b (Rebatch bs tr st) =
        Inr (Finish fin (Rebatch bs tr pre))) \<and>
        map_option fst fin = TouchedIndex (CallSetCastsShadow i b) st"
  proof (cases "bCastsShadow s = b")
    case True
    with s have "SetMeshSectionCastsShadow i b (Rebatch bs tr st) =
        Inr (Finish None (Rebatch bs tr st))"
      for bs tr
      by (simp add: SetMeshSectionCastsShadow_def)
    moreover from True s
    have "map_option fst (None :: (int \<times> bool \<times> bool \<times> bool \<times> bool) option) =
            TouchedIndex (CallSetCastsShadow i b) st"
      by (simp add: TouchedIndex_def)
    ultimately show ?thesis by blast
  next
    case False
    with s have "SetMeshSectionCastsShadow i b (Rebatch bs tr st) =
        Inr (Finish (Some (i, False, False, False, False))
               (Rebatch bs tr (StoreSection i (s\<lparr>bCastsShadow := b\<rparr>) st)))"
      for bs tr
      by (simp add: SetMeshSectionCastsShadow_def Finish_def UpdateSectionPropertiesInternal_def
          Rebatch_StoreSection)
    moreover from False s
    have "map_option fst (Some (i, False, False, False, False)) =
            TouchedIndex (CallSetCastsShadow i b) st"
      by (simp add: TouchedIndex_def)
    ultimately show ?thesis by blast
  qed
next
  assume a: "SetMeshSectionCollisionEnabled i b st = Inr st'"
  then obtain s where s: "SectionSlot st i = Some s"
    by (auto simp: SetMeshSectionCollisionEnabled_def split: option.splits)
  show "\<exists>pre fin. (\<forall>bs tr. SetMeshSectionCollisionEnabled i b (Rebatch bs tr st) =
        Inr (Finish fin (Rebatch bs tr pre))) \<and>
        map_option fst fin = TouchedIndex (CallSetCollisionEnabled i b) st"
  proof (cases "CollisionEnabled s = b")
    case True
    with s have "SetMeshSectionCollisionEnabled i b (Rebatch bs tr st) =
        Inr (Finish None (Rebatch bs tr st))"
      for bs tr
      by (simp add: SetMeshSectionCollisionEnabled_def)
    moreover from True s
    have "map_option fst (None :: (int \<times> bool \<times> bool \<times> bool \<times> bool) option) =
            TouchedIndex (CallSetCollisionEnabled i b) st"
      by (simp add: TouchedIndex_def)
    ultimately show ?thesis by blast
  next
    case False
    with s have "SetMeshSectionCollisionEnabled i b (Rebatch bs tr st) =
        Inr (Finish (Some (i, False, False, False, False))
               (Rebatch bs tr
                  (MarkCollisionDirty (StoreSection i (s\<lparr>CollisionEnabled := b\<rparr>) st))))"
      for bs tr
      by (simp add: SetMeshSectionCollisionEnabled_def Finish_def
          UpdateSectionPropertiesInternal_def Rebatch_StoreSection Rebatch_MarkCollisionDirty)
    moreover from False s
    have "map_option fst (Some (i, False, False, False, False)) =
            TouchedIndex (CallSetCollisionEnabled i b) st"
      by (simp add: TouchedIndex_def)
    ultimately show ?thesis by blast
  qed
qed

lemma Apply_factor:
  assumes "IsSectionMutation c" and "Apply env c st = Inr st'"
  shows "\<exists>pre fin.
           (\<forall>bs tr. Apply env c (Rebatch bs tr st) = Inr (Finish fin (Rebatch bs tr pre))) \<and>
           map_option fst fin = TouchedIndex c st"
  using assms
  by (cases c) (simp_all add: Create_factor Update_factor setter_factor)

section \<open>Runs inside a batch\<close>

lemma Finish_pending:
  assumes "bIsBatchPending bs"
  shows "SyncTrace (Finish fin (Rebatch bs tr pre)) = tr"
    and "BatchState (Finish fin (Rebatch bs tr pre)) =
           (case fin of None \<Rightarrow> bs | Some (i, a, b, c, d) \<Rightarrow> MarkSectionTouched i bs)"
  using assms by (auto simp: Finish_def SyncOrDefer_def split: option.splits)

lemma MarkSectionTouched_facts:
  "bIsBatchPending (MarkSectionTouched i bs) = bIsBatchPending bs"
  "set (TouchedSections (MarkSectionTouched i bs)) = insert i (set (TouchedSections bs))"
  "distinct (TouchedSections bs) \<Longrightarrow> distinct (TouchedSections (MarkSectionTouched i bs))"
  by (auto simp: MarkSectionTouched_def)

lemma Apply_in_batch:
  assumes "IsSectionMutation c" and "Apply env c st = Inr st'"
    and "bIsBatchPending (BatchState st)" and "distinct (TouchedSections (BatchState st))"
  shows "SyncTrace st' = SyncTrace st"
    and "bIsBatchPending (BatchState st')"
    and "distinct (TouchedSections (BatchState st'))"
    and "set (TouchedSections (BatchState st')) =
           set (TouchedSections (BatchState st)) \<union> set_option (TouchedIndex c st)"
proof -
  from Apply_factor [OF assms(1,2)] obtain pre fin where
    fac: "\<And>bs tr. Apply env c (Rebatch bs tr st) = Inr (Finish fin (Rebatch bs tr pre))"
    and t: "map_option fst fin = TouchedIndex c st"
    by blast
  from fac [of "BatchState st" "SyncTrace st"] assms(2)
  have st': "st' = Finish fin (Rebatch (BatchState st) (SyncTrace st) pre)" by simp
  show "SyncTrace st' = SyncTrace st"
    unfolding st' using assms(3) by (rule Finish_pending(1))
  have b: "BatchState st' =
             (case fin of None \<Rightarrow> BatchState st
              | Some (i, a, b, c, d) \<Rightarrow> MarkSectionTouched i (BatchState st))"
    unfolding st' using assms(3) by (rule Finish_pending(2))
  from b assms(3) show "bIsBatchPending (BatchState st')"
    by (auto simp: MarkSectionTouched_facts split: option.splits)
  from b assms(4) show "distinct (TouchedSections (BatchState st'))"
    by (auto simp: MarkSectionTouched_facts split: option.splits)
  from b show "set (TouchedSections (BatchState st')) =
           set (TouchedSections (BatchState st)) \<union> set_option (TouchedIndex c st)"
    unfolding t [symmetric]
    by (auto simp: MarkSectionTouched_facts split: option.splits)
qed

lemma Run_in_batch:
  assumes "\<forall>c \<in> set cs. IsSectionMutation c" and "Run env cs st = Inr st'"
    and "bIsBatchPending (BatchState st)" and "distinct (TouchedSections (BatchState st))"
  shows "SyncTrace st' = SyncTrace st \<and>
         bIsBatchPending (BatchState st') \<and>
         distinct (TouchedSections (BatchState st')) \<and>
         set (TouchedSections (BatchState st')) =
           set (TouchedSections (BatchState st)) \<union> TouchedBy env cs st"
  using assms
proof (induction cs arbitrary: st)
  case Nil
  then show ?case by simp
next
  case (Cons c cs)
  from Cons.prems(2) obtain st1 where a: "Apply env c st = Inr st1"
    and r: "Run env cs st1 = Inr st'"
    by (auto split: sum.splits)
  from Cons.prems(1) have m: "IsSectionMutation c" and ms: "\<forall>c \<in> set cs. IsSectionMutation c"
    by simp_all
  note step = Apply_in_batch [OF m a Cons.prems(3,4)]
  from Cons.IH [OF ms r step(2,3)] step(1,4) a show ?case
    by auto
qed

lemma foldl_SyncSection:
  "SyncTrace (foldl (\<lambda>acc i. SyncSection i True True True True acc) st xs) =
     SyncTrace st @ map (FullSyncOf st) xs \<and>
   MeshSections (foldl (\<lambda>acc i. SyncSection i True True True True acc) st xs) = MeshSections st"
proof (induction xs arbitrary: st)
  case Nil
  then show ?case by simp
next
  case (Cons x xs)
  have m: "MeshSections (SyncSection x True True True True st) = MeshSections st"
    by (simp add: SyncSection_def)
  then have f: "FullSyncOf (SyncSection x True True True True st) = FullSyncOf st"
    by (simp add: FullSyncOf_def SectionSlot_def fun_eq_iff)
  have t: "SyncTrace (SyncSection x True True True True st) = SyncTrace st @ [FullSyncOf st x]"
    by (simp add: SyncSection_def FullSyncOf_def)
  from Cons.IH [of "SyncSection x True True True True st"] m f t show ?case
    by simp
qed

lemma EndBatchUpdates_trace:
  assumes "bIsBatchPending (BatchState st)"
  shows "SyncTrace (EndBatchUpdates st) =
           SyncTrace st @ map (FullSyncOf st) (TouchedSections (BatchState st))"
  using assms foldl_SyncSection [of st "TouchedSections (BatchState st)"]
  by (simp add: EndBatchUpdates_def)

section \<open>Runs that affect the collision\<close>

lemma CollisionMarked_MarkCollisionDirty:
  "RequestsMatchPending st \<Longrightarrow> CollisionMarked (MarkCollisionDirty st)"
  by (simp add: CollisionMarked_def MarkCollisionDirty_def RequestsMatchPending_def)

lemma collision_fields_SyncOrDefer [simp]:
  "bCollisionDirty (SyncOrDefer i a b c d st) = bCollisionDirty st"
  "bTickPending (SyncOrDefer i a b c d st) = bTickPending st"
  "BakeRequests (SyncOrDefer i a b c d st) = BakeRequests st"
  by (simp_all add: SyncOrDefer_def SyncSection_def)

lemma CollisionMarked_SyncOrDefer [simp]:
  "CollisionMarked (SyncOrDefer i a b c d st) = CollisionMarked st"
  by (simp add: CollisionMarked_def)

lemma Create_marks_collision:
  assumes "RequestsMatchPending st" and "Create env c st = Inr st'" and "ArgCollision c"
  shows "CollisionMarked st'"
proof -
  let ?i = "CreateIndex c"
  let ?X = "st\<lparr>MeshSections := (RegistryFor (MeshSections st) ?i)
                    [nat ?i := Some (CreatedSection env c)]\<rparr>"
  from assms(2) have i: "InReach (MeshSections st) ?i" and st': "st' = CreateSectionInternal ?i ?X"
    by (simp_all add: Create_Inr_iff)
  have slot: "SectionSlot ?X ?i = Some (CreatedSection env c)"
    using i by (rule InReach_slot)
  have en: "CollisionEnabled (CreatedSection env c)"
    using assms(3) by (simp add: CreatedSection_def)
  have "RequestsMatchPending ?X"
    using assms(1) by (simp add: RequestsMatchPending_def)
  then have "CollisionMarked (MarkCollisionDirty ?X)"
    by (rule CollisionMarked_MarkCollisionDirty)
  with slot en show ?thesis
    unfolding st' CreateSectionInternal_def MarkCollisionDirtyIfEnabled_def by simp
qed

lemma Apply_marks_collision:
  assumes "RequestsMatchPending st" and "Apply env c st = Inr st'" and "AffectsCollision c st"
  shows "CollisionMarked st'"
proof (cases c)
  case (CallCreate cc)
  with assms show ?thesis by (simp add: Create_marks_collision)
next
  case (CallUpdate uc)
  with assms show ?thesis by simp
next
  case (CallSetVisible i b)
  with assms show ?thesis by simp
next
  case (CallSetCastsShadow i b)
  with assms show ?thesis by simp
next
  case (CallSetCollisionEnabled i b)
  with assms show ?thesis
    by (auto simp: SetMeshSectionCollisionEnabled_def UpdateSectionPropertiesInternal_def
        StoreSection_def RequestsMatchPending_def
        intro!: CollisionMarked_MarkCollisionDirty split: option.splits if_splits)
next
  case (CallClearSection i)
  with assms show ?thesis
    by (auto simp: ClearMeshSection_def Let_def RequestsMatchPending_def
        intro!: CollisionMarked_MarkCollisionDirty split: option.splits if_splits)
next
  case (CallSetCollisionSection i V T)
  with assms show ?thesis
    by (auto simp: SetMeshCollisionSection_def Let_def RequestsMatchPending_def
        intro!: CollisionMarked_MarkCollisionDirty split: if_splits)
next
  case (CallClearCollisionSection i)
  with assms show ?thesis
    by (auto simp: ClearMeshCollisionSection_def RequestsMatchPending_def
        intro!: CollisionMarked_MarkCollisionDirty split: if_splits)
next
  case CallClearAllCollisionSections
  with assms show ?thesis
    by (auto simp: ClearAllMeshCollisionSections_def RequestsMatchPending_def
        intro!: CollisionMarked_MarkCollisionDirty)
next
  case (CallAddConvex V)
  with assms show ?thesis
    by (auto simp: AddCollisionConvexMesh_def RequestsMatchPending_def
        intro!: CollisionMarked_MarkCollisionDirty)
next
  case CallClearConvex
  with assms show ?thesis
    by (auto simp: ClearCollisionConvexMeshes_def RequestsMatchPending_def
        intro!: CollisionMarked_MarkCollisionDirty)
next
  case (CallSetConvex M)
  with assms show ?thesis
    by (auto simp: SetCollisionConvexMeshes_def RequestsMatchPending_def
        intro!: CollisionMarked_MarkCollisionDirty)
qed

lemma CollisionMarked_matches: "CollisionMarked st \<Longrightarrow> RequestsMatchPending st"
  by (simp add: CollisionMarked_def RequestsMatchPending_def)

lemma Run_marks_collision:
  assumes "RequestsMatchPending st" and "AllAffectCollision env cs st"
    and "Run env cs st = Inr st'" and "cs \<noteq> []"
  shows "CollisionMarked st'"
  using assms
proof (induction cs arbitrary: st)
  case Nil
  then show ?case by simp
next
  case (Cons c cs)
  from Cons.prems(3) obtain st1 where a: "Apply env c st = Inr st1"
    and r: "Run env cs st1 = Inr st'"
    by (auto split: sum.splits)
  from Cons.prems(2) a have ac: "AffectsCollision c st" and rest: "AllAffectCollision env cs st1"
    by simp_all
  from Cons.prems(1) a ac have m: "CollisionMarked st1" by (rule Apply_marks_collision)
  show ?case
  proof (cases "cs = []")
    case True
    with r m show ?thesis by simp
  next
    case False
    from CollisionMarked_matches [OF m] rest r False show ?thesis by (rule Cons.IH)
  qed
qed

lemmas api_eval = SetMeshSectionVisible_def SetMeshSectionCastsShadow_def
  SetMeshSectionCollisionEnabled_def ClearMeshSection_def SetMeshCollisionSection_def
  ClearMeshCollisionSection_def ClearAllMeshCollisionSections_def AddCollisionConvexMesh_def
  ClearCollisionConvexMeshes_def SetCollisionConvexMeshes_def
  UpdateSectionPropertiesInternal_def BeginBatchUpdates_def StartBatch_def
  MarkSectionTouched_def TouchedIndex_def SuppliesPart_def DualBufferGuard_def

lemmas create_eval = Create_def CreateMeshSection_def CreateMeshSection_Box_def
  CreateMeshSectionDualBuffer_def CreateMeshSectionDualBuffer_Box_def
  RMC_VALIDATE_CREATIONPARAMETERS_def RMC_VALIDATE_CREATIONPARAMETERS_DUALBUFFER_def
  CreateOrResetSection_def AddInt32_def MAX_int32_def MIN_int32_def SetNum_def
  NewFRuntimeMeshSection_def CreateSectionInternal_def ExampleDualCall_def ArgCollision_def
  ArgFrequency_def

lemma RequestsMatchPending_MarkCollisionDirty:
  "RequestsMatchPending st \<Longrightarrow> RequestsMatchPending (MarkCollisionDirty st)"
  by (simp add: RequestsMatchPending_def MarkCollisionDirty_def)

lemma RequestsMatchPending_MarkCollisionDirtyIfEnabled:
  "RequestsMatchPending st \<Longrightarrow> RequestsMatchPending (MarkCollisionDirtyIfEnabled i st)"
  by (simp add: MarkCollisionDirtyIfEnabled_def RequestsMatchPending_MarkCollisionDirty
      split: option.splits)

lemma RequestsMatchPending_frame [simp]:
  "RequestsMatchPending (SyncOrDefer i a b c d st) = RequestsMatchPending st"
  "RequestsMatchPending (StoreSection i s st) = RequestsMatchPending st"
  "RequestsMatchPending (Log t e st) = RequestsMatchPending st"
  "RequestsMatchPending (st\<lparr>MeshSections := xs\<rparr>) = RequestsMatchPending st"
  "RequestsMatchPending (st\<lparr>LogOutput := ls\<rparr>) = RequestsMatchPending st"
  "RequestsMatchPending (st\<lparr>MeshCollisionSections := cs\<rparr>) = RequestsMatchPending st"
  "RequestsMatchPending (st\<lparr>ConvexCollisionSections := hs\<rparr>) = RequestsMatchPending st"
  by (simp_all add: RequestsMatchPending_def StoreSection_def Log_def)

lemma Create_keeps_requests:
  assumes "RequestsMatchPending st" and "Create env c st = Inr st'"
  shows "RequestsMatchPending st'"
  using assms
  by (simp add: Create_Inr_iff CreateSectionInternal_def
      RequestsMatchPending_MarkCollisionDirtyIfEnabled)

lemma Update_keeps_requests:
  assumes "RequestsMatchPending st" and "Update env c st = Inr st'"
  shows "RequestsMatchPending st'"
proof -
  from assms(2) obtain s where s: "SectionSlot st (UpdateIndex c) = Some s"
    and rej: "DualBufferGuard (UpdateShape c) s \<Longrightarrow> st' = Log GuardMessage True st"
    and acc: "\<not> DualBufferGuard (UpdateShape c) s \<Longrightarrow>
           \<exists>f. RunBlocks env (UpdateShape c) (MoveRequested (UpdateFlags c)) (StartUpdate s st) = Inr f
              \<and> st' = FinishUpdate (UpdateIndex c) f"
    by (rule Update_Inr_D) blast
  show ?thesis
  proof (cases "DualBufferGuard (UpdateShape c) s")
    case True
    with rej assms(1) show ?thesis by simp
  next
    case False
    with acc obtain f where
      f: "RunBlocks env (UpdateShape c) (MoveRequested (UpdateFlags c)) (StartUpdate s st) = Inr f"
      and st': "st' = FinishUpdate (UpdateIndex c) f"
      by blast
    from RunBlocks_Component [OF f] assms(1) have "RequestsMatchPending (Component f)"
      by simp
    then show ?thesis
      unfolding st' FinishUpdate_def UpdateSectionInternal_def
      by (simp add: RequestsMatchPending_MarkCollisionDirtyIfEnabled)
  qed
qed

lemma Apply_keeps_requests:
  assumes "RequestsMatchPending st" and "Apply env c st = Inr st'"
  shows "RequestsMatchPending st'"
proof (cases c)
  case (CallCreate cc)
  with assms show ?thesis by (simp add: Create_keeps_requests)
next
  case (CallUpdate uc)
  with assms show ?thesis by (simp add: Update_keeps_requests)
next
  case (CallSetVisible i b)
  with assms show ?thesis
    by (auto simp: SetMeshSectionVisible_def UpdateSectionPropertiesInternal_def
        split: option.splits if_splits)
next
  case (CallSetCastsShadow i b)
  with assms show ?thesis
    by (auto simp: SetMeshSectionCastsShadow_def UpdateSectionPropertiesInternal_def
        split: option.splits if_splits)
next
  case (CallSetCollisionEnabled i b)
  with assms show ?thesis
    by (auto simp: SetMeshSectionCollisionEnabled_def UpdateSectionPropertiesInternal_def
        RequestsMatchPending_MarkCollisionDirty split: option.splits if_splits)
next
  case (CallClearSection i)
  with assms show ?thesis
    by (auto simp: ClearMeshSection_def Let_def RequestsMatchPending_MarkCollisionDirty
        split: option.splits if_splits)
next
  case (CallSetCollisionSection i V T)
  with assms show ?thesis
    by (auto simp: SetMeshCollisionSection_def Let_def RequestsMatchPending_MarkCollisionDirty
        split: if_splits)
next
  case (CallClearCollisionSection i)
  with assms show ?thesis
    by (auto simp: ClearMeshCollisionSection_def RequestsMatchPending_MarkCollisionDirty
        split: if_splits)
next
  case CallClearAllCollisionSections
  with assms show ?thesis
    by (auto simp: ClearAllMeshCollisionSections_def RequestsMatchPending_MarkCollisionDirty)
next
  case (CallAddConvex V)
  with assms show ?thesis
    by (auto simp: AddCollisionConvexMesh_def RequestsMatchPending_MarkCollisionDirty)
next
  case CallClearConvex
  with assms show ?thesis
    by (auto simp: ClearCollisionConvexMeshes_def RequestsMatchPending_MarkCollisionDirty)
next
  case (CallSetConvex M)
  with assms show ?thesis
    by (auto simp: SetCollisionConvexMeshes_def RequestsMatchPending_MarkCollisionDirty)
qed

lemma Run_keeps_requests:
  "RequestsMatchPending st \<Longrightarrow> Run env cs st = Inr st' \<Longrightarrow> RequestsMatchPending st'"
proof (induction cs arbitrary: st)
  case Nil
  then show ?case by simp
next
  case (Cons c cs)
  from Cons.prems(2) obtain st1 where a: "Apply env c st = Inr st1"
    and r: "Run env cs st1 = Inr st'"
    by (auto split: sum.splits)
  from Apply_keeps_requests [OF Cons.prems(1) a] r show ?case by (rule Cons.IH)
qed

lemma RequestsMatchPending_EmptyComponent: "RequestsMatchPending EmptyComponent"
  by (simp add: RequestsMatchPending_def EmptyComponent_def)

section \<open>The claims\<close>

text \<open>
  C1 (the code departs from the claim). The claim: for every dual-buffer section, after any
  update call that is not rejected, the position buffer and the vertex buffer have the same
  length. The guard of the templates with a position array rejects a call only when the
  vertex data changes length \<^emph>\<open>and\<close> the positions differ in length from the vertex
  data. A call with vertex data of the stored length and a position array of another length
  is therefore accepted: on the dual-buffer section 1 of the concrete component, five
  positions with three vertex data leave a position buffer of length 5 beside a vertex
  buffer of length 3, and nothing is logged.
\<close>

theorem C1_dual_guard_accepts_unequal_lengths:
  "BufferLengthsAfter
     (Update ExampleEnv
        (ExampleUpdate ''FDataVertex'' 1
           (UpdDual [(0, 0, 0), (1, 0, 0), (0, 1, 0), (1, 1, 0), (2, 2, 0)]
              [DataVertex 4, DataVertex 5, DataVertex 6]))
        ExampleComponent) 1 = Some (5, 3) \<and>
   LogAfter
     (Update ExampleEnv
        (ExampleUpdate ''FDataVertex'' 1
           (UpdDual [(0, 0, 0), (1, 0, 0), (0, 1, 0), (1, 1, 0), (2, 2, 0)]
              [DataVertex 4, DataVertex 5, DataVertex 6]))
        ExampleComponent) = []"
  by (simp add: update_eval)

text \<open>
  C2, as claimed: a creation call with a negative index, no vertices, no triangles, a box
  that is not valid or positions of another length than the vertex data is rejected,
  reported to the logger, changes nothing and does not end the program. It fails on the
  code: the validation is made of the engine's \<^verbatim>\<open>check\<close>. With the checks compiled in,
  creation at index -1 stops at the failed check; with the checks compiled out, creation
  with an empty vertex array is not refused and leaves a section at the index.
\<close>

theorem C2_counterexample:
  "Create ExampleEnv (ExampleQuadCall\<lparr>CreateIndex := - 1\<rparr>) EmptyComponent =
     Inl (CheckFailed ''SectionIndex cannot be negative.'', EmptyComponent) \<and>
   SectionAfter
     (Create (ExampleEnv\<lparr>DoCheck := False\<rparr>)
        (ExampleQuadCall\<lparr>CreateShape := Single [] [0, 1, 2]\<rparr>) EmptyComponent) 0 \<noteq> None"
  by (simp add: example_defs create_defs validate_defs CreateOrResetSection_def SetNum_def
      StoreSection_def internal_defs SectionAfter_def Let_def NewFRuntimeMeshSection_def
      UpdateVertexBuffer_def UpdateIndexBuffer_def IsDualBufferSection_def int32_defs)

text \<open>
  C2, amended: with the engine's checks compiled in, every creation call with one of these
  arguments stops at a failed \<^verbatim>\<open>check\<close> before any mutation: the call does not return,
  and the component at the point where it stops is the component the call was made on,
  whole: no section has been created or replaced, no slot added, nothing logged, nothing
  synchronised, nothing marked. The program is stopped by the assertion.
\<close>

theorem C2_invalid_create_stops_at_check:
  assumes "DoCheck env" and "InvalidCreateArguments c"
  shows "\<exists>msg. Create env c st = Inl (CheckFailed msg, st)"
  using assms by (rule Create_invalid)

theorem C2_witness:
  "DoCheck ExampleEnv \<and>
   InvalidCreateArguments (ExampleQuadCall\<lparr>CreateShape := Single [] [0, 1, 2]\<rparr>) \<and>
   (\<exists>msg. Create ExampleEnv (ExampleQuadCall\<lparr>CreateShape := Single [] [0, 1, 2]\<rparr>)
            ExampleComponent = Inl (CheckFailed msg, ExampleComponent))"
proof -
  have d: "DoCheck ExampleEnv" by (simp add: ExampleEnv_def)
  have i: "InvalidCreateArguments (ExampleQuadCall\<lparr>CreateShape := Single [] [0, 1, 2]\<rparr>)"
    by (simp add: InvalidCreateArguments_def ExampleQuadCall_def)
  from d i C2_invalid_create_stops_at_check [OF d i, of ExampleComponent] show ?thesis by simp
qed

text \<open>
  C3, as claimed: in an update call an empty array never shrinks or clears the stored
  buffer; the empty part is logged and skipped, and every other supplied part that is not
  empty is still applied. The last part fails on a dual-buffer section: the guard of the
  templates without a position array compares the length of the vertex array with the
  stored one, so an empty vertex array is rejected together with the triangles supplied
  beside it. On section 1 of the concrete component the triangles \<open>[0, 2, 1]\<close> are not
  applied and the only line logged is the guard's error.
\<close>

theorem C3_counterexample:
  "IndexBufferAfter
     (Update ExampleEnv (ExampleUpdate ''FDataVertex'' 1 (UpdVTri [] [0, 2, 1])) ExampleComponent)
     1 = Some [0, 1, 2] \<and>
   LogAfter
     (Update ExampleEnv (ExampleUpdate ''FDataVertex'' 1 (UpdVTri [] [0, 2, 1])) ExampleComponent)
     = [(Error, GuardMessage)]"
  by (simp add: update_eval GuardMessage_def)

text \<open>
  C3, amended: for every update call that returns, a part supplied empty leaves the stored
  buffer of that part as it was; and when the call is not rejected by the dual-buffer
  length guard (no error line is logged), the lines it logs are exactly the warnings of
  the parts supplied empty, and every supplied part that is not empty is applied.
\<close>

theorem C3_empty_part_is_skipped:
  assumes "Update env c st = Inr st'"
  shows "\<exists>s s'. SectionSlot st (UpdateIndex c) = Some s \<and>
           SectionSlot st' (UpdateIndex c) = Some s' \<and>
           (SuppliedPositions (UpdateShape c) = Some [] \<longrightarrow>
              PositionVertexBuffer s' = PositionVertexBuffer s) \<and>
           (SuppliedVertices (UpdateShape c) = [] \<longrightarrow> VertexBuffer s' = VertexBuffer s) \<and>
           (SuppliedTriangles (UpdateShape c) = Some [] \<longrightarrow> IndexBuffer s' = IndexBuffer s) \<and>
           (\<not> RejectionLogged st st' \<longrightarrow>
              NewLogLines st st' = SkipWarnings (UpdateShape c) \<and> AllApplied (UpdateShape c) s')"
proof (cases "RejectionLogged st st'")
  case True
  with assms have st': "st' = Log GuardMessage True st" by (rule Update_rejected)
  from assms obtain s where "SectionSlot st (UpdateIndex c) = Some s"
    by (rule Update_Inr_D)
  with st' True show ?thesis by simp
next
  case False
  with assms obtain s f where s: "SectionSlot st (UpdateIndex c) = Some s"
    and f: "RunBlocks env (UpdateShape c) (MoveRequested (UpdateFlags c)) (StartUpdate s st) = Inr f"
    and st': "st' = FinishUpdate (UpdateIndex c) f"
    by (rule Update_accepted)
  from FinishUpdate_buffers [OF s f] st' obtain s' where
    s': "SectionSlot st' (UpdateIndex c) = Some s'"
    and b: "BuffersAfter (UpdateShape c) s s'"
    by blast
  from RunBlocks_Component [OF f] st'
  have "LogOutput st' = LogOutput st @ SkipWarnings (UpdateShape c)" by simp
  then have l: "NewLogLines st st' = SkipWarnings (UpdateShape c)" by (rule NewLogLines_append)
  from b have "AllApplied (UpdateShape c) s'"
    by (auto simp: BuffersAfter_def AllApplied_def split: option.splits)
  with s s' b l show ?thesis
    by (auto simp: BuffersAfter_def)
qed

theorem C3_witness:
  "\<exists>st'. Update ExampleEnv (ExampleUpdate ''FFullVertex'' 0 (UpdVTri [] [0, 2, 1, 0, 3, 2]))
            ExampleComponent = Inr st' \<and>
         (\<exists>s'. SectionSlot st' 0 = Some s' \<and>
               VertexBuffer s' = VertexBuffer ExampleQuadSection \<and>
               IndexBuffer s' = [0, 2, 1, 0, 3, 2] \<and>
               NewLogLines ExampleComponent st' =
                 [(Warning, ''UpdateMeshSection() - Vertices empty. They will not be updated.'')])"
proof -
  let ?c = "ExampleUpdate ''FFullVertex'' 0 (UpdVTri [] [0, 2, 1, 0, 3, 2])"
  have "\<exists>st'. Update ExampleEnv ?c ExampleComponent = Inr st' \<and>
              LogOutput st' =
                [(Warning, ''UpdateMeshSection() - Vertices empty. They will not be updated.'')]"
    by (simp add: update_eval)
  then obtain st' where r: "Update ExampleEnv ?c ExampleComponent = Inr st'"
    and l: "LogOutput st' =
              [(Warning, ''UpdateMeshSection() - Vertices empty. They will not be updated.'')]"
    by blast
  have n: "\<not> RejectionLogged ExampleComponent st'"
    by (simp add: RejectionLogged_def NewLogLines_def l ExampleComponent_def EmptyComponent_def)
  have s: "SectionSlot ExampleComponent 0 = Some ExampleQuadSection"
    by (simp add: SectionSlot_def ExampleComponent_def EmptyComponent_def)
  from C3_empty_part_is_skipped [OF r] n s r show ?thesis
    by (auto simp: ExampleUpdate_def AllApplied_def SkipWarnings_def)
qed

text \<open>
  C4, as claimed: an update call that supplies an index buffer whose length is not a
  multiple of 3 is rejected and leaves the index buffer as it was. It fails on the code:
  no update template looks at the length of the triangles beyond its being zero. On
  section 0 of the concrete component four indices replace the six stored ones.
\<close>

theorem C4_counterexample:
  "IndexBufferAfter
     (Update ExampleEnv (ExampleUpdate ''FFullVertex'' 0 (UpdVTri [] [0, 1, 2, 0]))
        ExampleComponent) 0 = Some [0, 1, 2, 0] \<and>
   length [0, 1, 2, 0 :: int] mod 3 = 1"
  by (simp add: update_eval)

text \<open>
  C4, amended: an update call that supplies an index buffer whose length is not a multiple
  of 3 is not refused for it: unless the dual-buffer length guard rejects the call, the
  supplied indices become the section's index buffer. (That the length be a multiple of 3
  is asked of the caller in the header's comments and is not checked.)
\<close>

theorem C4_index_buffer_replaced_unchecked:
  assumes "Update env c st = Inr st'"
    and "SuppliedTriangles (UpdateShape c) = Some T"
    and "length T mod 3 \<noteq> 0"
    and "\<not> RejectionLogged st st'"
  shows "\<exists>s'. SectionSlot st' (UpdateIndex c) = Some s' \<and> IndexBuffer s' = T"
proof -
  from assms(1,4) obtain s f where s: "SectionSlot st (UpdateIndex c) = Some s"
    and f: "RunBlocks env (UpdateShape c) (MoveRequested (UpdateFlags c)) (StartUpdate s st) = Inr f"
    and st': "st' = FinishUpdate (UpdateIndex c) f"
    by (rule Update_accepted)
  from assms(3) have "T \<noteq> []" by auto
  from FinishUpdate_buffers [OF s f] obtain s' where
    "SectionSlot (FinishUpdate (UpdateIndex c) f) (UpdateIndex c) = Some s'"
    and "BuffersAfter (UpdateShape c) s s'"
    by blast
  with \<open>T \<noteq> []\<close> assms(2) st' show ?thesis by (simp add: BuffersAfter_def)
qed

theorem C4_witness:
  "\<exists>st'. Update ExampleEnv (ExampleUpdate ''FDataVertex'' 1 (UpdDualTri [] [] [0, 1]))
            ExampleComponent = Inr st' \<and>
         length [0, 1 :: int] mod 3 \<noteq> 0 \<and>
         \<not> RejectionLogged ExampleComponent st' \<and>
         (\<exists>s'. SectionSlot st' 1 = Some s' \<and> IndexBuffer s' = [0, 1])"
proof -
  let ?c = "ExampleUpdate ''FDataVertex'' 1 (UpdDualTri [] [] [0, 1])"
  have "\<exists>st'. Update ExampleEnv ?c ExampleComponent = Inr st' \<and>
              Error \<notin> fst ` set (LogOutput st')"
    by (simp add: update_eval)
  then obtain st' where r: "Update ExampleEnv ?c ExampleComponent = Inr st'"
    and l: "Error \<notin> fst ` set (LogOutput st')"
    by blast
  have n: "\<not> RejectionLogged ExampleComponent st'"
    using l by (simp add: RejectionLogged_def NewLogLines_def ExampleComponent_def
        EmptyComponent_def)
  have t: "SuppliedTriangles (UpdateShape ?c) = Some [0, 1]"
    by (simp add: ExampleUpdate_def)
  have m: "length [0, 1 :: int] mod 3 \<noteq> 0" by simp
  from C4_index_buffer_replaced_unchecked [OF r t m n] r n show ?thesis
    by (simp add: ExampleUpdate_def)
qed

text \<open>
  C5, as claimed: for every creation call that passes the validation, the section exists at
  the index immediately afterwards and its bounding box is the supplied box, or the
  axis-aligned bounding box of the supplied positions. It fails at the largest index: the
  section index is an \<^verbatim>\<open>int32\<close>, and at \<^verbatim>\<open>MAX_int32\<close>, which the validation lets
  through, \<^verbatim>\<open>CreateOrResetSection\<close> grows the registry to \<^verbatim>\<open>SectionIndex + 1\<close> slots, a
  sum that overflows. On the empty component the call does not return and no section
  exists at the index.
\<close>

theorem C5_counterexample:
  "\<not> InvalidCreateArguments (ExampleQuadCall\<lparr>CreateIndex := 2147483647\<rparr>) \<and>
   Create ExampleEnv (ExampleQuadCall\<lparr>CreateIndex := 2147483647\<rparr>) EmptyComponent =
     Inl (Unspecified, EmptyComponent) \<and>
   \<not> DoesSectionExist EmptyComponent 2147483647"
  by (simp add: example_defs create_defs validate_defs CreateOrResetSection_def int32_defs
      InvalidCreateArguments_def DoesSectionExist_def SectionSlot_def)

text \<open>
  C5, amended (settled against the spec's description of the section's buffers and of the
  two queries): for every creation call whose arguments pass the validation and whose
  index is below \<^verbatim>\<open>MAX_int32\<close>, the call returns, the section exists at the index
  immediately afterwards, and the bounding box reported for it is the supplied box when
  one was given and otherwise the axis-aligned bounding box of the supplied positions
  (the position array of a dual-buffer creation, the positions of the vertices otherwise).
\<close>

theorem C5_valid_create_below_MAX_int32:
  assumes "\<not> InvalidCreateArguments c" and "CreateIndex c < MAX_int32"
  shows "\<exists>st'. Create env c st = Inr st' \<and> DoesSectionExist st' (CreateIndex c) \<and>
           (case CreateBox (CreateShape c) of
              Some B \<Rightarrow> GetSectionBoundingBox st' (CreateIndex c) = Some B
            | None \<Rightarrow>
                \<exists>b. GetSectionBoundingBox st' (CreateIndex c) = Some b \<and>
                    IsBoundingBoxOf b (PositionsOfCreate env (CreateShape c)))"
proof -
  let ?i = "CreateIndex c"
  let ?X = "st\<lparr>MeshSections := (RegistryFor (MeshSections st) ?i)
                      [nat ?i := Some (CreatedSection env c)]\<rparr>"
  let ?st' = "CreateSectionInternal ?i ?X"
  from assms have i: "InReach (MeshSections st) ?i"
    by (simp add: InvalidCreateArguments_def InReach_def)
  with assms have run: "Create env c st = Inr ?st'" by (simp add: Create_Inr_iff)
  have "SectionSlot ?st' ?i = SectionSlot ?X ?i"
    by (rule SectionSlot_cong) simp
  with InReach_slot [OF i] have slot: "SectionSlot ?st' ?i = Some (CreatedSection env c)"
    by simp
  have pos: "PositionsOfCreate env (CreateShape c) \<noteq> []"
    using assms by (auto simp: InvalidCreateArguments_def PositionsOfCreate_def split: option.splits)
  have get: "GetSectionBoundingBox ?st' ?i = Some (LocalBoundingBox (CreatedSection env c))"
    by (simp add: GetSectionBoundingBox_def slot)
  have val: "LocalBoundingBox (CreatedSection env c) =
               (case CreateBox (CreateShape c) of
                  Some B \<Rightarrow> B
                | None \<Rightarrow> BoxOfPositions (PositionsOfCreate env (CreateShape c)))"
    by (simp add: CreatedSection_def)
  have box: "case CreateBox (CreateShape c) of
              Some B \<Rightarrow> GetSectionBoundingBox ?st' ?i = Some B
            | None \<Rightarrow>
                \<exists>b. GetSectionBoundingBox ?st' ?i = Some b \<and>
                    IsBoundingBoxOf b (PositionsOfCreate env (CreateShape c))"
    using BoxOfPositions_is_box [OF pos] by (simp add: get val split: option.splits)
  have ex: "DoesSectionExist ?st' ?i" by (simp add: DoesSectionExist_def slot)
  from run ex box show ?thesis by blast
qed

theorem C5_witness:
  "\<not> InvalidCreateArguments ExampleQuadCall \<and>
   CreateIndex ExampleQuadCall < MAX_int32 \<and>
   (\<exists>st'. Create ExampleEnv ExampleQuadCall EmptyComponent = Inr st' \<and>
          DoesSectionExist st' 0 \<and>
          GetSectionBoundingBox st' 0 =
            Some \<lparr>BoxMin = (0, 0, 0), BoxMax = (1, 1, 0), IsValid = True\<rparr>)"
proof -
  have v: "\<not> InvalidCreateArguments ExampleQuadCall"
    by (simp add: InvalidCreateArguments_def ExampleQuadCall_def)
  have m: "CreateIndex ExampleQuadCall < MAX_int32"
    by (simp add: ExampleQuadCall_def MAX_int32_def)
  from C5_valid_create_below_MAX_int32 [OF v m, of ExampleEnv EmptyComponent]
  obtain st' where r: "Create ExampleEnv ExampleQuadCall EmptyComponent = Inr st'"
    and e: "DoesSectionExist st' 0"
    by (auto simp: ExampleQuadCall_def)
  from r have "st' = EmptyComponent
            \<lparr>MeshSections := [Some ExampleQuadSection],
             SyncTrace :=
               [\<lparr>SyncIndex = 0, SyncPositions = True, SyncVertices = True, SyncIndices = True,
                 SyncBounds = True, SyncSnapshot = Some ExampleQuadSection\<rparr>]\<rparr>"
    by (simp add: ExampleComponent_created(1))
  then have "GetSectionBoundingBox st' 0 =
            Some \<lparr>BoxMin = (0, 0, 0), BoxMax = (1, 1, 0), IsValid = True\<rparr>"
    by (simp add: GetSectionBoundingBox_def SectionSlot_def ExampleQuadSection_def)
  with v m r e show ?thesis by blast
qed

text \<open>
  C6 (settled against the spec's description of the batch state, of the finishing calls and
  of \<^verbatim>\<open>EndBatchUpdates\<close>): for every run of creations, updates and property changes made
  after \<^verbatim>\<open>BeginBatchUpdates\<close>, the synchronisation trace at the end of the run is the one
  before the batch (no synchronisation ran during the batch), and \<^verbatim>\<open>EndBatchUpdates\<close>
  appends exactly one full synchronisation for each section index the mutations touched,
  no index twice, each with the section as it is when the batch ends. The touched indices
  are read off the calls (\<open>TouchedBy\<close>): the index every creation names, the index every
  update names that the length guard does not reject and that supplies a part that is not
  empty, and the index every property change names that gives the flag another value.
\<close>

theorem C6_batch_synchronises_touched_sections_once:
  assumes "list_all IsSectionMutation cs"
    and "Run env cs (BeginBatchUpdates st) = Inr st'"
  shows "SyncTrace st' = SyncTrace st \<and>
         (\<exists>touched. distinct touched \<and>
            set touched = TouchedBy env cs (BeginBatchUpdates st) \<and>
            SyncTrace (EndBatchUpdates st') = SyncTrace st @ map (FullSyncOf st') touched)"
proof -
  from assms(1) have m: "\<forall>c \<in> set cs. IsSectionMutation c"
    by (simp add: list_all_iff)
  have p: "bIsBatchPending (BatchState (BeginBatchUpdates st))"
    and d: "distinct (TouchedSections (BatchState (BeginBatchUpdates st)))"
    and e: "set (TouchedSections (BatchState (BeginBatchUpdates st))) = {}"
    and t: "SyncTrace (BeginBatchUpdates st) = SyncTrace st"
    by (simp_all add: BeginBatchUpdates_def StartBatch_def)
  from Run_in_batch [OF m assms(2) p d] e t
  have 1: "SyncTrace st' = SyncTrace st"
    and 2: "bIsBatchPending (BatchState st')"
    and 3: "distinct (TouchedSections (BatchState st'))"
    and 4: "set (TouchedSections (BatchState st')) = TouchedBy env cs (BeginBatchUpdates st)"
    by simp_all
  from EndBatchUpdates_trace [OF 2] 1
  have "SyncTrace (EndBatchUpdates st') =
          SyncTrace st @ map (FullSyncOf st') (TouchedSections (BatchState st'))"
    by simp
  with 1 3 4 show ?thesis by blast
qed

theorem C6_witness:
  "list_all IsSectionMutation ExampleBatch \<and>
   (\<exists>st'. Run ExampleEnv ExampleBatch (BeginBatchUpdates ExampleComponent) = Inr st' \<and>
      SyncTrace st' = SyncTrace ExampleComponent \<and>
      (\<exists>touched. distinct touched \<and> set touched = {0, 1, 2} \<and>
         SyncTrace (EndBatchUpdates st') =
           SyncTrace ExampleComponent @ map (FullSyncOf st') touched))"
proof -
  have m: "list_all IsSectionMutation ExampleBatch"
    by (simp add: ExampleBatch_def)
  have "\<exists>st'. Run ExampleEnv ExampleBatch (BeginBatchUpdates ExampleComponent) = Inr st'"
    by (simp add: ExampleBatch_def update_eval api_eval create_eval)
  then obtain st' where
    r: "Run ExampleEnv ExampleBatch (BeginBatchUpdates ExampleComponent) = Inr st'"
    by blast
  have t: "TouchedBy ExampleEnv ExampleBatch (BeginBatchUpdates ExampleComponent) = {0, 1, 2}"
    by (simp add: ExampleBatch_def update_eval api_eval create_eval insert_commute)
  from C6_batch_synchronises_touched_sections_once [OF m r] m r t show ?thesis
    by simp
qed

text \<open>
  C7 (settled against the spec's description of the collision dirty tracker): starting
  from a component whose pending flag agrees with the scheduler, after every non-empty run
  of mutations that affect the collision (creation with collision enabled, clearing a
  section that has collision enabled, toggling a section's collision flag, changing the
  collision-only sections or the convex hulls), with no bake in between, the dirty flag
  is set and exactly one bake request is pending, however many mutations there were. (The
  agreement holds of the empty component and is kept by every call:
  \<open>RequestsMatchPending_EmptyComponent\<close>, \<open>Run_keeps_requests\<close>.)
\<close>

theorem C7_one_bake_request_pending:
  assumes "RequestsMatchPending st" and "AllAffectCollision env cs st"
    and "Run env cs st = Inr st'" and "cs \<noteq> []"
  shows "bCollisionDirty st' \<and> BakeRequests st' = 1"
  using Run_marks_collision [OF assms] by (simp add: CollisionMarked_def)

theorem C7_witness:
  "RequestsMatchPending ExampleComponent \<and>
   AllAffectCollision ExampleEnv ExampleCollisionCalls ExampleComponent \<and>
   ExampleCollisionCalls \<noteq> [] \<and>
   (\<exists>st'. Run ExampleEnv ExampleCollisionCalls ExampleComponent = Inr st' \<and>
          bCollisionDirty st' \<and> BakeRequests st' = 1)"
proof -
  have p: "RequestsMatchPending ExampleComponent"
    by (simp add: RequestsMatchPending_def ExampleComponent_def EmptyComponent_def)
  have a: "AllAffectCollision ExampleEnv ExampleCollisionCalls ExampleComponent"
    by (simp add: ExampleCollisionCalls_def update_eval api_eval)
  have n: "ExampleCollisionCalls \<noteq> []" by (simp add: ExampleCollisionCalls_def)
  have "\<exists>st'. Run ExampleEnv ExampleCollisionCalls ExampleComponent = Inr st'"
    by (simp add: ExampleCollisionCalls_def update_eval api_eval)
  then obtain st' where r: "Run ExampleEnv ExampleCollisionCalls ExampleComponent = Inr st'"
    by blast
  from C7_one_bake_request_pending [OF p a r n] p a n r show ?thesis by blast
qed

text \<open>
  C8 (settled against the spec's description of the layout check): every typed update
  template compares the caller's vertex type with the one recorded in the section before
  it changes anything. When they differ the call does not return, and the component at
  the point where it ends is the component the call was made on, whole: the section and
  every other section are unchanged, nothing is logged and nothing is synchronised. When
  the parameters pass the checks that stand before the comparison (a supplied box is
  valid, and the section is dual-buffer where the template takes a position array) the
  call ends with the layout mismatch of the two types.
\<close>

theorem C8_layout_checked_before_mutation:
  assumes "SectionSlot st (UpdateIndex c) = Some s"
    and "GetVertexType s \<noteq> UpdateVertexType c"
  shows "(\<exists>e. Update env c st = Inl (e, st)) \<and>
         ((case SuppliedBox (UpdateShape c) of Some B \<Rightarrow> IsValid B | None \<Rightarrow> True) \<and>
          (SuppliedPositions (UpdateShape c) \<noteq> None \<longrightarrow> IsDualBufferSection s) \<longrightarrow>
          Update env c st = Inl (LayoutMismatch (GetVertexType s) (UpdateVertexType c), st))"
  using UpdatePrologue_mismatch [OF assms, of env]
  by (auto simp: Update_eq_generic UpdateGeneric_def)

theorem C8_witness:
  "SectionSlot ExampleComponent 0 = Some ExampleQuadSection \<and>
   GetVertexType ExampleQuadSection \<noteq> ''FDataVertex'' \<and>
   Update ExampleEnv (ExampleUpdate ''FDataVertex'' 0 (UpdVTri [DataVertex 7] [0, 0, 0]))
     ExampleComponent = Inl (LayoutMismatch ''FFullVertex'' ''FDataVertex'', ExampleComponent)"
proof -
  let ?c = "ExampleUpdate ''FDataVertex'' 0 (UpdVTri [DataVertex 7] [0, 0, 0])"
  have s: "SectionSlot ExampleComponent (UpdateIndex ?c) = Some ExampleQuadSection"
    by (simp add: SectionSlot_def ExampleComponent_def EmptyComponent_def ExampleUpdate_def)
  have t: "GetVertexType ExampleQuadSection \<noteq> UpdateVertexType ?c"
    by (simp add: GetVertexType_def ExampleQuadSection_def ExampleUpdate_def)
  from C8_layout_checked_before_mutation [OF s t, of ExampleEnv] s t show ?thesis
    by (simp add: ExampleUpdate_def GetVertexType_def ExampleQuadSection_def)
qed



text \<open>
  C10: creating a section at an index that already holds one puts a new section object in
  the slot. Its collision flag and update frequency are the call's arguments (false and
  \<^verbatim>\<open>Average\<close> when left out), its visibility and shadow flags are the constructor's
  values, and nothing of it depends on the component the call was made on, so nothing
  carries over from the section it replaces.
\<close>

theorem C10_recreate_resets_flags:
  assumes "SectionSlot st (CreateIndex c) = Some old" and "Create env c st = Inr st'"
  shows "\<exists>s'. SectionSlot st' (CreateIndex c) = Some s' \<and>
           CollisionEnabled s' = ArgCollision c \<and>
           UpdateFrequency s' = ArgFrequency c \<and>
           (CreateCollision c = None \<longrightarrow> \<not> CollisionEnabled s') \<and>
           (CreateFrequency c = None \<longrightarrow> UpdateFrequency s' = Average) \<and>
           bIsVisible s' = CtorIsVisible env \<and>
           bCastsShadow s' = CtorCastsShadow env \<and>
           (\<forall>st2 st2'. Create env c st2 = Inr st2' \<longrightarrow> SectionSlot st2' (CreateIndex c) = Some s')"
proof -
  have slot: "SectionSlot st2' (CreateIndex c) = Some (CreatedSection env c)"
    if "Create env c st2 = Inr st2'" for st2 st2'
    using that by (auto simp: Create_Inr_iff InReach_def SectionSlot_def RegistryFor_def SetNum_def)
  have "CollisionEnabled (CreatedSection env c) = ArgCollision c"
    "UpdateFrequency (CreatedSection env c) = ArgFrequency c"
    "CreateCollision c = None \<longrightarrow> \<not> CollisionEnabled (CreatedSection env c)"
    "CreateFrequency c = None \<longrightarrow> UpdateFrequency (CreatedSection env c) = Average"
    "bIsVisible (CreatedSection env c) = CtorIsVisible env"
    "bCastsShadow (CreatedSection env c) = CtorCastsShadow env"
    by (simp_all add: CreatedSection_def ArgCollision_def ArgFrequency_def)
  with slot [OF assms(2)] slot show ?thesis
    by (intro exI [of _ "CreatedSection env c"]) simp
qed

theorem C10_witness:
  "SectionSlot
     (ExampleComponent
        \<lparr>MeshSections :=
           [Some (ExampleQuadSection\<lparr>CollisionEnabled := True, bIsVisible := False\<rparr>),
            Some ExampleDualSection]\<rparr>) 0 =
     Some (ExampleQuadSection\<lparr>CollisionEnabled := True, bIsVisible := False\<rparr>) \<and>
   (\<exists>st' s'.
      Create ExampleEnv ExampleQuadCall
        (ExampleComponent
           \<lparr>MeshSections :=
              [Some (ExampleQuadSection\<lparr>CollisionEnabled := True, bIsVisible := False\<rparr>),
               Some ExampleDualSection]\<rparr>) = Inr st' \<and>
      SectionSlot st' 0 = Some s' \<and> \<not> CollisionEnabled s' \<and> UpdateFrequency s' = Average \<and>
      bIsVisible s' \<and> bCastsShadow s')"
proof -
  let ?st = "ExampleComponent
        \<lparr>MeshSections :=
           [Some (ExampleQuadSection\<lparr>CollisionEnabled := True, bIsVisible := False\<rparr>),
            Some ExampleDualSection]\<rparr>"
  have s: "SectionSlot ?st (CreateIndex ExampleQuadCall) =
             Some (ExampleQuadSection\<lparr>CollisionEnabled := True, bIsVisible := False\<rparr>)"
    by (simp add: SectionSlot_def ExampleQuadCall_def)
  have "\<exists>st'. Create ExampleEnv ExampleQuadCall ?st = Inr st'"
    by (simp add: Create_Inr_iff InReach_def InvalidCreateArguments_def ExampleQuadCall_def)
  then obtain st' where r: "Create ExampleEnv ExampleQuadCall ?st = Inr st'" by blast
  from C10_recreate_resets_flags [OF s r] s r show ?thesis
    by (auto simp: ExampleQuadCall_def ExampleEnv_def)
qed

end
